(* ===== verification/Prelude.thy ===== *)
theory Prelude
  imports Main "HOL-Library.AList" "HOL-Library.Sublist"
begin

text \<open>
  Shared vocabulary of the crawler development: the collections of facts that the
  component theories feed to the simplifier when they evaluate a concrete run, the
  keys of a list of records under a partial identity function, and the generic list
  lemmas about them that the deduplication and pagination proofs share.
\<close>

named_theorems crawl_defs "definitions unfolded when a concrete request or run is evaluated"
named_theorems crawl_simps "derived rewrite rules of the crawler model"

subsection \<open>Keys of a list of records\<close>

text \<open>
  A record may lack its identity field; \<open>keys_of key xs\<close> lists the identities that
  are present, in the order of \<open>xs\<close> (Python: \<open>[key(r) for r in xs if key(r) is not None]\<close>).
\<close>

abbreviation keys_of :: "('r \<Rightarrow> 'k option) \<Rightarrow> 'r list \<Rightarrow> 'k list" where
  "keys_of key xs \<equiv> List.map_filter key xs"

lemma keys_of_append [simp]:
  "keys_of key (xs @ ys) = keys_of key xs @ keys_of key ys"
  by (induction xs) (auto split: option.splits)

lemma set_keys_of:
  "set (keys_of key xs) = {k. \<exists>r \<in> set xs. key r = Some k}"
  by (induction xs) (auto split: option.splits)

lemma keys_of_Some_in:
  "r \<in> set xs \<Longrightarrow> key r = Some k \<Longrightarrow> k \<in> set (keys_of key xs)"
  by (auto simp: set_keys_of)

lemma keys_of_filter_None [simp]:
  "keys_of key (filter (\<lambda>r. key r = None) xs) = []"
  by (induction xs) auto

lemma subseq_set_subset:
  "subseq xs ys \<Longrightarrow> set xs \<subseteq> set ys"
  by (auto dest: list_emb_set)

lemma keys_of_subseq:
  "subseq xs ys \<Longrightarrow> set (keys_of key xs) \<subseteq> set (keys_of key ys)"
  by (auto simp: set_keys_of dest: subseq_set_subset)

subsection \<open>Integer ranges\<close>

lemma nat_diff_Suc_int:
  "a \<le> b \<Longrightarrow> nat (b + 1 - a) = Suc (nat (b - a))"
  "a \<le> b \<Longrightarrow> nat (b - a + 1) = Suc (nat (b - a))"
  for a b :: int
  by simp_all

lemma upto_snoc_int:
  "a \<le> b + 1 \<Longrightarrow> [a..b + 1] = [a..b] @ [b + (1::int)]"
  by (simp add: upto_rec2)

end
