(* ===== verification/PyValue.thy ===== *)
theory PyValue
  imports Prelude
begin

text \<open>
  The dynamically typed values the service handles. A configuration of
  \<^verbatim>\<open>src/config.py\<close>, the \<^verbatim>\<open>custom_config\<close> of a request
  (\<^verbatim>\<open>Dict[str, Any]\<close> in \<^verbatim>\<open>src/api.py\<close>) and every record the extractor
  returns are JSON-like Python values: \<open>json\<close> below. A dict is an association list,
  because Python dicts keep insertion order and \<open>{**d, k: v}\<close> replaces a key in place
  (\<open>AList.update\<close> does the same). The Python operations \<^verbatim>\<open>src/api.py\<close> applies to
  such values are modelled with the exceptions they raise: \<open>d[k]\<close>, \<open>d.get(k, v)\<close>,
  truthiness in \<open>if\<close>/\<open>not\<close>, \<open>int >= value\<close> and the argument check of
  \<open>asyncio.sleep\<close>. A float is kept as the decimal literal it was written as,
  \<open>JFloat m e\<close> standing for \<open>m / 10^e\<close>: Python compares an int with a float
  exactly, so the model's comparisons agree with Python's except for a literal that the
  IEEE double nearest to it would round onto an integer (\<open>2.99999999999999999\<close>);
  NaN and infinities are not among the values.
\<close>

datatype json =
    JNull
  | JBool bool
  | JInt int
  | JFloat int nat
  | JStr string
  | JList "json list"
  | JObj "(string \<times> json) list"

text \<open>The exceptions that can leave the request handler.\<close>

datatype exn =
    KeyError string
  | TypeError
  | AttributeError
  | FetchFailure string
  | HTTPException nat string
  | ValidationError
  | IndexError

subsection \<open>Python operations on values\<close>

text \<open>\<open>d[k]\<close>: a missing key raises KeyError, a non-dict raises TypeError.\<close>

fun py_getitem :: "json \<Rightarrow> string \<Rightarrow> exn + json" where
  "py_getitem (JObj kvs) k = (case map_of kvs k of None \<Rightarrow> Inl (KeyError k) | Some v \<Rightarrow> Inr v)"
| "py_getitem _ k = Inl TypeError"

text \<open>\<open>d.get(k, default)\<close>: a non-dict has no attribute \<open>get\<close>.\<close>

fun py_get :: "json \<Rightarrow> string \<Rightarrow> json \<Rightarrow> exn + json" where
  "py_get (JObj kvs) k dflt = Inr (case map_of kvs k of None \<Rightarrow> dflt | Some v \<Rightarrow> v)"
| "py_get _ k dflt = Inl AttributeError"

text \<open>Truthiness, as \<open>if x\<close> and \<open>not x\<close> read it.\<close>

fun truthy :: "json \<Rightarrow> bool" where
  "truthy JNull = False"
| "truthy (JBool b) = b"
| "truthy (JInt i) = (i \<noteq> 0)"
| "truthy (JFloat m e) = (m \<noteq> 0)"
| "truthy (JStr s) = (s \<noteq> [])"
| "truthy (JList xs) = (xs \<noteq> [])"
| "truthy (JObj kvs) = (kvs \<noteq> [])"

text \<open>
  \<open>n >= v\<close> for a Python int \<open>n\<close>: an int compares as an int, a bool as 0 or 1
  (bool is a subclass of int), a float by value; any other value raises TypeError.
\<close>

fun py_ge_int :: "int \<Rightarrow> json \<Rightarrow> exn + bool" where
  "py_ge_int n (JInt i) = Inr (i \<le> n)"
| "py_ge_int n (JBool b) = Inr (of_bool b \<le> n)"
| "py_ge_int n (JFloat m e) = Inr (m \<le> n * 10 ^ e)"
| "py_ge_int n _ = Inl TypeError"

text \<open>
  The least int \<open>n\<close> with \<open>n >= v\<close> (0 for values that do not compare; the
  ceiling of a float): the page cap the pagination loop can reach.
\<close>

fun int_view :: "json \<Rightarrow> int" where
  "int_view (JInt i) = i"
| "int_view (JBool b) = of_bool b"
| "int_view (JFloat m e) = - ((- m) div 10 ^ e)"
| "int_view _ = 0"

text \<open>
  \<open>asyncio.sleep(delay)\<close> first evaluates \<open>delay <= 0\<close>: a value that is not a
  number raises TypeError before any waiting.
\<close>

fun py_sleep_check :: "json \<Rightarrow> exn option" where
  "py_sleep_check (JInt i) = None"
| "py_sleep_check (JBool b) = None"
| "py_sleep_check (JFloat m e) = None"
| "py_sleep_check _ = Some TypeError"

text \<open>
  \<open>v[0]\<close>: the first element of a list or the first character of a string (IndexError
  when empty); a dict of the model has string keys only, so \<open>0\<close> is a missing key.
\<close>

fun py_index0 :: "json \<Rightarrow> exn + json" where
  "py_index0 (JList (x # xs)) = Inr x"
| "py_index0 (JList []) = Inl IndexError"
| "py_index0 (JStr (c # cs)) = Inr (JStr [c])"
| "py_index0 (JStr []) = Inl IndexError"
| "py_index0 (JObj kvs) = Inl (KeyError ''0'')"
| "py_index0 _ = Inl TypeError"

text \<open>Whether a value is a dict, as pydantic checks a \<open>Dict[str, Any]\<close> field.\<close>

fun is_dict :: "json \<Rightarrow> bool" where
  "is_dict (JObj kvs) = True"
| "is_dict _ = False"

text \<open>A JSON list of strings, as the list of required field names.\<close>

fun json_strings :: "json \<Rightarrow> string list option" where
  "json_strings (JList xs) =
     (if list_all (\<lambda>x. case x of JStr _ \<Rightarrow> True | _ \<Rightarrow> False) xs
      then Some (map (\<lambda>x. case x of JStr s \<Rightarrow> s | _ \<Rightarrow> []) xs) else None)"
| "json_strings _ = None"

text \<open>\<open>{**base, k1: v1, ...}\<close>: the overriding pairs applied in order.\<close>

definition dict_merge :: "(string \<times> json) list \<Rightarrow> (string \<times> json) list \<Rightarrow> (string \<times> json) list" where
  "dict_merge base overrides = fold (\<lambda>(k, v) d. AList.update k v d) overrides base"

declare dict_merge_def [crawl_defs]

text \<open>
  The key order of a Python dict built by inserting the keys \<open>new\<close> into a dict with
  keys \<open>ks\<close>: a key already present keeps its position, a new key goes last.
\<close>

definition dict_key_order :: "string list \<Rightarrow> string list \<Rightarrow> string list" where
  "dict_key_order ks new = fold (\<lambda>k ks. if k \<in> set ks then ks else ks @ [k]) new ks"

subsection \<open>Facts about the operations\<close>

lemma ceiling_div_gt:
  fixes m n :: int
  assumes "\<not> m \<le> n * 10 ^ e"
  shows "n < - ((- m) div 10 ^ e)"
proof -
  have p: "(0::int) < 10 ^ e" by simp
  from assms have "- m \<le> (- n - 1) * 10 ^ e + (10 ^ e - 1)" by (simp add: algebra_simps)
  then have "(- m) div 10 ^ e \<le> ((- n - 1) * 10 ^ e + (10 ^ e - 1)) div 10 ^ e"
    by (rule zdiv_mono1) (rule p)
  also have "\<dots> = - n - 1"
    using p by (simp add: div_add_self1 add.commute)
  finally show ?thesis by simp
qed

lemma py_ge_int_Inr_False:
  "py_ge_int n v = Inr False \<Longrightarrow> n < int_view v"
  by (cases v) (auto intro: ceiling_div_gt)

lemma py_getitem_Inr:
  "py_getitem d k = Inr v \<longleftrightarrow> (\<exists>kvs. d = JObj kvs \<and> map_of kvs k = Some v)"
  by (cases d) (auto split: option.splits)

lemma map_fst_update:
  "map fst (AList.update k v al) = (if k \<in> set (map fst al) then map fst al else map fst al @ [k])"
  by (induction al) auto

lemma dict_merge_Cons:
  "dict_merge base (kv # ovs) = dict_merge (AList.update (fst kv) (snd kv) base) ovs"
  by (simp add: dict_merge_def split_beta)

lemma map_of_dict_merge:
  "map_of (dict_merge base overrides) = map_of base ++ map_of (rev overrides)"
proof (induction overrides arbitrary: base rule: rev_induct)
  case Nil
  then show ?case by (simp add: dict_merge_def)
next
  case (snoc kv ovs)
  then show ?case
    by (cases kv) (auto simp: dict_merge_def update_conv' map_add_def fun_eq_iff split: option.splits)
qed

subsection \<open>Dict spreads\<close>

text \<open>
  \<open>dict_merge\<close> behaves as Python's \<open>{**base, k1: v1, ...}\<close> on a dict
  \<open>base\<close> with distinct keys: the result has distinct keys, the keys of \<open>base\<close> keep
  their positions and new keys follow in order of first insertion, and a lookup finds
  the last override of its key, else the value in \<open>base\<close>.
\<close>

lemma dict_merge_spread:
  assumes "distinct (map fst base)"
  shows "distinct (map fst (dict_merge base ovs)) \<and>
         map fst (dict_merge base ovs) = dict_key_order (map fst base) (map fst ovs) \<and>
         map_of (dict_merge base ovs) = map_of base ++ map_of (rev ovs)"
proof -
  have "map fst (dict_merge base ovs) = dict_key_order (map fst base) (map fst ovs) \<and>
        distinct (map fst (dict_merge base ovs))"
    using assms
  proof (induction ovs arbitrary: base)
    case Nil
    then show ?case by (simp add: dict_merge_def dict_key_order_def)
  next
    case (Cons kv ovs)
    have "distinct (map fst (AList.update (fst kv) (snd kv) base))"
      using Cons.prems by (simp add: distinct_update)
    from Cons.IH [OF this] show ?case
      by (simp add: dict_merge_Cons dict_key_order_def map_fst_update split del: if_split) metis
  qed
  then show ?thesis by (simp add: map_of_dict_merge) metis
qed

end
