(* ===== verification/Dedup.thy ===== *)
theory Dedup
  imports Prelude
begin

text \<open>
  The deduplicating aggregator. \<^verbatim>\<open>src/api.py\<close> keeps one set
  \<^verbatim>\<open>seen_titles\<close> per request and hands it to \<^verbatim>\<open>fetch_and_process_page\<close>
  (module \<^verbatim>\<open>utils.scraper_utils\<close>, not part of the sources), which filters each
  page's records against it and adds the new identities. The filter is modelled from
  the specification (section 4.2): records are scanned in order; a record whose identity
  is already seen is dropped, otherwise its identity is added and the record kept; a
  record without an identity is always kept. The model is generic in the record type
  and in the identity function \<open>key\<close>, so it states the interface the pagination loop
  relies on.

  The theory proves the filter against a declarative reference (a record is kept iff it
  is the first occurrence of its identity and that identity was not seen before), and
  the facts the loop needs: the result is a subsequence, its identities are distinct and
  fresh, the seen set grows by exactly the identities of the input, filtering two pages
  one after the other is filtering their concatenation, and filtering again with the
  updated set admits nothing new.
\<close>

fun dedup_filter :: "('r \<Rightarrow> 'k option) \<Rightarrow> 'r list \<Rightarrow> 'k set \<Rightarrow> 'r list \<times> 'k set" where
  "dedup_filter key [] seen = ([], seen)"
| "dedup_filter key (r # rs) seen =
     (case key r of
        None \<Rightarrow> (let (kept, seen') = dedup_filter key rs seen in (r # kept, seen'))
      | Some k \<Rightarrow>
          (if k \<in> seen then dedup_filter key rs seen
           else (let (kept, seen') = dedup_filter key rs (insert k seen) in (r # kept, seen'))))"

subsection \<open>Declarative reference\<close>

text \<open>
  Position \<open>i\<close> of \<open>rs\<close> survives iff its record has no identity, or its identity is
  neither in \<open>seen\<close> nor carried by an earlier record of \<open>rs\<close> (first one wins).
\<close>

definition first_occurrence :: "('r \<Rightarrow> 'k option) \<Rightarrow> 'k set \<Rightarrow> 'r list \<Rightarrow> nat \<Rightarrow> bool" where
  "first_occurrence key seen rs i =
     (case key (rs ! i) of
        None \<Rightarrow> True
      | Some k \<Rightarrow> k \<notin> seen \<and> Some k \<notin> set (map key (take i rs)))"

definition dedup_spec :: "('r \<Rightarrow> 'k option) \<Rightarrow> 'k set \<Rightarrow> 'r list \<Rightarrow> 'r list" where
  "dedup_spec key seen rs =
     map snd (filter (\<lambda>(i, r). first_occurrence key seen rs i) (enumerate 0 rs))"

subsection \<open>Basic facts\<close>

lemma dedup_filter_seen:
  "snd (dedup_filter key rs seen) = seen \<union> set (keys_of key rs)"
  by (induction key rs seen rule: dedup_filter.induct)
     (auto simp: split_beta split: option.splits)

lemma dedup_filter_subseq:
  "subseq (fst (dedup_filter key rs seen)) rs"
  by (induction key rs seen rule: dedup_filter.induct)
     (auto simp: split_beta split: option.splits)

lemma dedup_filter_keys:
  "set (keys_of key (fst (dedup_filter key rs seen))) = set (keys_of key rs) - seen"
  by (induction key rs seen rule: dedup_filter.induct)
     (auto simp: split_beta split: option.splits)

lemma dedup_filter_keys_fresh:
  "set (keys_of key (fst (dedup_filter key rs seen))) \<inter> seen = {}"
  by (auto simp: dedup_filter_keys)

lemma dedup_filter_keys_distinct:
  "distinct (keys_of key (fst (dedup_filter key rs seen)))"
proof (induction key rs seen rule: dedup_filter.induct)
  case (1 key seen)
  then show ?case by simp
next
  case (2 key r rs seen)
  show ?case
  proof (cases "key r")
    case None
    with "2.IH"(1) show ?thesis by (simp add: split_beta)
  next
    case (Some k)
    have "k \<notin> set (keys_of key (fst (dedup_filter key rs (insert k seen))))"
      by (simp add: dedup_filter_keys)
    with Some "2.IH"(2,3) show ?thesis by (simp add: split_beta)
  qed
qed

lemma dedup_filter_unkeyed:
  "filter (\<lambda>r. key r = None) (fst (dedup_filter key rs seen)) = filter (\<lambda>r. key r = None) rs"
  by (induction key rs seen rule: dedup_filter.induct)
     (auto simp: split_beta split: option.splits)

lemma dedup_filter_append:
  "dedup_filter key (xs @ ys) seen =
     (let (a, s1) = dedup_filter key xs seen; (b, s2) = dedup_filter key ys s1 in (a @ b, s2))"
  by (induction key xs seen rule: dedup_filter.induct)
     (auto simp: split_beta Let_def split: option.splits)

lemma dedup_filter_all_seen:
  "set (keys_of key rs) \<subseteq> seen \<Longrightarrow>
     dedup_filter key rs seen = (filter (\<lambda>r. key r = None) rs, seen)"
  by (induction key rs seen rule: dedup_filter.induct)
     (auto simp: split_beta split: option.splits)

text \<open>A page whose records all carry an identity already seen keeps nothing.\<close>

lemma dedup_filter_all_keyed_seen:
  "\<forall>r \<in> set rs. \<exists>k \<in> seen. key r = Some k \<Longrightarrow> dedup_filter key rs seen = ([], seen)"
  by (induction key rs seen rule: dedup_filter.induct) auto

subsection \<open>Equivalence with the reference\<close>

lemma first_occurrence_0:
  "first_occurrence key seen (r # rs) 0 = (case key r of None \<Rightarrow> True | Some k \<Rightarrow> k \<notin> seen)"
  by (simp add: first_occurrence_def split: option.splits)

lemma first_occurrence_Suc:
  "first_occurrence key seen (r # rs) (Suc i) =
     first_occurrence key (seen \<union> set (keys_of key [r])) rs i"
  by (auto simp: first_occurrence_def split: option.splits)

lemma dedup_spec_Cons:
  "dedup_spec key seen (r # rs) =
     (if first_occurrence key seen (r # rs) 0 then [r] else []) @
     dedup_spec key (seen \<union> set (keys_of key [r])) rs"
proof -
  have "enumerate 0 (r # rs) = (0, r) # map (apfst Suc) (enumerate 0 rs)"
    by (simp add: enumerate_Suc_eq)
  then show ?thesis
    by (simp add: dedup_spec_def filter_map comp_def case_prod_unfold first_occurrence_Suc)
qed

lemma dedup_filter_eq_spec:
  "fst (dedup_filter key rs seen) = dedup_spec key seen rs"
proof (induction key rs seen rule: dedup_filter.induct)
  case (1 key seen)
  then show ?case by (simp add: dedup_spec_def)
next
  case (2 key r rs seen)
  show ?case
  proof (cases "key r")
    case None
    with "2.IH"(1) show ?thesis
      by (simp add: dedup_spec_Cons first_occurrence_0 split_beta)
  next
    case (Some k)
    then show ?thesis
    proof (cases "k \<in> seen")
      case True
      with Some "2.IH"(2) have "fst (dedup_filter key rs seen) = dedup_spec key seen rs"
        by simp
      with Some True show ?thesis
        by (simp add: dedup_spec_Cons first_occurrence_0 insert_absorb)
    next
      case False
      with Some "2.IH"(3) show ?thesis
        by (simp add: dedup_spec_Cons first_occurrence_0 split_beta)
    qed
  qed
qed

end
