(* ===== verification/Fetcher.thy ===== *)
theory Fetcher
  imports PyValue Dedup
begin

text \<open>
  The page fetcher, the collaborator the pagination loop calls once per page
  (\<^verbatim>\<open>fetch_and_process_page\<close> in \<^verbatim>\<open>src/api.py\<close>, lines 91 to 100). Its code
  lives in \<^verbatim>\<open>utils/scraper_utils.py\<close>, which is not among the sources, so it is modelled
  from the specification (sections 4.2 and 6). Two layers:
  \<^item> \<open>'u raw_fetcher\<close>: the browser and LLM extraction (crawl4ai), left abstract. Given
    the page number, base URL and CSS selector and the state \<open>'u\<close> of the LLM
    strategy (its usage counters), it returns the extracted records and the
    "no results" signal, or a fatal exception, and the strategy's new state.
  \<^item> \<open>fetch_and_process_page\<close>: on "no results" it returns no records; otherwise it keeps
    the records that carry every required key and passes them through the
    deduplicating filter of \<open>Dedup\<close>, against the request's \<open>seen_titles\<close>, which
    it updates (the Python set is mutated in place; here it is returned).
  \<open>'u page_fetcher\<close> is the interface the loop is generic in; \<open>respects_seen\<close> is
  what the loop needs of a fetcher, and \<open>fetch_and_process_page_respects_seen\<close>
  discharges it for the modelled one.
\<close>

type_synonym 'u raw_fetcher = "int \<Rightarrow> json \<Rightarrow> json \<Rightarrow> 'u \<Rightarrow> (exn + json list \<times> bool) \<times> 'u"

type_synonym 'u page_fetcher =
  "int \<Rightarrow> json \<Rightarrow> json \<Rightarrow> json \<Rightarrow> json set \<Rightarrow> 'u \<Rightarrow> (exn + json list \<times> bool) \<times> json set \<times> 'u"

text \<open>The identity of a record: the value of its identity field, if it has one.\<close>

fun identity_key :: "string \<Rightarrow> json \<Rightarrow> json option" where
  "identity_key idf (JObj kvs) = map_of kvs idf"
| "identity_key idf _ = None"

text \<open>A record is complete when it carries every required key.\<close>

fun is_complete :: "string list \<Rightarrow> json \<Rightarrow> bool" where
  "is_complete ks (JObj kvs) = list_all (\<lambda>k. map_of kvs k \<noteq> None) ks"
| "is_complete ks _ = False"

definition fetch_and_process_page :: "string \<Rightarrow> 'u raw_fetcher \<Rightarrow> 'u page_fetcher" where
  "fetch_and_process_page idf raw page url sel req seen u =
     (case raw page url sel u of
        (Inl e, u') \<Rightarrow> (Inl e, seen, u')
      | (Inr (recs, no_results), u') \<Rightarrow>
          (if no_results then (Inr ([], True), seen, u')
           else (case json_strings req of
                   None \<Rightarrow> (Inl TypeError, seen, u')
                 | Some ks \<Rightarrow>
                     (let (kept, seen') =
                            dedup_filter (identity_key idf) (filter (is_complete ks) recs) seen
                      in (Inr (kept, False), seen', u')))))"

declare fetch_and_process_page_def [crawl_defs]

subsection \<open>The interface the loop relies on\<close>

text \<open>
  A fetcher respects the seen set for an identity function when every page it returns
  has pairwise distinct identities, none of them already seen, and the returned set
  contains the old one and the page's identities.
\<close>

definition respects_seen :: "(json \<Rightarrow> json option) \<Rightarrow> 'u page_fetcher \<Rightarrow> bool" where
  "respects_seen key f \<longleftrightarrow>
     (\<forall>p url sel req seen u items nr seen' u'.
        f p url sel req seen u = (Inr (items, nr), seen', u') \<longrightarrow>
          distinct (keys_of key items) \<and> set (keys_of key items) \<inter> seen = {} \<and>
          seen \<union> set (keys_of key items) \<subseteq> seen')"

text \<open>
  A fetcher keeps only complete records for the required keys \<open>ks\<close> (given to it as the
  request's \<open>REQUIRED_KEYS\<close> value \<open>req\<close>) when every page it returns consists of
  records carrying all of \<open>ks\<close>.
\<close>

definition keeps_complete :: "json \<Rightarrow> string list \<Rightarrow> 'u page_fetcher \<Rightarrow> bool" where
  "keeps_complete req ks f \<longleftrightarrow>
     (\<forall>p url sel seen u items nr seen' u'.
        f p url sel req seen u = (Inr (items, nr), seen', u') \<longrightarrow> list_all (is_complete ks) items)"

text \<open>A fetcher returns dicts when every record of every page it returns is a dict.\<close>

definition returns_dicts :: "'u page_fetcher \<Rightarrow> bool" where
  "returns_dicts f \<longleftrightarrow>
     (\<forall>p url sel req seen u items nr seen' u'.
        f p url sel req seen u = (Inr (items, nr), seen', u') \<longrightarrow> list_all is_dict items)"

subsection \<open>A site with fixed pages\<close>

text \<open>
  A raw extraction whose result depends on the page number only: \<open>pg p = None\<close> is a
  page with no results, \<open>Some rs\<close> the records extracted from it; \<open>tick\<close> advances
  the strategy's usage counters on each call. \<open>site_page\<close> is what the fetcher keeps
  of a page before deduplication.
\<close>

definition static_site :: "(int \<Rightarrow> json list option) \<Rightarrow> ('u \<Rightarrow> 'u) \<Rightarrow> 'u raw_fetcher" where
  "static_site pg tick p url sel u =
     (case pg p of None \<Rightarrow> (Inr ([], True), tick u) | Some rs \<Rightarrow> (Inr (rs, False), tick u))"

definition site_page :: "string list \<Rightarrow> (int \<Rightarrow> json list option) \<Rightarrow> int \<Rightarrow> json list" where
  "site_page ks pg p = (case pg p of None \<Rightarrow> [] | Some rs \<Rightarrow> filter (is_complete ks) rs)"

declare static_site_def [crawl_defs] site_page_def [crawl_defs]

subsection \<open>What the fetcher guarantees\<close>

text \<open>A page the fetcher returns: the raw result, emptied or deduplicated.\<close>

lemma fetch_and_process_page_Inr:
  assumes "fetch_and_process_page idf raw p url sel req seen u = (Inr (items, nr), seen', u')"
  shows "\<exists>recs. raw p url sel u = (Inr (recs, nr), u') \<and>
           (if nr then items = [] \<and> seen' = seen
            else \<exists>ks. json_strings req = Some ks \<and>
                   (items, seen') = dedup_filter (identity_key idf) (filter (is_complete ks) recs) seen)"
  using assms
  by (cases "raw p url sel u")
     (auto simp: fetch_and_process_page_def split_beta split: sum.splits if_splits option.splits)

text \<open>
  A page whose complete records all carry an identity already seen is returned empty
  (not as "no results"), and the seen set is unchanged.
\<close>

lemma fetch_and_process_page_seen_page:
  assumes "raw p url sel u = (Inr (recs, False), u')" and "json_strings req = Some ks"
    and "\<forall>r \<in> set (filter (is_complete ks) recs). \<exists>k \<in> seen. identity_key idf r = Some k"
  shows "fetch_and_process_page idf raw p url sel req seen u = (Inr ([], False), seen, u')"
  using assms by (simp add: fetch_and_process_page_def dedup_filter_all_keyed_seen)

lemma fetch_and_process_page_respects_seen:
  "respects_seen (identity_key idf) (fetch_and_process_page idf raw)"
  unfolding respects_seen_def
proof (intro allI impI)
  fix p url sel req seen u items nr seen' u'
  assume "fetch_and_process_page idf raw p url sel req seen u = (Inr (items, nr), seen', u')"
  from fetch_and_process_page_Inr [OF this] obtain recs where
    c: "if nr then items = [] \<and> seen' = seen
        else \<exists>ks. json_strings req = Some ks \<and>
               (items, seen') = dedup_filter (identity_key idf) (filter (is_complete ks) recs) seen"
    by blast
  show "distinct (keys_of (identity_key idf) items) \<and>
        set (keys_of (identity_key idf) items) \<inter> seen = {} \<and>
        seen \<union> set (keys_of (identity_key idf) items) \<subseteq> seen'"
  proof (cases nr)
    case True
    with c show ?thesis by simp
  next
    case False
    with c obtain ks where
      d: "(items, seen') = dedup_filter (identity_key idf) (filter (is_complete ks) recs) seen"
      by auto
    then have "items = fst (dedup_filter (identity_key idf) (filter (is_complete ks) recs) seen)"
      "seen' = snd (dedup_filter (identity_key idf) (filter (is_complete ks) recs) seen)"
      by (metis fst_conv, metis snd_conv)
    then show ?thesis
      by (simp add: dedup_filter_keys_distinct dedup_filter_keys_fresh dedup_filter_seen
                    dedup_filter_keys) blast
  qed
qed

lemma fetch_and_process_page_keeps_complete:
  assumes "json_strings req = Some ks"
  shows "keeps_complete req ks (fetch_and_process_page idf raw)"
  unfolding keeps_complete_def
proof (intro allI impI)
  fix p url sel seen u items nr seen' u'
  assume "fetch_and_process_page idf raw p url sel req seen u = (Inr (items, nr), seen', u')"
  from fetch_and_process_page_Inr [OF this] assms obtain recs where
    c: "if nr then items = []
        else (items, seen') = dedup_filter (identity_key idf) (filter (is_complete ks) recs) seen"
    by (auto split: if_splits)
  then have "items = [] \<or> subseq items (filter (is_complete ks) recs)"
    by (metis dedup_filter_subseq fst_conv)
  then show "list_all (is_complete ks) items"
    by (auto simp: list_all_iff dest!: subseq_set_subset)
qed

lemma is_complete_is_dict: "is_complete ks r \<Longrightarrow> is_dict r"
  by (cases r) simp_all

lemma fetch_and_process_page_returns_dicts:
  "returns_dicts (fetch_and_process_page idf raw)"
  unfolding returns_dicts_def
proof (intro allI impI)
  fix p url sel req seen u items nr seen' u'
  assume "fetch_and_process_page idf raw p url sel req seen u = (Inr (items, nr), seen', u')"
  from fetch_and_process_page_Inr [OF this] obtain recs where
    c: "if nr then items = [] \<and> seen' = seen
        else \<exists>ks. json_strings req = Some ks \<and>
               (items, seen') = dedup_filter (identity_key idf) (filter (is_complete ks) recs) seen"
    by blast
  show "list_all is_dict items"
  proof (cases nr)
    case True
    with c show ?thesis by simp
  next
    case False
    with c obtain ks where
      "(items, seen') = dedup_filter (identity_key idf) (filter (is_complete ks) recs) seen"
      by auto
    then have "subseq items (filter (is_complete ks) recs)"
      by (metis dedup_filter_subseq fst_conv)
    then show ?thesis
      by (auto simp: list_all_iff dest!: subseq_set_subset intro!: is_complete_is_dict)
  qed
qed

lemma fetch_static_site:
  assumes "json_strings req = Some ks"
  shows "fetch_and_process_page idf (static_site pg tick) p url sel req seen u =
           (Inr (fst (dedup_filter (identity_key idf) (site_page ks pg p) seen), pg p = None),
            snd (dedup_filter (identity_key idf) (site_page ks pg p) seen), tick u)"
  using assms
  by (simp add: fetch_and_process_page_def static_site_def site_page_def split_beta
           split: option.splits)

lemma static_site_usage:
  "fetch_and_process_page idf (static_site pg tick) p url sel req seen u = (r, seen', u') \<Longrightarrow> u' = tick u"
  by (auto simp: fetch_and_process_page_def static_site_def split_beta
           split: option.splits if_splits)

end
