(* ===== verification/Pagination.thy ===== *)
theory Pagination
  imports Fetcher
begin

text \<open>
  The pagination controller: the \<^verbatim>\<open>while True\<close> loop of \<^verbatim>\<open>crawl\<close> in
  \<^verbatim>\<open>src/api.py\<close> (lines 77 to 116), inside the \<^verbatim>\<open>async with AsyncWebCrawler\<close>
  block. Its state is a record of the loop variables (\<^verbatim>\<open>page_number\<close>,
  \<^verbatim>\<open>all_items\<close>, \<^verbatim>\<open>seen_titles\<close>), the state of the LLM strategy the fetcher
  updates, and the trace of the effects the loop performs on the outside world: opening
  and closing the crawler, fetching a page, sleeping. The values the handler reads from
  the configuration before the loop (lines 82 to 85) form the loop's environment;
  \<^verbatim>\<open>config["BASE_URL"]\<close> and \<^verbatim>\<open>config["CSS_SELECTOR"]\<close> are read inside the
  loop, at each call, as the code does.

  One iteration is \<open>crawl_iteration\<close>, with three outcomes: continue with the next page,
  break out of the loop, or raise an exception. \<open>crawl_loop\<close> repeats it; it is a
  total function: a continuing iteration needs \<open>page_number < max_pages\<close> and
  increments the page, so \<open>max_pages - page_number\<close> decreases. The states reachable
  by continuing iterations are the inductive \<open>iter_reach\<close>; the loop's results are
  characterised through it, and the invariants are proved one iteration at a time and
  lifted by rule induction.
\<close>

subsection \<open>The loop\<close>

datatype event = OpenCrawler | FetchPage int | Sleep json | CloseCrawler

record crawl_env =
  cfg :: json
  required_keys :: json
  multi_page :: json
  max_pages :: json
  delay :: json

record 'u loop_state =
  page_number :: int
  all_items :: "json list"
  seen_titles :: "json set"
  usage :: 'u
  trace :: "event list"

datatype 'a step = Continue 'a | Break 'a | Raise exn 'a

definition crawl_iteration :: "'u page_fetcher \<Rightarrow> crawl_env \<Rightarrow> 'u loop_state \<Rightarrow> 'u loop_state step" where
  "crawl_iteration fetch env st =
     (case py_getitem (cfg env) ''BASE_URL'' of
        Inl e \<Rightarrow> Raise e st
      | Inr url \<Rightarrow>
     (case py_getitem (cfg env) ''CSS_SELECTOR'' of
        Inl e \<Rightarrow> Raise e st
      | Inr sel \<Rightarrow>
     (case fetch (page_number st) url sel (required_keys env) (seen_titles st) (usage st) of
        (r, seen', u') \<Rightarrow>
     (let st1 = st\<lparr>seen_titles := seen', usage := u',
                   trace := trace st @ [FetchPage (page_number st)]\<rparr>
      in (case r of
            Inl e \<Rightarrow> Raise e st1
          | Inr (items, no_results_found) \<Rightarrow>
              (if no_results_found then Break st1
               else if items = [] then Break st1
               else
                 (let st2 = st1\<lparr>all_items := all_items st1 @ items\<rparr>
                  in if \<not> truthy (multi_page env) then Break st2
                     else (case py_ge_int (page_number st2) (max_pages env) of
                             Inl e \<Rightarrow> Raise e st2
                           | Inr True \<Rightarrow> Break st2
                           | Inr False \<Rightarrow>
                               (let st3 = st2\<lparr>page_number := page_number st2 + 1\<rparr>
                                in (case py_sleep_check (delay env) of
                                      Some e \<Rightarrow> Raise e st3
                                    | None \<Rightarrow>
                                        Continue (st3\<lparr>trace := trace st3 @ [Sleep (delay env)]\<rparr>)))))))))))"

function crawl_loop :: "'u page_fetcher \<Rightarrow> crawl_env \<Rightarrow> 'u loop_state \<Rightarrow> (exn \<times> 'u loop_state) + 'u loop_state" where
  "crawl_loop f env st =
     (case crawl_iteration f env st of
        Continue st' \<Rightarrow> crawl_loop f env st'
      | Break st' \<Rightarrow> Inr st'
      | Raise e st' \<Rightarrow> Inl (e, st'))"
  by pat_completeness auto
termination
proof (relation "measure (\<lambda>(f, env, st). nat (int_view (max_pages env) - page_number st))")
  show "wf (measure (\<lambda>(f, env, st). nat (int_view (max_pages env) - page_number st)))"
    by simp
next
  fix f :: "'u page_fetcher" and env st st'
  assume "crawl_iteration f env st = Continue st'"
  then have "page_number st' = page_number st + 1 \<and> page_number st < int_view (max_pages env)"
    by (auto simp: crawl_iteration_def Let_def dest: py_ge_int_Inr_False
             split: sum.splits prod.splits if_splits option.splits bool.splits)
  then show "((f, env, st'), f, env, st) \<in> measure (\<lambda>(f, env, st). nat (int_view (max_pages env) - page_number st))"
    by auto
qed

declare crawl_loop.simps [simp del]

subsection \<open>Observations of a run\<close>

text \<open>The states the loop passes through: the start and every continuing iteration.\<close>

inductive iter_reach :: "'u page_fetcher \<Rightarrow> crawl_env \<Rightarrow> 'u loop_state \<Rightarrow> 'u loop_state \<Rightarrow> bool"
  for f env s0 where
  start: "iter_reach f env s0 s0"
| step: "iter_reach f env s0 s \<Longrightarrow> crawl_iteration f env s = Continue s' \<Longrightarrow> iter_reach f env s0 s'"

text \<open>
  The loop ends in the outcome of one last iteration, taken from a reachable state:
  \<open>Inr\<close> when that iteration breaks, \<open>Inl\<close> when it raises.
\<close>

definition last_iteration :: "'u page_fetcher \<Rightarrow> crawl_env \<Rightarrow> 'u loop_state \<Rightarrow> (exn \<times> 'u loop_state) + 'u loop_state \<Rightarrow> bool" where
  "last_iteration f env s r =
     (case r of Inl (e, s') \<Rightarrow> crawl_iteration f env s = Raise e s'
              | Inr s' \<Rightarrow> crawl_iteration f env s = Break s')"

text \<open>
  The effects of the continuing iterations from page \<open>a\<close> to page \<open>b\<close>: each page is
  fetched and followed by one sleep. \<open>pages_trace\<close> adds the fetch of the last page,
  the one the loop breaks on.
\<close>

definition fetch_sleep_trace :: "json \<Rightarrow> int \<Rightarrow> int \<Rightarrow> event list" where
  "fetch_sleep_trace d a b = concat (map (\<lambda>p. [FetchPage p, Sleep d]) [a..b - 1])"

definition pages_trace :: "json \<Rightarrow> int \<Rightarrow> int \<Rightarrow> event list" where
  "pages_trace d a b = fetch_sleep_trace d a b @ [FetchPage b]"

declare fetch_sleep_trace_def [crawl_defs] pages_trace_def [crawl_defs] crawl_iteration_def [crawl_defs]

text \<open>How many pages a trace fetches, and the crawler events it contains.\<close>

definition fetch_count :: "event list \<Rightarrow> nat" where
  "fetch_count tr = length (filter (\<lambda>e. case e of FetchPage _ \<Rightarrow> True | _ \<Rightarrow> False) tr)"

text \<open>The unique-identity invariant of the accumulated records.\<close>

definition unique_items :: "(json \<Rightarrow> json option) \<Rightarrow> 'u loop_state \<Rightarrow> bool" where
  "unique_items key s \<longleftrightarrow>
     distinct (keys_of key (all_items s)) \<and> set (keys_of key (all_items s)) \<subseteq> seen_titles s"

text \<open>
  When the base URL and selector are present, multi-page crawling is on with an integer
  cap, the delay is a number, and the fetcher returns a non-empty page with results
  whatever it is asked, an iteration never raises and breaks only at the cap.
\<close>

definition always_fetches :: "'u page_fetcher \<Rightarrow> json \<Rightarrow> json \<Rightarrow> json \<Rightarrow> bool" where
  "always_fetches f url sel req \<longleftrightarrow>
     (\<forall>p seen u. \<exists>items seen' u'. items \<noteq> [] \<and> f p url sel req seen u = (Inr (items, False), seen', u'))"

subsection \<open>What one iteration does\<close>

text \<open>A continuing iteration moves to the next page below the cap, after a sleep.\<close>

lemma crawl_iteration_Continue:
  assumes "crawl_iteration f env st = Continue st'"
  shows "page_number st' = page_number st + 1 \<and> page_number st < int_view (max_pages env) \<and>
         truthy (multi_page env) \<and> py_sleep_check (delay env) = None \<and>
         trace st' = trace st @ [FetchPage (page_number st), Sleep (delay env)] \<and>
         (\<exists>items. items \<noteq> [] \<and> all_items st' = all_items st @ items)"
  using assms
  by (auto simp: crawl_iteration_def Let_def py_ge_int_Inr_False
           split: sum.splits prod.splits if_splits option.splits bool.splits)

lemma crawl_iteration_Break:
  assumes "crawl_iteration f env st = Break st'"
  shows "page_number st' = page_number st \<and> trace st' = trace st @ [FetchPage (page_number st)]"
  using assms
  by (auto simp: crawl_iteration_def Let_def
           split: sum.splits prod.splits if_splits option.splits bool.splits)

lemma crawl_iteration_Raise:
  assumes "crawl_iteration f env st = Raise e st'"
  shows "(trace st' = trace st \<and> page_number st' = page_number st) \<or>
         (trace st' = trace st @ [FetchPage (page_number st)] \<and>
          (page_number st' = page_number st \<or>
           (page_number st' = page_number st + 1 \<and> page_number st < int_view (max_pages env))))"
  using assms
  by (auto simp: crawl_iteration_def Let_def py_ge_int_Inr_False
           split: sum.splits prod.splits if_splits option.splits bool.splits)

text \<open>
  An iteration that does not raise has called the fetcher on the current page and
  state, kept the seen set and strategy state it returned, and appended the page it
  returned unless the page signalled "no results".
\<close>

lemma crawl_iteration_fetched:
  assumes "crawl_iteration f env st = Continue st' \<or> crawl_iteration f env st = Break st'"
  shows "\<exists>url sel items nr.
           f (page_number st) url sel (required_keys env) (seen_titles st) (usage st) =
             (Inr (items, nr), seen_titles st', usage st') \<and>
           all_items st' = all_items st @ (if nr then [] else items)"
  using assms
  by (auto simp: crawl_iteration_def Let_def
           split: sum.splits prod.splits if_splits option.splits bool.splits; blast)

text \<open>
  The loop's two early stops: a page that signals "no results" or comes back empty ends
  the loop after its fetch, with the page counted and nothing appended.
\<close>

lemma crawl_iteration_stops:
  assumes "py_getitem (cfg env) ''BASE_URL'' = Inr url" and "py_getitem (cfg env) ''CSS_SELECTOR'' = Inr sel"
    and "f (page_number st) url sel (required_keys env) (seen_titles st) (usage st) = (Inr (items, nr), seen', u')"
    and "nr \<or> items = []"
  shows "crawl_iteration f env st =
           Break (st\<lparr>seen_titles := seen', usage := u', trace := trace st @ [FetchPage (page_number st)]\<rparr>)"
  using assms by (auto simp: crawl_iteration_def Let_def)

text \<open>
  A fetch that raises ends the loop after its fetch; an iteration raises only from one
  of the handler's reads, the fetcher, the cap comparison or the sleep's argument check;
  and the iteration reads \<^verbatim>\<open>MULTI_PAGE\<close> only through its truthiness.
\<close>

lemma crawl_iteration_fetch_error:
  assumes "py_getitem (cfg env) ''BASE_URL'' = Inr url" and "py_getitem (cfg env) ''CSS_SELECTOR'' = Inr sel"
    and "f (page_number st) url sel (required_keys env) (seen_titles st) (usage st) = (Inl e, seen', u')"
  shows "crawl_iteration f env st =
           Raise e (st\<lparr>seen_titles := seen', usage := u', trace := trace st @ [FetchPage (page_number st)]\<rparr>)"
  using assms by (simp add: crawl_iteration_def Let_def)

lemma crawl_iteration_Raise_cause:
  assumes "crawl_iteration f env s = Raise e s'"
  shows "py_getitem (cfg env) ''BASE_URL'' = Inl e \<or> py_getitem (cfg env) ''CSS_SELECTOR'' = Inl e \<or>
         (\<exists>url sel seen' u'. f (page_number s) url sel (required_keys env) (seen_titles s) (usage s) =
                              (Inl e, seen', u')) \<or>
         py_ge_int (page_number s) (max_pages env) = Inl e \<or> py_sleep_check (delay env) = Some e"
  using assms
  by (auto simp: crawl_iteration_def Let_def split: sum.splits prod.splits if_splits option.splits bool.splits)

lemma crawl_iteration_multi_page:
  "truthy m = truthy (multi_page env) \<Longrightarrow>
   crawl_iteration f (env\<lparr>multi_page := m\<rparr>) st = crawl_iteration f env st"
  by (auto simp: crawl_iteration_def Let_def split: sum.splits prod.splits if_splits option.splits bool.splits)

subsection \<open>Reachable loop states\<close>

lemma iter_reach_prepend:
  assumes "iter_reach f env s1 s" and "crawl_iteration f env s0 = Continue s1"
  shows "iter_reach f env s0 s"
  using assms
proof (induction rule: iter_reach.induct)
  case start
  then show ?case by (blast intro: iter_reach.intros)
next
  case (step s s')
  then show ?case by (blast intro: iter_reach.intros)
qed

text \<open>From any state the loop reaches, it ends as it would from its start.\<close>

lemma iter_reach_crawl_loop:
  assumes "iter_reach f env s0 s"
  shows "crawl_loop f env s0 = crawl_loop f env s"
  using assms
proof (induction rule: iter_reach.induct)
  case start
  then show ?case ..
next
  case (step s s')
  then show ?case by (simp add: crawl_loop.simps [of f env s])
qed

lemma crawl_loop_last_iteration:
  "\<exists>s. iter_reach f env s0 s \<and> last_iteration f env s (crawl_loop f env s0)"
proof (induction f env s0 rule: crawl_loop.induct)
  case (1 f env st)
  show ?case
  proof (cases "crawl_iteration f env st")
    case (Continue st')
    with "1.IH" obtain s where "iter_reach f env st' s" "last_iteration f env s (crawl_loop f env st')"
      by blast
    with Continue show ?thesis
      by (auto simp: crawl_loop.simps [of f env st] intro: iter_reach_prepend)
  next
    case (Break st')
    then show ?thesis
      by (auto simp: crawl_loop.simps [of f env st] last_iteration_def intro: iter_reach.start)
  next
    case (Raise e st')
    then show ?thesis
      by (auto simp: crawl_loop.simps [of f env st] last_iteration_def intro: iter_reach.start)
  qed
qed

subsection \<open>Counting the fetches of a trace\<close>

lemma fetch_count_append [simp]:
  "fetch_count (xs @ ys) = fetch_count xs + fetch_count ys"
  by (simp add: fetch_count_def)

lemma fetch_count_simps [simp]:
  "fetch_count [] = 0" "fetch_count (FetchPage p # tr) = Suc (fetch_count tr)"
  "fetch_count (OpenCrawler # tr) = fetch_count tr" "fetch_count (CloseCrawler # tr) = fetch_count tr"
  "fetch_count (Sleep d # tr) = fetch_count tr"
  by (simp_all add: fetch_count_def)

lemma fetch_count_pairs:
  "fetch_count (concat (map (\<lambda>p. [FetchPage p, Sleep d]) ps)) = length ps"
  by (induction ps) (simp_all add: fetch_count_def)

lemma fetch_count_fetch_sleep_trace [simp]:
  "fetch_count (fetch_sleep_trace d a b) = nat (b - a)"
  by (simp add: fetch_sleep_trace_def fetch_count_pairs)

lemma fetch_count_pages_trace [simp]:
  "fetch_count (pages_trace d a b) = nat (b - a) + 1"
  by (simp add: pages_trace_def)

lemma crawler_events_not_in_fetch_sleep_trace [simp]:
  "OpenCrawler \<notin> set (fetch_sleep_trace d a b)" "CloseCrawler \<notin> set (fetch_sleep_trace d a b)"
  by (auto simp: fetch_sleep_trace_def)

lemma crawler_events_not_in_pages_trace [simp]:
  "OpenCrawler \<notin> set (pages_trace d a b)" "CloseCrawler \<notin> set (pages_trace d a b)"
  by (auto simp: pages_trace_def)

subsection \<open>Invariants of the reachable states\<close>

lemma fetch_sleep_trace_snoc:
  "a \<le> b \<Longrightarrow> fetch_sleep_trace d a (b + 1) = fetch_sleep_trace d a b @ [FetchPage b, Sleep d]"
  by (simp add: fetch_sleep_trace_def upto_rec2)

lemma iter_reach_shape:
  assumes "iter_reach f env s0 s"
  shows "page_number s0 \<le> page_number s \<and>
         trace s = trace s0 @ fetch_sleep_trace (delay env) (page_number s0) (page_number s) \<and>
         (page_number s0 < page_number s \<longrightarrow>
            truthy (multi_page env) \<and> page_number s \<le> int_view (max_pages env))"
  using assms
proof (induction rule: iter_reach.induct)
  case start
  then show ?case by (simp add: fetch_sleep_trace_def)
next
  case (step s s')
  from step.hyps(2) have c: "page_number s' = page_number s + 1"
    "page_number s < int_view (max_pages env)" "truthy (multi_page env)"
    "trace s' = trace s @ [FetchPage (page_number s), Sleep (delay env)]"
    by (auto dest: crawl_iteration_Continue)
  with step.IH show ?case
    by (simp add: fetch_sleep_trace_snoc)
qed

lemma crawl_iteration_unique_items:
  assumes rs: "respects_seen key f" and inv: "unique_items key s"
    and it: "crawl_iteration f env s = Continue s' \<or> crawl_iteration f env s = Break s'"
  shows "unique_items key s'"
proof -
  from it obtain url sel items nr where
    fetched: "f (page_number s) url sel (required_keys env) (seen_titles s) (usage s) =
                (Inr (items, nr), seen_titles s', usage s')" and
    app: "all_items s' = all_items s @ (if nr then [] else items)"
    using crawl_iteration_fetched [OF it] by blast
  from rs fetched have page: "distinct (keys_of key items)"
    "set (keys_of key items) \<inter> seen_titles s = {}"
    "seen_titles s \<union> set (keys_of key items) \<subseteq> seen_titles s'"
    unfolding respects_seen_def by blast+
  show ?thesis
  proof (cases nr)
    case True
    with app inv page(3) show ?thesis by (auto simp: unique_items_def)
  next
    case False
    with app inv page show ?thesis by (auto simp: unique_items_def)
  qed
qed

lemma crawl_iteration_keeps_complete:
  assumes "keeps_complete (required_keys env) ks f" and "list_all (is_complete ks) (all_items s)"
    and "crawl_iteration f env s = Continue s' \<or> crawl_iteration f env s = Break s'"
  shows "list_all (is_complete ks) (all_items s')"
proof -
  from assms(3) obtain url sel items nr where
    fetched: "f (page_number s) url sel (required_keys env) (seen_titles s) (usage s) =
                (Inr (items, nr), seen_titles s', usage s')" and
    app: "all_items s' = all_items s @ (if nr then [] else items)"
    using crawl_iteration_fetched by blast
  from assms(1) fetched have "list_all (is_complete ks) items"
    unfolding keeps_complete_def by blast
  with app assms(2) show ?thesis by simp
qed

subsection \<open>The loop's results\<close>

lemma crawl_loop_Inr_reach:
  assumes "crawl_loop f env s0 = Inr s'"
  obtains s where "iter_reach f env s0 s" and "crawl_iteration f env s = Break s'"
  using crawl_loop_last_iteration [of f env s0] assms
  by (auto simp: last_iteration_def)

lemma crawl_loop_Inl_reach:
  assumes "crawl_loop f env s0 = Inl (e, s')"
  obtains s where "iter_reach f env s0 s" and "crawl_iteration f env s = Raise e s'"
  using crawl_loop_last_iteration [of f env s0] assms
  by (auto simp: last_iteration_def)

text \<open>
  A loop that breaks has fetched the pages from its first page to the page it reports,
  in order, with one sleep between two fetches; it has moved past its first page only
  when multi-page crawling is on, and never past the page cap.
\<close>

lemma crawl_loop_Inr_shape:
  assumes "crawl_loop f env s0 = Inr s'"
  shows "page_number s0 \<le> page_number s' \<and>
         trace s' = trace s0 @ pages_trace (delay env) (page_number s0) (page_number s') \<and>
         (page_number s0 < page_number s' \<longrightarrow>
            truthy (multi_page env) \<and> page_number s' \<le> int_view (max_pages env))"
proof -
  from assms obtain s where r: "iter_reach f env s0 s" and b: "crawl_iteration f env s = Break s'"
    by (rule crawl_loop_Inr_reach)
  from b have "page_number s' = page_number s" "trace s' = trace s @ [FetchPage (page_number s)]"
    by (auto dest: crawl_iteration_Break)
  with iter_reach_shape [OF r] show ?thesis
    by (simp add: pages_trace_def)
qed

text \<open>
  A property of loop states that every iteration which does not raise preserves holds
  of the state a breaking loop returns.
\<close>

lemma crawl_loop_Inr_invariant:
  assumes "crawl_loop f env s0 = Inr s'" and "P s0"
    and pres: "\<And>s s'. P s \<Longrightarrow>
                 crawl_iteration f env s = Continue s' \<or> crawl_iteration f env s = Break s' \<Longrightarrow> P s'"
  shows "P s'"
proof -
  from assms(1) obtain s where r: "iter_reach f env s0 s" and b: "crawl_iteration f env s = Break s'"
    by (rule crawl_loop_Inr_reach)
  from r have "P s"
    by induction (auto intro: assms(2) pres)
  with b show ?thesis by (blast intro: pres)
qed

lemma crawl_loop_Inr_unique_items:
  assumes "crawl_loop f env s0 = Inr s'" and "respects_seen key f" and "unique_items key s0"
  shows "unique_items key s'"
  using assms(1,3)
  by (rule crawl_loop_Inr_invariant [where P = "unique_items key"])
     (rule crawl_iteration_unique_items [OF assms(2)])

lemma crawl_loop_Inr_keeps_complete:
  assumes "crawl_loop f env s0 = Inr s'" and "keeps_complete (required_keys env) ks f"
    and "list_all (is_complete ks) (all_items s0)"
  shows "list_all (is_complete ks) (all_items s')"
  using assms(1,3)
  by (rule crawl_loop_Inr_invariant [where P = "\<lambda>s. list_all (is_complete ks) (all_items s)"])
     (rule crawl_iteration_keeps_complete [OF assms(2)])

lemma crawl_loop_Inr_dicts:
  assumes "crawl_loop f env s0 = Inr s'" and "returns_dicts f" and "list_all is_dict (all_items s0)"
  shows "list_all is_dict (all_items s')"
  using assms(1,3)
proof (rule crawl_loop_Inr_invariant [where P = "\<lambda>s. list_all is_dict (all_items s)"])
  fix s s1
  assume inv: "list_all is_dict (all_items s)"
    and it: "crawl_iteration f env s = Continue s1 \<or> crawl_iteration f env s = Break s1"
  from it obtain url sel items nr where
    "f (page_number s) url sel (required_keys env) (seen_titles s) (usage s) =
       (Inr (items, nr), seen_titles s1, usage s1)" and
    app: "all_items s1 = all_items s @ (if nr then [] else items)"
    using crawl_iteration_fetched by blast
  with assms(2) have "list_all is_dict items" unfolding returns_dicts_def by blast
  with app inv show "list_all is_dict (all_items s1)" by simp
qed

text \<open>
  A loop that raises has fetched its pages in the same order; the page that raised was
  fetched or not, depending on whether the exception came before the call.
\<close>

lemma crawl_loop_Inl_shape:
  assumes "crawl_loop f env s0 = Inl (e, s')"
  shows "\<exists>p. page_number s0 \<le> p \<and>
           (page_number s0 < p \<longrightarrow> truthy (multi_page env) \<and> p \<le> int_view (max_pages env)) \<and>
           (trace s' = trace s0 @ fetch_sleep_trace (delay env) (page_number s0) p \<or>
            trace s' = trace s0 @ pages_trace (delay env) (page_number s0) p)"
proof -
  from assms obtain s where r: "iter_reach f env s0 s" and b: "crawl_iteration f env s = Raise e s'"
    by (rule crawl_loop_Inl_reach)
  from iter_reach_shape [OF r] crawl_iteration_Raise [OF b] show ?thesis
    by (auto simp: pages_trace_def)
qed

subsection \<open>Reaching the page cap\<close>

lemma crawl_iteration_always_fetches:
  assumes "py_getitem (cfg env) ''BASE_URL'' = Inr url" "py_getitem (cfg env) ''CSS_SELECTOR'' = Inr sel"
    "max_pages env = JInt N" "truthy (multi_page env)" "py_sleep_check (delay env) = None"
    "always_fetches f url sel (required_keys env)"
  shows "crawl_iteration f env s \<noteq> Raise e s' \<and> (crawl_iteration f env s = Break s' \<longrightarrow> N \<le> page_number s)"
proof -
  from assms(6) obtain items seen' u' where "items \<noteq> []"
    "f (page_number s) url sel (required_keys env) (seen_titles s) (usage s) = (Inr (items, False), seen', u')"
    unfolding always_fetches_def by blast
  with assms(1-5) show ?thesis
    by (auto simp: crawl_iteration_def Let_def split: bool.splits)
qed

lemma crawl_loop_reaches_cap:
  assumes "py_getitem (cfg env) ''BASE_URL'' = Inr url" "py_getitem (cfg env) ''CSS_SELECTOR'' = Inr sel"
    "max_pages env = JInt N" "truthy (multi_page env)" "py_sleep_check (delay env) = None"
    "always_fetches f url sel (required_keys env)" "page_number s0 \<le> N"
  shows "\<exists>s'. crawl_loop f env s0 = Inr s' \<and> page_number s' = N \<and>
              trace s' = trace s0 @ pages_trace (delay env) (page_number s0) N"
proof -
  note it = crawl_iteration_always_fetches [OF assms(1-6)]
  obtain s where r: "iter_reach f env s0 s" and last: "last_iteration f env s (crawl_loop f env s0)"
    using crawl_loop_last_iteration by blast
  obtain s' where res: "crawl_loop f env s0 = Inr s'" and b: "crawl_iteration f env s = Break s'"
    using last it by (auto simp: last_iteration_def split: sum.splits)
  from b it have cap: "N \<le> page_number s" by blast
  from iter_reach_shape [OF r] assms(3,7) cap have "page_number s = N"
    by auto
  with crawl_iteration_Break [OF b] iter_reach_shape [OF r] res show ?thesis
    by (auto simp: pages_trace_def)
qed

text \<open>
  A delay that \<open>asyncio.sleep\<close> rejects stops the loop at its first iteration: that
  iteration cannot continue, and when it reaches the sleep (a non-empty page below the
  cap) it raises after the page was fetched and the page number advanced.
\<close>

lemma crawl_iteration_bad_delay:
  assumes "py_sleep_check (delay env) = Some e"
  shows "crawl_iteration f env s \<noteq> Continue s'"
  using assms
  by (auto simp: crawl_iteration_def Let_def
           split: sum.splits prod.splits if_splits option.splits bool.splits)

lemma crawl_loop_bad_delay:
  assumes "py_sleep_check (delay env) = Some e"
  shows "(\<exists>s'. crawl_loop f env s = Inr s' \<and> crawl_iteration f env s = Break s') \<or>
         (\<exists>e' s'. crawl_loop f env s = Inl (e', s') \<and> crawl_iteration f env s = Raise e' s')"
  using crawl_iteration_bad_delay [OF assms, of f s]
  by (cases "crawl_iteration f env s") (auto simp: crawl_loop.simps [of f env s])

lemma crawl_iteration_fails_at_sleep:
  assumes "py_getitem (cfg env) ''BASE_URL'' = Inr url" "py_getitem (cfg env) ''CSS_SELECTOR'' = Inr sel"
    "max_pages env = JInt N" "page_number s < N" "truthy (multi_page env)"
    "py_sleep_check (delay env) = Some e" "always_fetches f url sel (required_keys env)"
  shows "\<exists>s'. crawl_iteration f env s = Raise e s' \<and> trace s' = trace s @ [FetchPage (page_number s)]"
proof -
  from assms(7) obtain items seen' u' where "items \<noteq> []"
    "f (page_number s) url sel (required_keys env) (seen_titles s) (usage s) = (Inr (items, False), seen', u')"
    unfolding always_fetches_def by blast
  with assms(1-6) show ?thesis
    by (auto simp: crawl_iteration_def Let_def split: bool.splits)
qed

text \<open>
  With multi-page crawling off and the base URL and selector present, the loop makes
  exactly one iteration, and that iteration fetches the current page: whatever the
  fetcher returns, the loop ends, normally or by an exception, on the same page with
  that one fetch added to the trace.
\<close>

lemma crawl_loop_single_page:
  assumes "\<not> truthy (multi_page env)"
    and "py_getitem (cfg env) ''BASE_URL'' = Inr url" and "py_getitem (cfg env) ''CSS_SELECTOR'' = Inr sel"
  obtains st where "crawl_loop f env s = Inr st \<or> (\<exists>e. crawl_loop f env s = Inl (e, st))"
    and "trace st = trace s @ [FetchPage (page_number s)]" and "page_number st = page_number s"
proof -
  obtain r seen' u' where fetch:
    "f (page_number s) url sel (required_keys env) (seen_titles s) (usage s) = (r, seen', u')"
    by (cases "f (page_number s) url sel (required_keys env) (seen_titles s) (usage s)") auto
  have "\<exists>st. (crawl_iteration f env s = Break st \<or> (\<exists>e. crawl_iteration f env s = Raise e st)) \<and>
             trace st = trace s @ [FetchPage (page_number s)] \<and> page_number st = page_number s"
    using assms fetch
    by (auto simp: crawl_iteration_def Let_def split: sum.splits prod.splits if_splits)
  then show ?thesis
    using that by (auto simp: crawl_loop.simps [of f env s])
qed

subsection \<open>The session's records as one deduplication\<close>

text \<open>
  On a site with fixed pages, an iteration that does not raise appends exactly what
  the deduplicating filter keeps of the current page, and the seen set becomes the
  filter's.
\<close>

lemma crawl_iteration_static_site:
  assumes "crawl_iteration (fetch_and_process_page idf (static_site pg tick)) env s = Continue s' \<or>
           crawl_iteration (fetch_and_process_page idf (static_site pg tick)) env s = Break s'"
    and "json_strings (required_keys env) = Some ks"
  shows "all_items s' = all_items s @
           fst (dedup_filter (identity_key idf) (site_page ks pg (page_number s)) (seen_titles s)) \<and>
         seen_titles s' =
           snd (dedup_filter (identity_key idf) (site_page ks pg (page_number s)) (seen_titles s))"
proof -
  from crawl_iteration_fetched [OF assms(1)] obtain url sel items nr where
    f: "fetch_and_process_page idf (static_site pg tick) (page_number s) url sel (required_keys env)
          (seen_titles s) (usage s) = (Inr (items, nr), seen_titles s', usage s')" and
    a: "all_items s' = all_items s @ (if nr then [] else items)"
    by blast
  from f have
    "items = fst (dedup_filter (identity_key idf) (site_page ks pg (page_number s)) (seen_titles s)) \<and>
     nr = (pg (page_number s) = None) \<and>
     seen_titles s' = snd (dedup_filter (identity_key idf) (site_page ks pg (page_number s)) (seen_titles s))"
    by (simp add: fetch_static_site [OF assms(2)])
  with a show ?thesis by (cases nr) (auto simp: site_page_def)
qed

lemma iter_reach_static_site:
  assumes "iter_reach (fetch_and_process_page idf (static_site pg tick)) env s0 s"
    and "json_strings (required_keys env) = Some ks"
  shows "all_items s = all_items s0 @ fst (dedup_filter (identity_key idf)
            (concat (map (site_page ks pg) [page_number s0..page_number s - 1])) (seen_titles s0)) \<and>
         seen_titles s = snd (dedup_filter (identity_key idf)
            (concat (map (site_page ks pg) [page_number s0..page_number s - 1])) (seen_titles s0))"
  using assms(1)
proof (induction rule: iter_reach.induct)
  case start
  then show ?case by simp
next
  case (step s s')
  from step.hyps(2) have "page_number s' = page_number s + 1"
    by (auto dest: crawl_iteration_Continue)
  moreover from iter_reach_shape [OF step.hyps(1)] have "page_number s0 \<le> page_number s"
    by simp
  ultimately have r: "[page_number s0..page_number s' - 1] = [page_number s0..page_number s - 1] @ [page_number s]"
    by (simp add: upto_rec2)
  from crawl_iteration_static_site [of idf pg tick env s s' ks] step.hyps(2) assms(2) step.IH r
  show ?case
    by (simp add: dedup_filter_append split_beta Let_def)
qed

lemma crawl_loop_static_site:
  assumes "crawl_loop (fetch_and_process_page idf (static_site pg tick)) env s0 = Inr s'"
    and "json_strings (required_keys env) = Some ks"
  shows "all_items s' = all_items s0 @ fst (dedup_filter (identity_key idf)
            (concat (map (site_page ks pg) [page_number s0..page_number s'])) (seen_titles s0))"
proof -
  from assms(1) obtain s where r: "iter_reach (fetch_and_process_page idf (static_site pg tick)) env s0 s"
    and b: "crawl_iteration (fetch_and_process_page idf (static_site pg tick)) env s = Break s'"
    by (rule crawl_loop_Inr_reach)
  from crawl_iteration_Break [OF b] have p: "page_number s' = page_number s" by simp
  from iter_reach_shape [OF r] have "page_number s0 \<le> page_number s" by simp
  then have "[page_number s0..page_number s] = [page_number s0..page_number s - 1] @ [page_number s]"
    by (simp add: upto_rec2)
  with iter_reach_static_site [OF r assms(2)] crawl_iteration_static_site [of idf pg tick env s s' ks] b
    assms(2) p
  show ?thesis
    by (simp add: dedup_filter_append split_beta Let_def)
qed

text \<open>
  On a site with fixed pages, each fetched page costs the strategy exactly one
  extraction call: after pages \<open>p0..p\<close> its state has advanced \<open>p - p0 + 1\<close> times.
\<close>

lemma crawl_iteration_static_usage:
  assumes "crawl_iteration (fetch_and_process_page idf (static_site pg tick)) env s = Continue s' \<or>
           crawl_iteration (fetch_and_process_page idf (static_site pg tick)) env s = Break s'"
  shows "usage s' = tick (usage s)"
  using crawl_iteration_fetched [OF assms] by (blast dest: static_site_usage)

lemma iter_reach_static_usage:
  assumes "iter_reach (fetch_and_process_page idf (static_site pg tick)) env s0 s"
  shows "usage s = (tick ^^ nat (page_number s - page_number s0)) (usage s0)"
  using assms
proof (induction rule: iter_reach.induct)
  case start
  then show ?case by simp
next
  case (step s s')
  from step.hyps(2) have "page_number s' = page_number s + 1"
    by (auto dest: crawl_iteration_Continue)
  moreover from iter_reach_shape [OF step.hyps(1)] have "page_number s0 \<le> page_number s"
    by simp
  moreover from step.hyps(2) have "usage s' = tick (usage s)"
    by (blast intro: crawl_iteration_static_usage)
  ultimately show ?case
    using step.IH by (simp add: nat_diff_Suc_int)
qed

lemma crawl_loop_static_usage:
  assumes "crawl_loop (fetch_and_process_page idf (static_site pg tick)) env s0 = Inr s'"
  shows "usage s' = (tick ^^ nat (page_number s' - page_number s0 + 1)) (usage s0)"
proof -
  from assms obtain s where r: "iter_reach (fetch_and_process_page idf (static_site pg tick)) env s0 s"
    and b: "crawl_iteration (fetch_and_process_page idf (static_site pg tick)) env s = Break s'"
    by (rule crawl_loop_Inr_reach)
  from crawl_iteration_Break [OF b] have "page_number s' = page_number s" by simp
  moreover from iter_reach_shape [OF r] have "page_number s0 \<le> page_number s" by simp
  moreover from b have "usage s' = tick (usage s)" by (blast intro: crawl_iteration_static_usage)
  ultimately show ?thesis
    using iter_reach_static_usage [OF r] by (simp add: nat_diff_Suc_int)
qed

end
