(* ===== verification/Api.thy ===== *)
theory Api
  imports Pagination Config
begin

text \<open>
  The HTTP layer of \<^verbatim>\<open>src/api.py\<close>: the API-key dependency \<^verbatim>\<open>get_api_key\<close>, the
  \<^verbatim>\<open>POST /crawl\<close> handler \<^verbatim>\<open>crawl\<close> and \<^verbatim>\<open>GET /configs\<close>
  (\<^verbatim>\<open>list_configs\<close>). The handler is split as the code runs it:
  \<^item> \<open>resolve_config\<close>: the request checks and the registry lookup (lines 55 to 70);
  \<^item> \<open>setup_env\<close>: the reads of the configuration before the crawler starts (lines 72
    to 85), each of which can raise;
  \<^item> \<open>run_session\<close>: the \<^verbatim>\<open>async with AsyncWebCrawler\<close> block around the
    pagination loop (lines 87 to 116), which closes the crawler on every exit, and the
    assembly of the response (lines 118 to 128);
  \<^item> \<open>crawl\<close>: authentication first (FastAPI resolves the dependency before the body
    runs), then the above, with \<open>HTTPException\<close> turned into its status code and any
    other exception into a 500 response.
  The crawler backend (browser configuration, LLM strategy, page fetcher, usage counters)
  is a record of functions, so that every lemma holds for every backend.
  The value of the \<^verbatim>\<open>X-API-Key\<close> header as FastAPI's \<open>APIKeyHeader(auto_error=False)\<close>
  delivers it is \<open>api_key_header\<close>: an absent or empty header is \<open>None\<close>.
\<close>

record 'u crawler_backend =
  get_llm_strategy :: "json \<Rightarrow> 'u"
  fetch_page :: "'u page_fetcher"
  get_usage_stats :: "'u \<Rightarrow> json"

record crawl_stats =
  total_items :: nat
  pages_crawled :: int
  llm_usage :: json

record crawler_response =
  items :: "json list"
  stats :: crawl_stats

record crawler_request =
  config_name :: "string option"
  custom_config :: "(string \<times> json) list option"

datatype 'a http_result = HTTP_OK 'a | HTTP_Error nat string

subsection \<open>Authentication\<close>

definition API_KEY :: "string option \<Rightarrow> string" where
  "API_KEY env_value = (case env_value of None \<Rightarrow> ''default_api_key_change_me'' | Some k \<Rightarrow> k)"

definition api_key_header :: "string option \<Rightarrow> string option" where
  "api_key_header raw = (case raw of None \<Rightarrow> None | Some h \<Rightarrow> if h = [] then None else Some h)"

definition get_api_key :: "string \<Rightarrow> string option \<Rightarrow> exn + string" where
  "get_api_key api_key hdr =
     (case hdr of
        Some h \<Rightarrow> if h = api_key then Inr h else Inl (HTTPException 403 ''Invalid API Key'')
      | None \<Rightarrow> Inl (HTTPException 403 ''Invalid API Key''))"

definition http_error :: "exn \<Rightarrow> 'a http_result" where
  "http_error e = (case e of HTTPException c d \<Rightarrow> HTTP_Error c d | _ \<Rightarrow> HTTP_Error 500 ''Internal Server Error'')"

subsection \<open>The crawl handler\<close>

text \<open>Truthiness of an optional string or dict of the request model.\<close>

definition truthy_opt :: "'a list option \<Rightarrow> bool" where
  "truthy_opt x = (case x of None \<Rightarrow> False | Some v \<Rightarrow> v \<noteq> [])"

definition resolve_config :: "(string \<times> json) list \<Rightarrow> crawler_request \<Rightarrow> exn + json" where
  "resolve_config configs req =
     (if \<not> truthy_opt (config_name req) \<and> \<not> truthy_opt (custom_config req)
      then Inl (HTTPException 400 ''Either config_name or custom_config must be provided'')
      else (case config_name req of
              Some name \<Rightarrow>
                if name \<noteq> [] then
                  (case map_of configs name of
                     None \<Rightarrow> Inl (HTTPException 400 (''Unknown configuration: '' @ name))
                   | Some c \<Rightarrow> Inr c)
                else Inr (JObj (case custom_config req of Some d \<Rightarrow> d | None \<Rightarrow> []))
            | None \<Rightarrow> Inr (JObj (case custom_config req of Some d \<Rightarrow> d | None \<Rightarrow> []))))"

text \<open>
  Lines 73 to 85: the sub-configurations handed to \<^verbatim>\<open>get_browser_config\<close> and
  \<^verbatim>\<open>get_llm_strategy\<close>, then the loop settings, with their defaults 1 and 2.
\<close>

definition setup_env :: "json \<Rightarrow> exn + crawl_env \<times> json" where
  "setup_env config =
     (case py_getitem config ''CRAWLER_CONFIG'' of
        Inl e \<Rightarrow> Inl e
      | Inr crawler_config \<Rightarrow>
     (case py_getitem config ''LLM_CONFIG'' of
        Inl e \<Rightarrow> Inl e
      | Inr llm_config \<Rightarrow>
     (case py_getitem config ''REQUIRED_KEYS'' of
        Inl e \<Rightarrow> Inl e
      | Inr req \<Rightarrow>
     (case py_getitem crawler_config ''MULTI_PAGE'' of
        Inl e \<Rightarrow> Inl e
      | Inr mp \<Rightarrow>
     (case py_get crawler_config ''MAX_PAGES'' (JInt 1) of
        Inl e \<Rightarrow> Inl e
      | Inr mx \<Rightarrow>
     (case py_get crawler_config ''DELAY_BETWEEN_PAGES'' (JInt 2) of
        Inl e \<Rightarrow> Inl e
      | Inr d \<Rightarrow>
          Inr (\<lparr>cfg = config, required_keys = req, multi_page = mp, max_pages = mx, delay = d\<rparr>,
               llm_config)))))))"

definition init_loop_state :: "'u \<Rightarrow> 'u loop_state" where
  "init_loop_state u0 =
     \<lparr>page_number = 1, all_items = [], seen_titles = {}, usage = u0, trace = [OpenCrawler]\<rparr>"

definition make_response :: "'u crawler_backend \<Rightarrow> 'u loop_state \<Rightarrow> crawler_response" where
  "make_response b st =
     \<lparr>items = all_items st,
      stats = \<lparr>total_items = length (all_items st), pages_crawled = page_number st,
               llm_usage = get_usage_stats b (usage st)\<rparr>\<rparr>"

text \<open>
  \<^verbatim>\<open>CrawlerResponse(...)\<close> validates its fields: \<open>items\<close> is a
  \<open>List[Dict[str, Any]]\<close>, so a record that is not a dict raises pydantic's
  ValidationError (the \<open>stats\<close> dict accepts any values).
\<close>

definition validate_response :: "crawler_response \<Rightarrow> exn + crawler_response" where
  "validate_response r = (if list_all is_dict (items r) then Inr r else Inl ValidationError)"

definition run_session :: "'u crawler_backend \<Rightarrow> json \<Rightarrow> (exn + crawler_response) \<times> event list" where
  "run_session b config =
     (case setup_env config of
        Inl e \<Rightarrow> (Inl e, [])
      | Inr (env, llm_config) \<Rightarrow>
          (case crawl_loop (fetch_page b) env (init_loop_state (get_llm_strategy b llm_config)) of
             Inl (e, st) \<Rightarrow> (Inl e, trace st @ [CloseCrawler])
           | Inr st \<Rightarrow> (validate_response (make_response b st), trace st @ [CloseCrawler])))"

definition crawl :: "(string \<times> json) list \<Rightarrow> 'u crawler_backend \<Rightarrow> string \<Rightarrow> string option \<Rightarrow>
    crawler_request \<Rightarrow> crawler_response http_result \<times> event list" where
  "crawl configs b api_key hdr req =
     (case get_api_key api_key (api_key_header hdr) of
        Inl e \<Rightarrow> (http_error e, [])
      | Inr _ \<Rightarrow>
          (case resolve_config configs req of
             Inl e \<Rightarrow> (http_error e, [])
           | Inr config \<Rightarrow>
               (case run_session b config of
                  (Inl e, tr) \<Rightarrow> (http_error e, tr)
                | (Inr resp, tr) \<Rightarrow> (HTTP_OK resp, tr))))"

subsection \<open>Listing the configurations\<close>

definition config_description :: "string \<Rightarrow> string" where
  "config_description name =
     (if name \<notin> set [''dental'', ''minimal'', ''detailed''] then ''Custom configuration''
      else ''For '' @ name @ '' scraping'')"

definition list_configs :: "(string \<times> json) list \<Rightarrow> string \<Rightarrow> string option \<Rightarrow>
    (string \<times> string) list http_result" where
  "list_configs configs api_key hdr =
     (case get_api_key api_key (api_key_header hdr) of
        Inl e \<Rightarrow> http_error e
      | Inr _ \<Rightarrow> HTTP_OK (map (\<lambda>(name, _). (name, config_description name)) configs))"

lemmas api_defs [crawl_defs] = API_KEY_def api_key_header_def get_api_key_def http_error_def
  truthy_opt_def resolve_config_def setup_env_def init_loop_state_def make_response_def
  validate_response_def run_session_def crawl_def config_description_def list_configs_def

subsection \<open>How a session ends\<close>

lemma init_loop_state_simps [simp]:
  "page_number (init_loop_state u) = 1" "trace (init_loop_state u) = [OpenCrawler]"
  "all_items (init_loop_state u) = []" "seen_titles (init_loop_state u) = {}"
  by (simp_all add: init_loop_state_def)

lemma unique_items_init [simp]: "unique_items key (init_loop_state u)"
  by (simp add: unique_items_def init_loop_state_def)

lemma setup_env_cfg:
  "setup_env config = Inr (env, l) \<Longrightarrow> cfg env = config"
  by (auto simp: setup_env_def split: sum.splits)

lemma setup_env_required_keys:
  "setup_env config = Inr (env, l) \<Longrightarrow> py_getitem config ''REQUIRED_KEYS'' = Inr (required_keys env)"
  by (auto simp: setup_env_def split: sum.splits)

lemma run_session_Inr:
  assumes "run_session b config = (Inr resp, tr)"
  obtains env l st where "setup_env config = Inr (env, l)"
    "crawl_loop (fetch_page b) env (init_loop_state (get_llm_strategy b l)) = Inr st"
    "resp = make_response b st" "tr = trace st @ [CloseCrawler]"
proof (cases "setup_env config")
  case (Inl e)
  with assms show thesis by (simp add: run_session_def)
next
  case (Inr el)
  obtain env l where el: "el = (env, l)" by (cases el)
  show thesis
  proof (cases "crawl_loop (fetch_page b) env (init_loop_state (get_llm_strategy b l))")
    case (Inl a)
    with assms Inr el show thesis by (cases a) (simp add: run_session_def)
  next
    case (Inr st)
    with assms \<open>setup_env config = Inr el\<close> el show thesis
      using that by (simp add: run_session_def validate_response_def split: if_splits)
  qed
qed

lemma run_session_Inr_dicts:
  assumes "run_session b config = (Inr resp, tr)"
  shows "list_all is_dict (items resp)"
proof (cases "setup_env config")
  case (Inl e)
  with assms show ?thesis by (simp add: run_session_def)
next
  case (Inr el)
  obtain env l where el: "el = (env, l)" by (cases el)
  with assms Inr show ?thesis
    by (cases "crawl_loop (fetch_page b) env (init_loop_state (get_llm_strategy b l))")
       (auto simp: run_session_def validate_response_def split: if_splits)
qed

text \<open>A session whose loop reaches a state on which an iteration breaks ends there.\<close>

lemma run_session_reach_Break:
  assumes "setup_env config = Inr (env, l)"
    and "iter_reach (fetch_page b) env (init_loop_state (get_llm_strategy b l)) st"
    and "crawl_iteration (fetch_page b) env st = Break st'"
  shows "run_session b config = (validate_response (make_response b st'), trace st' @ [CloseCrawler])"
  using assms
  by (simp add: run_session_def iter_reach_crawl_loop [OF assms(2)] crawl_loop.simps [of "fetch_page b" env st])

text \<open>A session whose loop reaches a state on which an iteration raises ends there.\<close>

lemma run_session_reach_Raise:
  assumes "setup_env config = Inr (env, l)"
    and "iter_reach (fetch_page b) env (init_loop_state (get_llm_strategy b l)) st"
    and "crawl_iteration (fetch_page b) env st = Raise e st'"
  shows "run_session b config = (Inl e, trace st' @ [CloseCrawler])"
  using assms
  by (simp add: run_session_def iter_reach_crawl_loop [OF assms(2)] crawl_loop.simps [of "fetch_page b" env st])

lemma run_session_Inl:
  assumes "run_session b config = (Inl e, tr)"
  shows "(setup_env config = Inl e \<and> tr = []) \<or>
         (\<exists>env l st. setup_env config = Inr (env, l) \<and>
            (crawl_loop (fetch_page b) env (init_loop_state (get_llm_strategy b l)) = Inl (e, st) \<or>
             (crawl_loop (fetch_page b) env (init_loop_state (get_llm_strategy b l)) = Inr st \<and>
              e = ValidationError \<and> \<not> list_all is_dict (all_items st))) \<and>
            tr = trace st @ [CloseCrawler])"
proof (cases "setup_env config")
  case (Inl e')
  with assms have "e' = e" "tr = []" by (simp_all add: run_session_def)
  with Inl show ?thesis by simp
next
  case (Inr el)
  obtain env l where el: "el = (env, l)" by (cases el)
  let ?loop = "crawl_loop (fetch_page b) env (init_loop_state (get_llm_strategy b l))"
  have s: "setup_env config = Inr (env, l)" using Inr el by simp
  show ?thesis
  proof (cases ?loop)
    case (Inl a)
    obtain e' st where a: "a = (e', st)" by (cases a)
    with Inl s assms have "e = e'" "tr = trace st @ [CloseCrawler]"
      by (simp_all add: run_session_def)
    with Inl a s show ?thesis
      by (intro disjI2 exI [of _ env] exI [of _ l] exI [of _ st]) simp
  next
    case (Inr st)
    with s assms have v: "validate_response (make_response b st) = Inl e"
      and tr: "tr = trace st @ [CloseCrawler]"
      by (simp_all add: run_session_def)
    from v have "e = ValidationError \<and> \<not> list_all is_dict (all_items st)"
      by (simp add: validate_response_def make_response_def split: if_splits)
    with Inr s tr show ?thesis
      by (intro disjI2 exI [of _ env] exI [of _ l] exI [of _ st]) simp
  qed
qed

text \<open>
  Once the configuration reads succeed, the session's trace is that of the loop's final
  state followed by the closing of the crawler, whatever the outcome; a success is the
  response built from a loop that broke.
\<close>

lemma run_session_loop:
  assumes "setup_env config = Inr (env, l)"
  obtains st where
    "(\<exists>e. crawl_loop (fetch_page b) env (init_loop_state (get_llm_strategy b l)) = Inl (e, st)) \<or>
     crawl_loop (fetch_page b) env (init_loop_state (get_llm_strategy b l)) = Inr st"
    "snd (run_session b config) = trace st @ [CloseCrawler]"
    "\<forall>resp. fst (run_session b config) = Inr resp \<longrightarrow>
        crawl_loop (fetch_page b) env (init_loop_state (get_llm_strategy b l)) = Inr st \<and>
        resp = make_response b st"
proof (cases "crawl_loop (fetch_page b) env (init_loop_state (get_llm_strategy b l))")
  case (Inl a)
  obtain e st where a: "a = (e, st)" by (cases a)
  show thesis
  proof (rule that [of st])
    show "(\<exists>e. crawl_loop (fetch_page b) env (init_loop_state (get_llm_strategy b l)) = Inl (e, st)) \<or>
          crawl_loop (fetch_page b) env (init_loop_state (get_llm_strategy b l)) = Inr st"
      using Inl a by simp
  qed (use Inl a assms in \<open>simp_all add: run_session_def\<close>)
next
  case (Inr st)
  show thesis
  proof (rule that [of st])
    show "(\<exists>e. crawl_loop (fetch_page b) env (init_loop_state (get_llm_strategy b l)) = Inl (e, st)) \<or>
          crawl_loop (fetch_page b) env (init_loop_state (get_llm_strategy b l)) = Inr st"
      using Inr by simp
  qed (use Inr assms in \<open>simp_all add: run_session_def validate_response_def\<close>)
qed

lemma validate_make_response:
  "list_all is_dict (all_items st) \<Longrightarrow> validate_response (make_response b st) = Inr (make_response b st)"
  by (simp add: validate_response_def make_response_def)

lemma make_response_simps [simp]:
  "items (make_response b st) = all_items st"
  "total_items (stats (make_response b st)) = length (all_items st)"
  "pages_crawled (stats (make_response b st)) = page_number st"
  "llm_usage (stats (make_response b st)) = get_usage_stats b (usage st)"
  by (simp_all add: make_response_def)

text \<open>A successful session, read off the loop's result from the first page.\<close>

lemma run_session_Inr_shape:
  assumes "run_session b config = (Inr resp, tr)" and "setup_env config = Inr (env, l)"
  shows "1 \<le> pages_crawled (stats resp) \<and>
         tr = OpenCrawler # pages_trace (delay env) 1 (pages_crawled (stats resp)) @ [CloseCrawler] \<and>
         (1 < pages_crawled (stats resp) \<longrightarrow>
            truthy (multi_page env) \<and> pages_crawled (stats resp) \<le> int_view (max_pages env))"
proof -
  from assms(1) obtain env' l' st where s: "setup_env config = Inr (env', l')"
    and loop: "crawl_loop (fetch_page b) env' (init_loop_state (get_llm_strategy b l')) = Inr st"
    and r: "resp = make_response b st" "tr = trace st @ [CloseCrawler]"
    by (rule run_session_Inr)
  from s assms(2) have "env' = env" by simp
  with crawl_loop_Inr_shape [OF loop] r show ?thesis by simp
qed

text \<open>Every session fetches at most \<open>max 1 MAX_PAGES\<close> pages, one when single-page.\<close>

text \<open>
  The effects of a session whose configuration reads succeed: the crawler is opened,
  pages \<open>1..p\<close> are fetched in order with one sleep between two fetches (the last
  fetch is missing when the exception came before it), and the crawler is closed.
\<close>

lemma run_session_trace_shape:
  assumes "setup_env config = Inr (env, l)"
  obtains p where "1 \<le> p" "1 < p \<longrightarrow> truthy (multi_page env) \<and> p \<le> int_view (max_pages env)"
    "snd (run_session b config) = OpenCrawler # fetch_sleep_trace (delay env) 1 p @ [CloseCrawler] \<or>
     snd (run_session b config) = OpenCrawler # pages_trace (delay env) 1 p @ [CloseCrawler]"
proof -
  let ?s0 = "init_loop_state (get_llm_strategy b l)"
  from run_session_loop [OF assms, of b] obtain st where
    loop: "(\<exists>e. crawl_loop (fetch_page b) env ?s0 = Inl (e, st)) \<or> crawl_loop (fetch_page b) env ?s0 = Inr st"
    and tr: "snd (run_session b config) = trace st @ [CloseCrawler]"
    by blast
  from loop show thesis
  proof (elim disjE exE)
    fix e assume "crawl_loop (fetch_page b) env ?s0 = Inl (e, st)"
    from crawl_loop_Inl_shape [OF this] tr that show thesis by auto
  next
    assume "crawl_loop (fetch_page b) env ?s0 = Inr st"
    from crawl_loop_Inr_shape [OF this] tr that show thesis by auto
  qed
qed

text \<open>Every session fetches at most \<open>max 1 MAX_PAGES\<close> pages, one when single-page.\<close>

lemma run_session_fetch_count:
  assumes "run_session b config = (r, tr)" and "setup_env config = Inr (env, l)"
  shows "int (fetch_count tr) \<le> max 1 (int_view (max_pages env)) \<and>
         (\<not> truthy (multi_page env) \<longrightarrow> fetch_count tr \<le> 1)"
proof -
  from run_session_trace_shape [OF assms(2), of b] obtain p where "1 \<le> p"
    "1 < p \<longrightarrow> truthy (multi_page env) \<and> p \<le> int_view (max_pages env)"
    "snd (run_session b config) = OpenCrawler # fetch_sleep_trace (delay env) 1 p @ [CloseCrawler] \<or>
     snd (run_session b config) = OpenCrawler # pages_trace (delay env) 1 p @ [CloseCrawler]"
    by blast
  with assms(1) show ?thesis by auto
qed

text \<open>A 200 answer of the endpoint comes from a successful session of the resolved configuration.\<close>

lemma crawl_HTTP_OK:
  assumes "crawl configs b k hdr req = (HTTP_OK resp, tr)"
  shows "\<exists>config. api_key_header hdr = Some k \<and> resolve_config configs req = Inr config \<and>
           run_session b config = (Inr resp, tr)"
  using assms
  by (auto simp: crawl_def get_api_key_def http_error_def
           split: option.splits if_splits sum.splits prod.splits exn.splits)

lemma crawl_authenticated:
  assumes "api_key_header hdr = Some k"
  shows "crawl configs b k hdr req =
           (case resolve_config configs req of
              Inl e \<Rightarrow> (http_error e, [])
            | Inr config \<Rightarrow>
                (case run_session b config of
                   (Inl e, tr) \<Rightarrow> (http_error e, tr)
                 | (Inr resp, tr) \<Rightarrow> (HTTP_OK resp, tr)))"
  using assms by (simp add: crawl_def get_api_key_def)

lemma http_error_not_OK [simp]: "http_error e \<noteq> HTTP_OK r"
  by (cases e) (simp_all add: http_error_def)

lemma crawl_resolved:
  assumes "api_key_header hdr = Some k" and "resolve_config configs req = Inr config"
  shows "snd (crawl configs b k hdr req) = snd (run_session b config)"
    and "fst (crawl configs b k hdr req) = HTTP_OK resp \<Longrightarrow> fst (run_session b config) = Inr resp"
  using assms by (cases "run_session b config", simp add: crawl_authenticated split: sum.splits)+

text \<open>
  An authenticated request whose configuration is single-page, with a base URL and a
  selector, opens the crawler, fetches page 1 and closes the crawler, whatever the
  backend does; a 200 answer then reports one page crawled.
\<close>

lemma crawl_single_page_request:
  assumes "api_key_header hdr = Some k" and "resolve_config configs req = Inr config"
    and "setup_env config = Inr (env, l)" and "\<not> truthy (multi_page env)"
    and "py_getitem config ''BASE_URL'' = Inr url" and "py_getitem config ''CSS_SELECTOR'' = Inr sel"
  shows "snd (crawl configs b k hdr req) = [OpenCrawler, FetchPage 1, CloseCrawler] \<and>
         (\<forall>resp. fst (crawl configs b k hdr req) = HTTP_OK resp \<longrightarrow> pages_crawled (stats resp) = 1)"
proof -
  have c: "cfg env = config" using assms(3) by (rule setup_env_cfg)
  let ?s0 = "init_loop_state (get_llm_strategy b l)"
  from assms(4) assms(5,6) [folded c] obtain st where
    r: "crawl_loop (fetch_page b) env ?s0 = Inr st \<or> (\<exists>e. crawl_loop (fetch_page b) env ?s0 = Inl (e, st))"
    and tr: "trace st = trace ?s0 @ [FetchPage (page_number ?s0)]" and pg: "page_number st = page_number ?s0"
    by (rule crawl_loop_single_page)
  from run_session_loop [OF assms(3), of b] obtain st' where
    r': "(\<exists>e. crawl_loop (fetch_page b) env ?s0 = Inl (e, st')) \<or> crawl_loop (fetch_page b) env ?s0 = Inr st'"
    and tr': "snd (run_session b config) = trace st' @ [CloseCrawler]"
    and ok: "\<forall>resp. fst (run_session b config) = Inr resp \<longrightarrow>
               crawl_loop (fetch_page b) env ?s0 = Inr st' \<and> resp = make_response b st'"
    by blast
  from r r' have "st' = st" by auto
  with tr' ok tr pg crawl_resolved [OF assms(1,2), of b] show ?thesis
    by auto
qed

end
