(* ===== verification/Http.thy ===== *)
theory Http
  imports Api
begin

text \<open>
  The HTTP layer of \<^verbatim>\<open>POST /crawl\<close> around the handler of \<open>Api\<close>. FastAPI first
  solves the security dependency \<^verbatim>\<open>get_api_key\<close> (its HTTPException leaves at
  once), then validates the JSON body against \<^verbatim>\<open>CrawlerRequest\<close> (api.py lines 36
  to 38; pydantic: a missing field takes its default \<open>None\<close>, \<open>null\<close> is \<open>None\<close>,
  \<open>config_name\<close> must otherwise be a string and \<open>custom_config\<close> an object, unknown
  fields are ignored, and any other body is rejected with 422), and only then calls
  \<^verbatim>\<open>crawl\<close>. The body is already decoded JSON: a text that is not JSON at all is
  rejected by the framework before the dependency and is not modelled. A decoded JSON
  object has distinct keys. The response \<^verbatim>\<open>CrawlerResponse\<close> is sent as the JSON
  object \<open>response_json\<close>. Before all this, the application's router picks the
  endpoint from the method and the path (\<open>route_request\<close>, \<open>handle_request\<close>).
\<close>

text \<open>Pydantic's reading of one optional field of the body.\<close>

fun parse_opt_str :: "json option \<Rightarrow> string option option" where
  "parse_opt_str None = Some None"
| "parse_opt_str (Some JNull) = Some None"
| "parse_opt_str (Some (JStr s)) = Some (Some s)"
| "parse_opt_str (Some _) = None"

fun parse_opt_dict :: "json option \<Rightarrow> (string \<times> json) list option option" where
  "parse_opt_dict None = Some None"
| "parse_opt_dict (Some JNull) = Some None"
| "parse_opt_dict (Some (JObj kvs)) = Some (Some kvs)"
| "parse_opt_dict (Some _) = None"

text \<open>\<^verbatim>\<open>CrawlerRequest\<close> validated from a body; \<open>None\<close> is a validation error.\<close>

fun parse_request :: "json \<Rightarrow> crawler_request option" where
  "parse_request (JObj kvs) =
     (case parse_opt_str (map_of kvs ''config_name'') of
        None \<Rightarrow> None
      | Some n \<Rightarrow>
          (case parse_opt_dict (map_of kvs ''custom_config'') of
             None \<Rightarrow> None
           | Some c \<Rightarrow> Some \<lparr>config_name = n, custom_config = c\<rparr>))"
| "parse_request _ = None"

text \<open>The endpoint on a decoded body: key, then body validation (422), then the handler.\<close>

definition crawl_endpoint :: "(string \<times> json) list \<Rightarrow> 'u crawler_backend \<Rightarrow> string \<Rightarrow> string option \<Rightarrow>
    json \<Rightarrow> crawler_response http_result \<times> event list" where
  "crawl_endpoint configs b api_key hdr body =
     (case get_api_key api_key (api_key_header hdr) of
        Inl e \<Rightarrow> (http_error e, [])
      | Inr _ \<Rightarrow>
          (case parse_request body of
             None \<Rightarrow> (HTTP_Error 422 ''Unprocessable Entity'', [])
           | Some req \<Rightarrow> crawl configs b api_key hdr req))"

text \<open>The JSON body of a \<^verbatim>\<open>CrawlerResponse\<close> (lines 121 to 127).\<close>

definition response_json :: "crawler_response \<Rightarrow> json" where
  "response_json r =
     JObj [(''items'', JList (items r)),
           (''stats'', JObj [(''total_items'', JInt (int (total_items (stats r)))),
                             (''pages_crawled'', JInt (pages_crawled (stats r))),
                             (''llm_usage'', llm_usage (stats r))])]"

text \<open>A backend for examples: every page has no results, the strategy state is unchanged.\<close>

definition idle_backend :: "nat crawler_backend" where
  "idle_backend =
     \<lparr>get_llm_strategy = (\<lambda>_. 0), fetch_page = (\<lambda>p url sel req seen u. (Inr ([], True), seen, u)),
      get_usage_stats = (\<lambda>u. JInt (int u))\<rparr>"

subsection \<open>Routing\<close>

text \<open>
  The application object \<^verbatim>\<open>app = FastAPI(...)\<close> (lines 30 to 34) routes a request by
  method and path before any dependency runs. Its route table, in order: the routes
  FastAPI adds for its generated documentation (\<^verbatim>\<open>/openapi.json\<close>, \<^verbatim>\<open>/docs\<close>,
  \<^verbatim>\<open>/docs/oauth2-redirect\<close>, \<^verbatim>\<open>/redoc\<close>: plain Starlette routes, so
  \<^verbatim>\<open>GET\<close> and \<^verbatim>\<open>HEAD\<close>), then \<^verbatim>\<open>@app.post("/crawl")\<close> (line 44) and
  \<^verbatim>\<open>@app.get("/configs")\<close> (line 130), whose methods are exactly the one declared.
  The router takes the first route matching path and method; else, if some route has the
  path, answers 405; else, with \<^verbatim>\<open>redirect_slashes\<close>, redirects (307) to the path with
  its trailing slashes stripped, or with one added, when a route has that path; else 404.
\<close>

datatype http_method = GET | HEAD | POST | PUT | DELETE | PATCH | OPTIONS

datatype app_endpoint = OpenAPISchema | SwaggerUI | SwaggerOAuthRedirect | ReDoc
  | CrawlEndpoint | ListConfigsEndpoint

definition app_routes :: "(string \<times> http_method list \<times> app_endpoint) list" where
  "app_routes =
     [(''/openapi.json'', [GET, HEAD], OpenAPISchema), (''/docs'', [GET, HEAD], SwaggerUI),
      (''/docs/oauth2-redirect'', [GET, HEAD], SwaggerOAuthRedirect), (''/redoc'', [GET, HEAD], ReDoc),
      (''/crawl'', [POST], CrawlEndpoint), (''/configs'', [GET], ListConfigsEndpoint)]"

datatype route_decision = Endpoint app_endpoint | MethodNotAllowed | RedirectTo string | NotFound

definition rstrip_slash :: "string \<Rightarrow> string" where
  "rstrip_slash path = rev (dropWhile (\<lambda>c. c = CHR ''/'') (rev path))"

definition route_request :: "http_method \<Rightarrow> string \<Rightarrow> route_decision" where
  "route_request m path =
     (case find (\<lambda>(p, ms, e). p = path \<and> m \<in> set ms) app_routes of
        Some (_, _, e) \<Rightarrow> Endpoint e
      | None \<Rightarrow>
          if list_ex (\<lambda>(p, _, _). p = path) app_routes then MethodNotAllowed
          else
            (let path' = (if path \<noteq> [] \<and> last path = CHR ''/'' then rstrip_slash path else path @ ''/'')
             in if path \<noteq> ''/'' \<and> list_ex (\<lambda>(p, _, _). p = path') app_routes then RedirectTo path'
                else NotFound))"

text \<open>The JSON body of \<^verbatim>\<open>list_configs\<close>'s answer (lines 133 to 141).\<close>

definition configs_json :: "(string \<times> string) list \<Rightarrow> json" where
  "configs_json cs =
     JObj [(''configs'', JList (map (\<lambda>(n, d). JObj [(''name'', JStr n), (''description'', JStr d)]) cs))]"

fun map_http :: "('a \<Rightarrow> 'b) \<Rightarrow> 'a http_result \<Rightarrow> 'b http_result" where
  "map_http f (HTTP_OK r) = HTTP_OK (f r)"
| "map_http f (HTTP_Error c d) = HTTP_Error c d"

text \<open>
  What the server answers: a JSON answer, a redirect, or one of the generated
  documentation pages (their content is FastAPI's and is not modelled).
\<close>

datatype app_response = JSONAnswer "json http_result" | Redirect string | FrameworkPage app_endpoint

definition handle_request :: "(string \<times> json) list \<Rightarrow> 'u crawler_backend \<Rightarrow> string \<Rightarrow> http_method \<Rightarrow>
    string \<Rightarrow> string option \<Rightarrow> json \<Rightarrow> app_response \<times> event list" where
  "handle_request configs b api_key m path hdr body =
     (case route_request m path of
        Endpoint CrawlEndpoint \<Rightarrow>
          (case crawl_endpoint configs b api_key hdr body of (r, tr) \<Rightarrow> (JSONAnswer (map_http response_json r), tr))
      | Endpoint ListConfigsEndpoint \<Rightarrow> (JSONAnswer (map_http configs_json (list_configs configs api_key hdr)), [])
      | Endpoint e \<Rightarrow> (FrameworkPage e, [])
      | MethodNotAllowed \<Rightarrow> (JSONAnswer (HTTP_Error 405 ''Method Not Allowed''), [])
      | RedirectTo p \<Rightarrow> (Redirect p, [])
      | NotFound \<Rightarrow> (JSONAnswer (HTTP_Error 404 ''Not Found''), []))"

lemmas http_defs [crawl_defs] = crawl_endpoint_def response_json_def app_routes_def
  rstrip_slash_def route_request_def configs_json_def handle_request_def

subsection \<open>The body of a request\<close>

lemma crawl_endpoint_parsed:
  "parse_request body = Some req \<Longrightarrow> crawl_endpoint configs b k hdr body = crawl configs b k hdr req"
  by (simp add: crawl_endpoint_def crawl_def split: sum.splits)

lemma crawl_endpoint_HTTP_OK:
  assumes "crawl_endpoint configs b k hdr body = (HTTP_OK r, tr)"
  shows "\<exists>req config. parse_request body = Some req \<and> resolve_config configs req = Inr config \<and>
           run_session b config = (Inr r, tr)"
proof -
  from assms obtain req where p: "parse_request body = Some req"
    by (cases "parse_request body")
       (auto simp: crawl_endpoint_def split: sum.splits)
  with assms have "crawl configs b k hdr req = (HTTP_OK r, tr)"
    by (simp add: crawl_endpoint_parsed)
  with p show ?thesis by (blast dest: crawl_HTTP_OK)
qed

subsection \<open>Routing\<close>

lemma rstrip_slash_unchanged: "path = [] \<or> last path \<noteq> CHR ''/'' \<Longrightarrow> rstrip_slash path = path"
  by (cases "rev path") (auto simp: rstrip_slash_def)

lemma rstrip_slash_changed: "rstrip_slash path \<noteq> path \<Longrightarrow> path \<noteq> [] \<and> last path = CHR ''/''"
  using rstrip_slash_unchanged by blast

lemma app_route_path_last: "q \<in> set (map fst app_routes) \<Longrightarrow> q \<noteq> [] \<and> last q \<noteq> CHR ''/''"
  by (auto simp: app_routes_def)

lemma list_ex_app_routes: "list_ex (\<lambda>(p, _, _). p = path) app_routes \<longleftrightarrow> path \<in> set (map fst app_routes)"
  by (force simp: list_ex_iff)

lemma find_app_routes_None: "path \<notin> set (map fst app_routes) \<Longrightarrow> find (\<lambda>(p, ms, e). p = path \<and> m \<in> set ms) app_routes = None"
  by (force simp: find_None_iff)

lemma route_request_Endpoint:
  assumes "route_request m path = Endpoint e"
  shows "\<exists>ms. (path, ms, e) \<in> set app_routes \<and> m \<in> set ms"
proof (cases "find (\<lambda>(p, ms, e). p = path \<and> m \<in> set ms) app_routes")
  case None
  with assms show ?thesis by (simp add: route_request_def Let_def split: if_splits)
next
  case (Some r)
  then obtain i where "i < length app_routes" "r = app_routes ! i"
      "(\<lambda>(p, ms, e). p = path \<and> m \<in> set ms) r"
    by (auto simp: find_Some_iff)
  moreover from Some assms have "snd (snd r) = e" by (auto simp: route_request_def split: prod.splits)
  ultimately show ?thesis by (metis (mono_tags, lifting) case_prod_beta nth_mem prod.collapse)
qed

lemma route_request_unrouted:
  assumes "path \<notin> set (map fst app_routes)"
  shows "route_request m path =
           (let path' = (if path \<noteq> [] \<and> last path = CHR ''/'' then rstrip_slash path else path @ ''/'')
            in if path \<noteq> ''/'' \<and> path' \<in> set (map fst app_routes) then RedirectTo path' else NotFound)"
  using assms unfolding route_request_def
  by (simp only: find_app_routes_None [OF assms] list_ex_app_routes option.case if_False) 

text \<open>Only \<^verbatim>\<open>POST /crawl\<close> has effects: every other request is answered by the router.\<close>

lemma handle_request_effects:
  assumes "snd (handle_request configs b k m path hdr body) \<noteq> []"
  shows "m = POST \<and> path = ''/crawl''"
proof -
  from assms have "route_request m path = Endpoint CrawlEndpoint"
    by (auto simp: handle_request_def split: route_decision.splits app_endpoint.splits prod.splits)
  from route_request_Endpoint [OF this] show ?thesis by (auto simp: app_routes_def)
qed

text \<open>The two endpoints of the application, once routed.\<close>

lemma handle_request_crawl:
  "handle_request configs b k POST ''/crawl'' hdr body =
     (case crawl_endpoint configs b k hdr body of (r, tr) \<Rightarrow> (JSONAnswer (map_http response_json r), tr))"
  by (simp add: handle_request_def route_request_def app_routes_def)

lemma handle_request_configs:
  "handle_request configs b k GET ''/configs'' hdr body =
     (JSONAnswer (map_http configs_json (list_configs configs k hdr)), [])"
  by (simp add: handle_request_def route_request_def app_routes_def)

lemma map_http_OK_iff: "map_http f r = HTTP_OK j \<longleftrightarrow> (\<exists>x. r = HTTP_OK x \<and> j = f x)"
  by (cases r) auto

lemma map_http_Error_iff: "map_http f r = HTTP_Error c d \<longleftrightarrow> r = HTTP_Error c d"
  by (cases r) auto

text \<open>
  C32. A body that does not validate as a \<^verbatim>\<open>CrawlerRequest\<close> (not an object, a
  non-string \<open>config_name\<close>, a non-object \<open>custom_config\<close>) is answered 422 to an
  authenticated caller and 403 to any other, since the key dependency is solved first;
  in both cases no configuration is read and no crawler started.
\<close>

theorem crawl_endpoint_invalid_body:
  assumes "parse_request body = None"
  shows "crawl_endpoint configs b k hdr body =
           (if api_key_header hdr = Some k then (HTTP_Error 422 ''Unprocessable Entity'', [])
            else (HTTP_Error 403 ''Invalid API Key'', []))"
  using assms
  by (auto simp: crawl_endpoint_def get_api_key_def http_error_def split: option.splits)

theorem crawl_endpoint_invalid_body_witness:
  "parse_request (JObj [(''config_name'', JInt 5)]) = None \<and>
   crawl_endpoint [] idle_backend ''k'' (Some ''k'') (JObj [(''config_name'', JInt 5)]) =
     (HTTP_Error 422 ''Unprocessable Entity'', []) \<and>
   crawl_endpoint [] idle_backend ''k'' None (JObj [(''config_name'', JInt 5)]) =
     (HTTP_Error 403 ''Invalid API Key'', [])"
proof -
  have p: "parse_request (JObj [(''config_name'', JInt 5)]) = None" by simp
  from crawl_endpoint_invalid_body [OF p, of "[]" idle_backend "''k''" "Some ''k''"]
       crawl_endpoint_invalid_body [OF p, of "[]" idle_backend "''k''" None] p
  show ?thesis by (simp add: api_key_header_def)
qed


text \<open>
  C17. Routing comes before authentication and the handlers: whatever the key and the
  body, \<^verbatim>\<open>/crawl\<close> with a method other than \<^verbatim>\<open>POST\<close> and \<^verbatim>\<open>/configs\<close>
  with one other than \<^verbatim>\<open>GET\<close> are answered 405, a served path written with trailing
  slashes is redirected to the path without them, a path that is none of the app's
  (also after stripping trailing slashes) is answered 404, and only
  \<^verbatim>\<open>POST /crawl\<close> has any effect (opens a crawler or fetches a page). The OpenAPI
  schema FastAPI generates is served to every caller, with or without a key.
\<close>

theorem handle_request_routing:
  "handle_request configs b k GET ''/openapi.json'' hdr body = (FrameworkPage OpenAPISchema, []) \<and>
   (path = ''/crawl'' \<and> m \<noteq> POST \<longrightarrow>
      handle_request configs b k m path hdr body = (JSONAnswer (HTTP_Error 405 ''Method Not Allowed''), [])) \<and>
   (path = ''/configs'' \<and> m \<noteq> GET \<longrightarrow>
      handle_request configs b k m path hdr body = (JSONAnswer (HTTP_Error 405 ''Method Not Allowed''), [])) \<and>
   (rstrip_slash path \<noteq> path \<and> rstrip_slash path \<in> set (map fst app_routes) \<longrightarrow>
      handle_request configs b k m path hdr body = (Redirect (rstrip_slash path), [])) \<and>
   ((\<forall>q \<in> set (map fst app_routes). rstrip_slash path \<noteq> q) \<longrightarrow>
      handle_request configs b k m path hdr body = (JSONAnswer (HTTP_Error 404 ''Not Found''), [])) \<and>
   (snd (handle_request configs b k m path hdr body) \<noteq> [] \<longrightarrow> m = POST \<and> path = ''/crawl'')"
proof (intro conjI impI)
  show "handle_request configs b k GET ''/openapi.json'' hdr body = (FrameworkPage OpenAPISchema, [])"
    by (simp add: handle_request_def route_request_def app_routes_def)
next
  assume "path = ''/crawl'' \<and> m \<noteq> POST"
  then show "handle_request configs b k m path hdr body = (JSONAnswer (HTTP_Error 405 ''Method Not Allowed''), [])"
    by (cases m) (simp_all add: handle_request_def route_request_def app_routes_def)
next
  assume "path = ''/configs'' \<and> m \<noteq> GET"
  then show "handle_request configs b k m path hdr body = (JSONAnswer (HTTP_Error 405 ''Method Not Allowed''), [])"
    by (cases m) (simp_all add: handle_request_def route_request_def app_routes_def)
next
  assume a: "rstrip_slash path \<noteq> path \<and> rstrip_slash path \<in> set (map fst app_routes)"
  then have l: "path \<noteq> [] \<and> last path = CHR ''/''" by (blast dest: rstrip_slash_changed)
  then have n: "path \<notin> set (map fst app_routes)" by (blast dest: app_route_path_last)
  have "path \<noteq> ''/''" using a by (auto simp: rstrip_slash_def app_routes_def)
  with a l show "handle_request configs b k m path hdr body = (Redirect (rstrip_slash path), [])"
    by (simp add: handle_request_def route_request_unrouted [OF n])
next
  assume a: "\<forall>q \<in> set (map fst app_routes). rstrip_slash path \<noteq> q"
  have n: "path \<notin> set (map fst app_routes)"
    using a app_route_path_last rstrip_slash_unchanged by metis
  have "path @ ''/'' \<notin> set (map fst app_routes)"
    using app_route_path_last by fastforce
  with a show "handle_request configs b k m path hdr body = (JSONAnswer (HTTP_Error 404 ''Not Found''), [])"
    by (auto simp: handle_request_def route_request_unrouted [OF n] Let_def)
next
  assume "snd (handle_request configs b k m path hdr body) \<noteq> []"
  from handle_request_effects [OF this] show "m = POST" ..
next
  assume "snd (handle_request configs b k m path hdr body) \<noteq> []"
  from handle_request_effects [OF this] show "path = ''/crawl''" ..
qed
theorem handle_request_routing_witness:
  "handle_request (CONFIGS ''/srv'') idle_backend ''k'' GET ''/crawl'' (Some ''k'') (JObj []) =
     (JSONAnswer (HTTP_Error 405 ''Method Not Allowed''), []) \<and>
   handle_request (CONFIGS ''/srv'') idle_backend ''k'' POST ''/configs'' (Some ''k'') (JObj []) =
     (JSONAnswer (HTTP_Error 405 ''Method Not Allowed''), []) \<and>
   handle_request (CONFIGS ''/srv'') idle_backend ''k'' GET ''/configs/'' (Some ''k'') (JObj []) =
     (Redirect ''/configs'', []) \<and>
   handle_request (CONFIGS ''/srv'') idle_backend ''k'' GET ''/crawls'' (Some ''k'') (JObj []) =
     (JSONAnswer (HTTP_Error 404 ''Not Found''), []) \<and>
   snd (handle_request (CONFIGS ''/srv'') idle_backend ''k'' POST ''/crawl'' (Some ''k'')
          (JObj [(''config_name'', JStr ''test'')])) = [OpenCrawler, FetchPage 1, CloseCrawler] \<and>
   POST = POST \<and> ''/crawl'' = ''/crawl''"
proof -
  note h = handle_request_routing [where configs = "CONFIGS ''/srv''" and b = idle_backend and k = "''k''"
      and hdr = "Some ''k''"]
  have r: "rstrip_slash ''/configs/'' = ''/configs''" "rstrip_slash ''/crawls'' = ''/crawls''"
    by (simp_all add: rstrip_slash_def)
  have e: "snd (handle_request (CONFIGS ''/srv'') idle_backend ''k'' POST ''/crawl'' (Some ''k'')
          (JObj [(''config_name'', JStr ''test'')])) = [OpenCrawler, FetchPage 1, CloseCrawler]"
    by (simp add: crawl_defs crawl_loop.simps idle_backend_def)
  have 1: "handle_request (CONFIGS ''/srv'') idle_backend ''k'' GET ''/crawl'' (Some ''k'') (JObj []) =
     (JSONAnswer (HTTP_Error 405 ''Method Not Allowed''), [])"
    by (rule mp [OF h [where path = "''/crawl''" and m = GET and body = "JObj []", THEN conjunct2, THEN conjunct1]]) simp
  have 2: "handle_request (CONFIGS ''/srv'') idle_backend ''k'' POST ''/configs'' (Some ''k'') (JObj []) =
     (JSONAnswer (HTTP_Error 405 ''Method Not Allowed''), [])"
    by (rule mp [OF h [where path = "''/configs''" and m = POST and body = "JObj []",
          THEN conjunct2, THEN conjunct2, THEN conjunct1]]) simp
  have 3: "handle_request (CONFIGS ''/srv'') idle_backend ''k'' GET ''/configs/'' (Some ''k'') (JObj []) =
     (Redirect (rstrip_slash ''/configs/''), [])"
    by (rule mp [OF h [where path = "''/configs/''" and m = GET and body = "JObj []",
          THEN conjunct2, THEN conjunct2, THEN conjunct2, THEN conjunct1]])
       (simp add: r app_routes_def)
  have 4: "handle_request (CONFIGS ''/srv'') idle_backend ''k'' GET ''/crawls'' (Some ''k'') (JObj []) =
     (JSONAnswer (HTTP_Error 404 ''Not Found''), [])"
    by (rule mp [OF h [where path = "''/crawls''" and m = GET and body = "JObj []",
          THEN conjunct2, THEN conjunct2, THEN conjunct2, THEN conjunct2, THEN conjunct1]]) (simp add: r app_routes_def)
  have 5: "POST = POST \<and> ''/crawl'' = ''/crawl''"
    by (rule mp [OF h [where path = "''/crawl''" and m = POST and body = "JObj [(''config_name'', JStr ''test'')]",
          THEN conjunct2, THEN conjunct2, THEN conjunct2, THEN conjunct2, THEN conjunct2]]) (simp add: e)
  from 1 2 3 4 5 e r show ?thesis by simp
qed

end
