(* ===== verification/Startup.thy ===== *)
theory Startup
  imports Api "HOL-Library.AList"
begin

text \<open>
  Process start-up of the server and of the client script. Both modules call
  \<^verbatim>\<open>load_dotenv()\<close> at import time (\<^verbatim>\<open>src/api.py\<close> line 15,
  \<^verbatim>\<open>src/test_api.py\<close> line 7) and then read \<^verbatim>\<open>API_KEY\<close> from their own process
  environment: the server with \<^verbatim>\<open>os.environ.get\<close> and a default (line 19), the client
  with \<^verbatim>\<open>os.getenv\<close> and none (line 11). \<^verbatim>\<open>load_dotenv()\<close> without a path looks for
  \<^verbatim>\<open>.env\<close> from the directory of the calling script upwards, and both scripts live in
  \<^verbatim>\<open>src/\<close>, so the two processes read the same file; their process environments
  (the shells they were started from) are independent. The file is taken as parsed: the
  list of its bindings in file order, \<open>None\<close> for a bare name without \<open>=\<close>
  (variable interpolation \<open>${...}\<close> is not modelled). python-dotenv collects the
  bindings into a dict (\<open>dotenv_values\<close>: a later binding of a name replaces the value
  and keeps the position) and, with its default \<open>override=False\<close>, sets each name
  that the process environment does not already have (\<open>set_as_environment_variables\<close>).
\<close>

type_synonym environ = "string \<rightharpoonup> string"

type_synonym dotenv_file = "(string \<times> string option) list"

definition dotenv_values :: "dotenv_file \<Rightarrow> (string \<times> string option) list" where
  "dotenv_values d = fold (\<lambda>(k, v) acc. AList.update k v acc) d []"

fun set_as_environment_variables :: "(string \<times> string option) list \<Rightarrow> environ \<Rightarrow> environ" where
  "set_as_environment_variables [] env = env"
| "set_as_environment_variables ((k, v) # kvs) env =
     set_as_environment_variables kvs
       (if env k \<noteq> None then env else (case v of None \<Rightarrow> env | Some s \<Rightarrow> env(k \<mapsto> s)))"

definition load_dotenv :: "dotenv_file \<Rightarrow> environ \<Rightarrow> environ" where
  "load_dotenv d env = set_as_environment_variables (dotenv_values d) env"

text \<open>The key each process resolves at import time.\<close>

definition server_API_KEY :: "environ \<Rightarrow> dotenv_file \<Rightarrow> string" where
  "server_API_KEY env d = API_KEY (load_dotenv d env ''API_KEY'')"

definition client_API_KEY :: "environ \<Rightarrow> dotenv_file \<Rightarrow> string option" where
  "client_API_KEY env d = load_dotenv d env ''API_KEY''"

text \<open>
  The server's entry point (\<^verbatim>\<open>src/api.py\<close> lines 143 and 144): run as a script,
  the module starts uvicorn on the application \<^verbatim>\<open>api:app\<close>, bound to every IPv4
  interface on port 8000, with auto-reload.
\<close>

record uvicorn_run =
  app_import :: string
  bind_host :: string
  bind_port :: nat
  autoreload :: bool

definition server_main :: uvicorn_run where
  "server_main = \<lparr>app_import = ''api:app'', bind_host = ''0.0.0.0'', bind_port = 8000, autoreload = True\<rparr>"

text \<open>
  A server bound as \<open>r\<close> accepts a connection to host \<open>h\<close> and port \<open>p\<close> on its own
  machine: the port must be the bound one, and the wildcard address \<^verbatim>\<open>0.0.0.0\<close>
  accepts the loopback names as well.
\<close>

definition serves :: "uvicorn_run \<Rightarrow> string \<Rightarrow> nat \<Rightarrow> bool" where
  "serves r h p \<longleftrightarrow> p = bind_port r \<and>
     (h = bind_host r \<or> (bind_host r = ''0.0.0.0'' \<and> h \<in> {''localhost'', ''127.0.0.1''}))"

lemmas startup_defs [crawl_defs] = dotenv_values_def load_dotenv_def server_API_KEY_def client_API_KEY_def
  server_main_def serves_def

subsection \<open>The dict of the file\<close>

lemma map_of_fold_update:
  "map_of (fold (\<lambda>(k, v) acc. AList.update k v acc) d acc) = map_of acc ++ map_of (rev d)"
  by (induction d arbitrary: acc) (auto simp: update_conv' map_add_def fun_eq_iff split: option.splits)

lemma distinct_fold_update:
  "distinct (map fst acc) \<Longrightarrow> distinct (map fst (fold (\<lambda>(k, v) acc. AList.update k v acc) d acc))"
  by (induction d arbitrary: acc) (auto simp: distinct_update)

text \<open>The dict holds the last binding of every name of the file, once.\<close>

lemma map_of_dotenv_values: "map_of (dotenv_values d) = map_of (rev d)"
  by (simp add: dotenv_values_def map_of_fold_update)

lemma distinct_dotenv_values: "distinct (map fst (dotenv_values d))"
  by (simp add: dotenv_values_def distinct_fold_update)

subsection \<open>The environment after loading\<close>

text \<open>A name keeps its value if the process had one, else takes the file's, if any.\<close>

lemma set_as_environment_variables_lookup:
  "distinct (map fst kvs) \<Longrightarrow>
   set_as_environment_variables kvs env k =
     (case env k of Some s \<Rightarrow> Some s | None \<Rightarrow> (case map_of kvs k of Some (Some s) \<Rightarrow> Some s | _ \<Rightarrow> None))"
proof (induction kvs arbitrary: env)
  case Nil
  then show ?case by (simp split: option.split)
next
  case (Cons kv kvs)
  obtain k' v where kv: "kv = (k', v)" by (cases kv)
  with Cons.prems have "k' \<notin> fst ` set kvs" and d: "distinct (map fst kvs)" by auto
  then have "k = k' \<Longrightarrow> map_of kvs k = None" by (simp add: map_of_eq_None_iff)
  with Cons.IH [OF d] kv show ?case
    by (cases "k = k'") (auto split: option.splits)
qed

lemma load_dotenv_lookup:
  "load_dotenv d env k =
     (case env k of Some s \<Rightarrow> Some s
      | None \<Rightarrow> (case map_of (dotenv_values d) k of Some (Some s) \<Rightarrow> Some s | _ \<Rightarrow> None))"
  by (simp add: load_dotenv_def set_as_environment_variables_lookup distinct_dotenv_values)

lemma load_dotenv_env_set [simp]: "env k = Some s \<Longrightarrow> load_dotenv d env k = Some s"
  by (simp add: load_dotenv_lookup)

lemma load_dotenv_env_unset [simp]:
  "env k = None \<Longrightarrow> load_dotenv d env k =
     (case map_of (dotenv_values d) k of Some (Some s) \<Rightarrow> Some s | _ \<Rightarrow> None)"
  by (simp add: load_dotenv_lookup)

text \<open>Two processes started from shells that agree on a name see the same value of it.\<close>

lemma load_dotenv_same_shell:
  "env k = env' k \<Longrightarrow> load_dotenv d env k = load_dotenv d env' k"
  by (simp add: load_dotenv_lookup)

end
