(* ===== verification/TestClient.thy ===== *)
theory TestClient
  imports Http Startup
begin

text \<open>
  The API's client script \<^verbatim>\<open>src/test_api.py\<close>. It reads \<^verbatim>\<open>API_KEY\<close> with
  \<^verbatim>\<open>os.getenv\<close> (no default: \<open>None\<close> when unset) and sends it as the
  \<^verbatim>\<open>X-API-Key\<close> header of three requests: \<^verbatim>\<open>GET /configs\<close>, \<^verbatim>\<open>POST /crawl\<close>
  naming the \<^verbatim>\<open>test\<close> configuration, and \<^verbatim>\<open>POST /crawl\<close> with an inline
  configuration. \<^verbatim>\<open>requests\<close> leaves out a header whose value is \<open>None\<close>, so the
  header the server receives is the client's key itself. The tests take the key the
  server process resolved (\<open>server_key\<close>, its \<^verbatim>\<open>API_KEY\<close>) and the one the client
  process resolved (\<open>client_key\<close>); \<open>Startup\<close> says how each process obtains it from
  its environment and the shared \<^verbatim>\<open>.env\<close>. The server's registry is
  \<open>CONFIGS abs_path\<close>. Each test is the answer it receives from the application
  (\<open>handle_request\<close>: the router, then the endpoint), with the effects on the crawler;
  \<open>client_crawl_summary\<close> is the values the script prints from a 200 body (the text
  formatting of the printout is not modelled).
\<close>

text \<open>
  Where the script sends its requests: \<^verbatim>\<open>API_URL\<close> (line 10) with the endpoint's
  path appended by an f-string (lines 21, 36, 74). \<open>split_http_url\<close> reads an
  \<^verbatim>\<open>http://host:port/path\<close> URL as the HTTP library does: host, port (80 when
  absent) and path (\<open>/\<close> when empty); any other URL is refused (\<open>None\<close>).
\<close>

definition API_URL :: string where
  "API_URL = ''http://localhost:8000''"

fun parse_port :: "string \<Rightarrow> nat option" where
  "parse_port [] = Some 80"
| "parse_port ds =
     (if list_all (\<lambda>c. c \<in> set ''0123456789'') ds
      then Some (foldl (\<lambda>n c. 10 * n + (of_char c - 48)) 0 ds) else None)"

definition split_http_url :: "string \<Rightarrow> (string \<times> nat \<times> string) option" where
  "split_http_url url =
     (if take 7 url = ''http://'' then
        (let rest = drop 7 url;
             auth = takeWhile (\<lambda>c. c \<noteq> CHR ''/'') rest;
             path = dropWhile (\<lambda>c. c \<noteq> CHR ''/'') rest;
             host = takeWhile (\<lambda>c. c \<noteq> CHR '':'') auth
         in (case parse_port (drop 1 (dropWhile (\<lambda>c. c \<noteq> CHR '':'') auth)) of
               None \<Rightarrow> None
             | Some port \<Rightarrow> Some (host, port, if path = [] then ''/'' else path)))
      else None)"

definition client_api_key :: "string option \<Rightarrow> string option" where
  "client_api_key client_key = client_key"

text \<open>The JSON body of \<^verbatim>\<open>test_crawl_with_config\<close>.\<close>

definition config_test_body :: json where
  "config_test_body = JObj [(''config_name'', JStr ''test'')]"

text \<open>The payload of \<^verbatim>\<open>test_crawl_with_custom_config\<close>, verbatim (\<open>0.2\<close> is \<open>JFloat 2 1\<close>).\<close>

definition custom_test_payload :: "(string \<times> json) list" where
  "custom_test_payload =
     [(''BASE_URL'', JStr ''https://example.com''),
      (''CSS_SELECTOR'', JStr ''div.container''),
      (''REQUIRED_KEYS'', JList [JStr ''title'', JStr ''description'']),
      (''OPTIONAL_KEYS'', JList [JStr ''link'']),
      (''CRAWLER_CONFIG'', JObj
         [(''MULTI_PAGE'', JBool False),
          (''HEADLESS'', JBool True),
          (''USER_AGENT'', JStr ''Mozilla/5.0 (Windows NT 10.0; Win64; x64) AppleWebKit/537.36 (KHTML, like Gecko) Chrome/91.0.4472.124 Safari/537.36''),
          (''TIMEOUT'', JInt 30000),
          (''WAIT_FOR'', JInt 1000)]),
      (''LLM_CONFIG'', JObj
         [(''MODEL'', JStr ''llama3-70b-8192''),
          (''TEMPERATURE'', JFloat 2 1),
          (''MAX_TOKENS'', JInt 1024),
          (''INSTRUCTION'', JStr ''Extract the title and description from the page. If available, also extract any links.'')])]"

definition custom_test_body :: json where
  "custom_test_body = JObj [(''custom_config'', JObj custom_test_payload)]"

text \<open>
  What the two crawl tests print of a 200 answer (lines 40 to 44 and 78 to 82): the
  \<open>total_items\<close> and \<open>pages_crawled\<close> of the statistics, and the first record, or
  \<open>{}\<close> when there is none; a missing field raises.
\<close>

definition client_crawl_summary :: "json \<Rightarrow> exn + json \<times> json \<times> json" where
  "client_crawl_summary result =
     (case py_getitem result ''stats'' of
        Inl e \<Rightarrow> Inl e
      | Inr st \<Rightarrow>
     (case py_getitem st ''total_items'' of
        Inl e \<Rightarrow> Inl e
      | Inr tot \<Rightarrow>
     (case py_getitem st ''pages_crawled'' of
        Inl e \<Rightarrow> Inl e
      | Inr pgs \<Rightarrow>
     (case py_getitem result ''items'' of
        Inl e \<Rightarrow> Inl e
      | Inr its \<Rightarrow>
          if truthy its
          then (case py_index0 its of Inl e \<Rightarrow> Inl e | Inr first \<Rightarrow> Inr (tot, pgs, first))
          else Inr (tot, pgs, JObj [])))))"

text \<open>
  The three tests, as the answers they receive from the application (\<open>handle_request\<close>:
  router, then endpoint) with the effects on the crawler. The \<^verbatim>\<open>GET\<close> carries no
  body, written \<open>JNull\<close> (the listing reads none).
\<close>

definition test_list_configs :: "string \<Rightarrow> string option \<Rightarrow> string \<Rightarrow> 'u crawler_backend \<Rightarrow>
    app_response \<times> event list" where
  "test_list_configs server_key client_key abs_path b =
     handle_request (CONFIGS abs_path) b server_key GET ''/configs'' (client_api_key client_key) JNull"

definition test_crawl_with_config :: "string \<Rightarrow> string option \<Rightarrow> string \<Rightarrow> 'u crawler_backend \<Rightarrow>
    app_response \<times> event list" where
  "test_crawl_with_config server_key client_key abs_path b =
     handle_request (CONFIGS abs_path) b server_key POST ''/crawl'' (client_api_key client_key) config_test_body"

definition test_crawl_with_custom_config :: "string \<Rightarrow> string option \<Rightarrow> string \<Rightarrow> 'u crawler_backend \<Rightarrow>
    app_response \<times> event list" where
  "test_crawl_with_custom_config server_key client_key abs_path b =
     handle_request (CONFIGS abs_path) b server_key POST ''/crawl'' (client_api_key client_key) custom_test_body"

text \<open>The script's main block: the three tests in order, each a fresh request.\<close>

definition test_main :: "string \<Rightarrow> string option \<Rightarrow> string \<Rightarrow> 'u crawler_backend \<Rightarrow>
    (app_response \<times> event list) \<times> (app_response \<times> event list) \<times> (app_response \<times> event list)" where
  "test_main server_key client_key abs_path b =
     (test_list_configs server_key client_key abs_path b,
      test_crawl_with_config server_key client_key abs_path b,
      test_crawl_with_custom_config server_key client_key abs_path b)"

lemmas test_client_defs [crawl_defs] = client_api_key_def config_test_body_def
  custom_test_payload_def custom_test_body_def client_crawl_summary_def test_list_configs_def
  test_crawl_with_config_def test_crawl_with_custom_config_def test_main_def

subsection \<open>What the client observes\<close>

text \<open>What the script reads of a response body is what the server wrote into it.\<close>

lemma client_crawl_summary_response_json:
  "client_crawl_summary (response_json r) =
     Inr (JInt (int (total_items (stats r))), JInt (pages_crawled (stats r)),
          (case items r of [] \<Rightarrow> JObj [] | x # xs \<Rightarrow> x))"
  by (cases "items r") (simp_all add: client_crawl_summary_def response_json_def)

text \<open>
  A crawl request whose endpoint answer reports one page, sent through the application:
  the effects are the endpoint's, and the script prints one page crawled.
\<close>

lemma handle_crawl_one_page:
  assumes "snd (crawl_endpoint configs b k hdr body) = tr"
    and "\<forall>resp. fst (crawl_endpoint configs b k hdr body) = HTTP_OK resp \<longrightarrow> pages_crawled (stats resp) = 1"
  shows "snd (handle_request configs b k POST ''/crawl'' hdr body) = tr \<and>
         (\<forall>j. fst (handle_request configs b k POST ''/crawl'' hdr body) = JSONAnswer (HTTP_OK j) \<longrightarrow>
                (\<exists>tot first. client_crawl_summary j = Inr (tot, JInt 1, first)))"
  using assms
  by (cases "crawl_endpoint configs b k hdr body")
     (auto simp: handle_request_crawl map_http_OK_iff client_crawl_summary_response_json)

text \<open>The two configurations the client's crawl requests resolve to pass every read.\<close>

lemma test_requests_single_page:
  shows "\<exists>req config env l url sel. parse_request config_test_body = Some req \<and>
           resolve_config (CONFIGS abs_path) req = Inr config \<and>
           setup_env config = Inr (env, l) \<and> \<not> truthy (multi_page env) \<and>
           py_getitem config ''BASE_URL'' = Inr url \<and> py_getitem config ''CSS_SELECTOR'' = Inr sel"
    and "\<exists>req config env l url sel. parse_request custom_test_body = Some req \<and>
           resolve_config (CONFIGS abs_path) req = Inr config \<and>
           setup_env config = Inr (env, l) \<and> \<not> truthy (multi_page env) \<and>
           py_getitem config ''BASE_URL'' = Inr url \<and> py_getitem config ''CSS_SELECTOR'' = Inr sel"
  by (simp_all add: crawl_defs)

text \<open>
  With one non-empty key on both sides, the listing succeeds and each crawl request
  fetches page 1 only.
\<close>

lemma test_client_one_page_with_key:
  assumes "k \<noteq> []"
  shows "test_list_configs k (Some k) abs_path b =
           (JSONAnswer (HTTP_OK (configs_json [(''dental'', ''For dental scraping''), (''minimal'', ''For minimal scraping''),
                  (''detailed'', ''For detailed scraping''), (''test'', ''Custom configuration'')])), []) \<and>
         snd (test_crawl_with_config k (Some k) abs_path b) = [OpenCrawler, FetchPage 1, CloseCrawler] \<and>
         (\<forall>j. fst (test_crawl_with_config k (Some k) abs_path b) = JSONAnswer (HTTP_OK j) \<longrightarrow>
                (\<exists>tot first. client_crawl_summary j = Inr (tot, JInt 1, first))) \<and>
         snd (test_crawl_with_custom_config k (Some k) abs_path b) = [OpenCrawler, FetchPage 1, CloseCrawler] \<and>
         (\<forall>j. fst (test_crawl_with_custom_config k (Some k) abs_path b) = JSONAnswer (HTTP_OK j) \<longrightarrow>
                (\<exists>tot first. client_crawl_summary j = Inr (tot, JInt 1, first)))"
proof -
  have h: "api_key_header (client_api_key (Some k)) = Some k"
    using assms by (simp add: api_key_header_def client_api_key_def)
  have l: "test_list_configs k (Some k) abs_path b =
           (JSONAnswer (HTTP_OK (configs_json [(''dental'', ''For dental scraping''), (''minimal'', ''For minimal scraping''),
                  (''detailed'', ''For detailed scraping''), (''test'', ''Custom configuration'')])), [])"
    using h by (simp add: test_list_configs_def handle_request_configs list_configs_def get_api_key_def
                          config_description_def CONFIGS_def)
  from test_requests_single_page(1) [of abs_path] obtain r1 c1 e1 l1 u1 s1 where
    p1: "parse_request config_test_body = Some r1" and
    rest1: "resolve_config (CONFIGS abs_path) r1 = Inr c1" "setup_env c1 = Inr (e1, l1)"
    "\<not> truthy (multi_page e1)" "py_getitem c1 ''BASE_URL'' = Inr u1" "py_getitem c1 ''CSS_SELECTOR'' = Inr s1"
    by blast
  note cs1 = crawl_single_page_request [OF h rest1, of b]
  have c: "snd (test_crawl_with_config k (Some k) abs_path b) = [OpenCrawler, FetchPage 1, CloseCrawler] \<and>
           (\<forall>j. fst (test_crawl_with_config k (Some k) abs_path b) = JSONAnswer (HTTP_OK j) \<longrightarrow>
                  (\<exists>tot first. client_crawl_summary j = Inr (tot, JInt 1, first)))"
    unfolding test_crawl_with_config_def
    by (rule handle_crawl_one_page) (simp_all add: crawl_endpoint_parsed [OF p1] cs1)
  from test_requests_single_page(2) [of abs_path] obtain r2 c2 e2 l2 u2 s2 where
    p2: "parse_request custom_test_body = Some r2" and
    rest2: "resolve_config (CONFIGS abs_path) r2 = Inr c2" "setup_env c2 = Inr (e2, l2)"
    "\<not> truthy (multi_page e2)" "py_getitem c2 ''BASE_URL'' = Inr u2" "py_getitem c2 ''CSS_SELECTOR'' = Inr s2"
    by blast
  note cs2 = crawl_single_page_request [OF h rest2, of b]
  have d: "snd (test_crawl_with_custom_config k (Some k) abs_path b) = [OpenCrawler, FetchPage 1, CloseCrawler] \<and>
           (\<forall>j. fst (test_crawl_with_custom_config k (Some k) abs_path b) = JSONAnswer (HTTP_OK j) \<longrightarrow>
                  (\<exists>tot first. client_crawl_summary j = Inr (tot, JInt 1, first)))"
    unfolding test_crawl_with_custom_config_def
    by (rule handle_crawl_one_page) (simp_all add: crawl_endpoint_parsed [OF p2] cs2)
  from l c d show ?thesis by blast
qed

text \<open>
  Every request of the script is refused with 403 when the key the client sends is not
  the server's, before any configuration is read or the crawler started.
\<close>

lemma test_main_rejected:
  assumes "api_key_header (client_api_key ck) \<noteq> Some sk"
  shows "test_main sk ck abs_path b =
           ((JSONAnswer (HTTP_Error 403 ''Invalid API Key''), []), (JSONAnswer (HTTP_Error 403 ''Invalid API Key''), []),
            (JSONAnswer (HTTP_Error 403 ''Invalid API Key''), []))"
  using assms
  by (simp add: test_main_def test_list_configs_def test_crawl_with_config_def
                test_crawl_with_custom_config_def handle_request_crawl handle_request_configs
                list_configs_def crawl_endpoint_def get_api_key_def http_error_def split: option.split)

text \<open>
  C30. When the two processes are started from shells that agree on \<^verbatim>\<open>API_KEY\<close>
  (both export the same value, or neither does) and the key they resolve, from the shell
  or from the shared \<^verbatim>\<open>.env\<close>, is non-empty, the client's listing succeeds with the
  four registered configurations, and each of its two crawl requests, addressed by
  \<^verbatim>\<open>API_URL\<close> to the port the server binds and sent through the application's router, whatever the backend returns, opens the crawler, fetches exactly
  page 1 and closes it (both configurations are single-page); on a 200 answer the
  script prints one page crawled.
\<close>

theorem test_client_crawls_one_page:
  assumes "es ''API_KEY'' = ec ''API_KEY''" and "load_dotenv d es ''API_KEY'' = Some k" and "k \<noteq> []"
  shows "split_http_url (API_URL @ ''/configs'') = Some (''localhost'', 8000, ''/configs'') \<and>
         split_http_url (API_URL @ ''/crawl'') = Some (''localhost'', 8000, ''/crawl'') \<and>
         serves server_main ''localhost'' 8000 \<and>
         test_list_configs (server_API_KEY es d) (client_API_KEY ec d) abs_path b =
           (JSONAnswer (HTTP_OK (configs_json [(''dental'', ''For dental scraping''), (''minimal'', ''For minimal scraping''),
                  (''detailed'', ''For detailed scraping''), (''test'', ''Custom configuration'')])), []) \<and>
         snd (test_crawl_with_config (server_API_KEY es d) (client_API_KEY ec d) abs_path b) = [OpenCrawler, FetchPage 1, CloseCrawler] \<and>
         (\<forall>j. fst (test_crawl_with_config (server_API_KEY es d) (client_API_KEY ec d) abs_path b) = JSONAnswer (HTTP_OK j) \<longrightarrow>
                (\<exists>tot first. client_crawl_summary j = Inr (tot, JInt 1, first))) \<and>
         snd (test_crawl_with_custom_config (server_API_KEY es d) (client_API_KEY ec d) abs_path b) = [OpenCrawler, FetchPage 1, CloseCrawler] \<and>
         (\<forall>j. fst (test_crawl_with_custom_config (server_API_KEY es d) (client_API_KEY ec d) abs_path b) = JSONAnswer (HTTP_OK j) \<longrightarrow>
                (\<exists>tot first. client_crawl_summary j = Inr (tot, JInt 1, first)))"
proof -
  have "server_API_KEY es d = k" using assms(2) by (simp add: server_API_KEY_def API_KEY_def)
  moreover have "client_API_KEY ec d = Some k"
    using load_dotenv_same_shell [of es "''API_KEY''" ec d, OF assms(1)] assms(2) by (simp add: client_API_KEY_def)
  moreover have "split_http_url (API_URL @ ''/configs'') = Some (''localhost'', 8000, ''/configs'') \<and>
    split_http_url (API_URL @ ''/crawl'') = Some (''localhost'', 8000, ''/crawl'') \<and>
    serves server_main ''localhost'' 8000"
    by (simp add: split_http_url_def API_URL_def serves_def server_main_def)
  ultimately show ?thesis using test_client_one_page_with_key [OF assms(3)] by simp
qed

theorem test_client_crawls_one_page_witness:
  "[''API_KEY'' \<mapsto> ''secret''] ''API_KEY'' = [''API_KEY'' \<mapsto> ''secret''] ''API_KEY'' \<and>
   load_dotenv [(''API_KEY'', Some ''secret'')] [''API_KEY'' \<mapsto> ''secret''] ''API_KEY'' = Some ''secret'' \<and>
   ''secret'' \<noteq> [] \<and>
   snd (test_crawl_with_config (server_API_KEY [''API_KEY'' \<mapsto> ''secret''] [(''API_KEY'', Some ''secret'')])
          (client_API_KEY [''API_KEY'' \<mapsto> ''secret''] [(''API_KEY'', Some ''secret'')])
          ''/srv/crawler/test_products.html'' idle_backend) =
     [OpenCrawler, FetchPage 1, CloseCrawler]"
proof -
  have l: "load_dotenv [(''API_KEY'', Some ''secret'')] [''API_KEY'' \<mapsto> ''secret''] ''API_KEY'' = Some ''secret''"
    by simp
  from test_client_crawls_one_page [of "[''API_KEY'' \<mapsto> ''secret'']" "[''API_KEY'' \<mapsto> ''secret'']",
      OF refl l, of "''/srv/crawler/test_products.html''" idle_backend] l
  show ?thesis by simp
qed

text \<open>
  C31. The script's three requests are all refused with 403, before any configuration is
  read or the crawler started, exactly when the key the client sends differs from the
  server's; in particular when \<^verbatim>\<open>API_KEY\<close> is set nowhere, since the server then
  expects \<^verbatim>\<open>default_api_key_change_me\<close> while the client sends no header.
\<close>

theorem test_client_rejected_iff_keys_differ:
  "test_main sk ck abs_path b =
     ((JSONAnswer (HTTP_Error 403 ''Invalid API Key''), []), (JSONAnswer (HTTP_Error 403 ''Invalid API Key''), []),
            (JSONAnswer (HTTP_Error 403 ''Invalid API Key''), [])) \<longleftrightarrow>
   api_key_header (client_api_key ck) \<noteq> Some sk"
proof
  assume "api_key_header (client_api_key ck) \<noteq> Some sk"
  then show "test_main sk ck abs_path b =
     ((JSONAnswer (HTTP_Error 403 ''Invalid API Key''), []), (JSONAnswer (HTTP_Error 403 ''Invalid API Key''), []),
            (JSONAnswer (HTTP_Error 403 ''Invalid API Key''), []))" by (rule test_main_rejected)
next
  assume "test_main sk ck abs_path b =
     ((JSONAnswer (HTTP_Error 403 ''Invalid API Key''), []), (JSONAnswer (HTTP_Error 403 ''Invalid API Key''), []),
            (JSONAnswer (HTTP_Error 403 ''Invalid API Key''), []))"
  then have "map_http configs_json (list_configs (CONFIGS abs_path) sk (client_api_key ck)) =
               HTTP_Error 403 ''Invalid API Key''"
    by (simp add: test_main_def test_list_configs_def handle_request_configs)
  then show "api_key_header (client_api_key ck) \<noteq> Some sk"
    by (auto simp: map_http_Error_iff list_configs_def get_api_key_def)
qed

theorem test_client_rejected_iff_keys_differ_witness:
  "test_main (server_API_KEY Map.empty []) (client_API_KEY Map.empty []) ''/srv/crawler/test_products.html''
     idle_backend =
     ((JSONAnswer (HTTP_Error 403 ''Invalid API Key''), []), (JSONAnswer (HTTP_Error 403 ''Invalid API Key''), []),
            (JSONAnswer (HTTP_Error 403 ''Invalid API Key''), []))"
  using test_client_rejected_iff_keys_differ [of "server_API_KEY Map.empty []" "client_API_KEY Map.empty []"
      "''/srv/crawler/test_products.html''" idle_backend]
  by (simp add: startup_defs client_api_key_def api_key_header_def)

text \<open>
  C33. Round trip of the response body: what the client prints of a response is what
  the server serialised, its \<open>total_items\<close>, its \<open>pages_crawled\<close> and its first
  record (\<open>{}\<close> when there is none); and for every 200 answer of the endpoint the
  printed total is the number of records in the body.
\<close>

theorem client_reads_response:
  "client_crawl_summary (response_json r) =
     Inr (JInt (int (total_items (stats r))), JInt (pages_crawled (stats r)),
          (case items r of [] \<Rightarrow> JObj [] | x # xs \<Rightarrow> x)) \<and>
   (crawl_endpoint configs b k hdr body = (HTTP_OK r, tr) \<longrightarrow> total_items (stats r) = length (items r))"
proof -
  have "client_crawl_summary (response_json r) =
          Inr (JInt (int (total_items (stats r))), JInt (pages_crawled (stats r)),
               (case items r of [] \<Rightarrow> JObj [] | x # xs \<Rightarrow> x))"
    by (rule client_crawl_summary_response_json)
  moreover have "total_items (stats r) = length (items r)"
    if "crawl_endpoint configs b k hdr body = (HTTP_OK r, tr)"
  proof -
    from crawl_endpoint_HTTP_OK [OF that] obtain config where "run_session b config = (Inr r, tr)"
      by blast
    then obtain st where "r = make_response b st"
      by (rule run_session_Inr)
    then show ?thesis by simp
  qed
  ultimately show ?thesis by blast
qed

theorem client_reads_response_witness:
  "client_crawl_summary (response_json
      \<lparr>items = [JObj [(''title'', JStr ''Widget'')]],
       stats = \<lparr>total_items = 1, pages_crawled = 1, llm_usage = JObj []\<rparr>\<rparr>) =
     Inr (JInt 1, JInt 1, JObj [(''title'', JStr ''Widget'')]) \<and>
   crawl_endpoint (CONFIGS ''/srv/crawler/test_products.html'') idle_backend ''k'' (Some ''k'') config_test_body =
     (HTTP_OK \<lparr>items = [], stats = \<lparr>total_items = 0, pages_crawled = 1, llm_usage = JInt 0\<rparr>\<rparr>,
      [OpenCrawler, FetchPage 1, CloseCrawler])"
proof -
  have run: "crawl_endpoint (CONFIGS ''/srv/crawler/test_products.html'') idle_backend ''k'' (Some ''k'') config_test_body =
     (HTTP_OK \<lparr>items = [], stats = \<lparr>total_items = 0, pages_crawled = 1, llm_usage = JInt 0\<rparr>\<rparr>,
      [OpenCrawler, FetchPage 1, CloseCrawler])"
    by (simp add: crawl_defs crawl_loop.simps idle_backend_def)
  from client_reads_response [of "\<lparr>items = [JObj [(''title'', JStr ''Widget'')]],
       stats = \<lparr>total_items = 1, pages_crawled = 1, llm_usage = JObj []\<rparr>\<rparr>"] run
  show ?thesis by simp
qed

end
