(* ===== verification/Spec2Isabelle.thy ===== *)
theory Spec2Isabelle
  imports Http TestClient
begin

text \<open>
  \<^bold>\<open>A verification model of the crawl API (goodgains-dev/convert-gg-api).\<close>

  \<^emph>\<open>The program.\<close> \<^verbatim>\<open>src/api.py\<close> is a FastAPI service. \<^verbatim>\<open>POST /crawl\<close>
  (function \<^verbatim>\<open>crawl\<close>) authenticates the caller by the \<^verbatim>\<open>X-API-Key\<close> header
  (\<^verbatim>\<open>get_api_key\<close>), resolves a configuration (a name registered in
  \<^verbatim>\<open>CONFIGS\<close> of \<^verbatim>\<open>src/config.py\<close>, or an inline dict), reads the pagination
  settings from it, opens a headless-browser crawler (\<^verbatim>\<open>async with AsyncWebCrawler\<close>)
  and runs the pagination loop: fetch page \<open>n\<close> through
  \<^verbatim>\<open>fetch_and_process_page\<close>, stop on "no results" or an empty page, append the
  page's records, stop when single-page or at the page cap, else sleep and go to page
  \<open>n + 1\<close>. The response lists the records and the statistics \<open>total_items\<close>,
  \<open>pages_crawled\<close> and the LLM usage. \<^verbatim>\<open>GET /configs\<close> lists the registry.
  \<^verbatim>\<open>fetch_and_process_page\<close> and the strategy builders live in
  \<^verbatim>\<open>utils/scraper_utils.py\<close>, which is not among the sources: the page fetcher is
  modelled from the specification (sections 4.2 and 6), everything else from the code.

  \<^emph>\<open>Theories, in import order.\<close>
  \<^item> \<open>Prelude\<close>: the fact collections \<open>crawl_defs\<close> (definitions unfolded to evaluate
    a concrete request) and \<open>crawl_simps\<close>; \<open>keys_of\<close>, the identities of a list of
    records, and its list lemmas.
  \<^item> \<open>PyValue\<close>: Python values as the datatype \<open>json\<close> (dicts as association lists),
    the exceptions \<open>exn\<close>, and the Python operations the handler applies with the
    exceptions they raise: \<open>py_getitem\<close> (\<open>d[k]\<close>), \<open>py_get\<close>
    (\<open>d.get(k, v)\<close>), \<open>truthy\<close>, \<open>py_ge_int\<close> (\<open>n >= v\<close>),
    \<open>py_sleep_check\<close> (\<open>asyncio.sleep\<close>'s argument check), \<open>dict_merge\<close>
    (\<open>{**d, ...}\<close>), proved to keep keys unique, keep the base's key order, append new
    keys and let the last override win.
  \<^item> \<open>Config\<close>: \<open>DEFAULT_CONFIG\<close> and \<open>CONFIGS\<close> of \<^verbatim>\<open>src/config.py\<close>,
    verbatim; the test configuration's base URL depends on the working directory, so
    \<open>CONFIGS\<close> takes the absolute path as a parameter.
  \<^item> \<open>Dedup\<close> (spec section 4.2): \<open>dedup_filter\<close>, the first-wins filter of a page's
    records against the set of seen identities, with records lacking an identity always
    kept; proved equal to the declarative \<open>dedup_spec\<close>, order preserving, producing
    distinct fresh identities, and compositional over consecutive pages.
  \<^item> \<open>Fetcher\<close> (spec sections 4.2, 6): the interface \<open>'u page_fetcher\<close> the loop calls
    (\<open>'u\<close> is the LLM strategy's state, i.e. its usage counters), the raw
    browser/LLM extraction \<open>'u raw_fetcher\<close> left abstract, and
    \<open>fetch_and_process_page\<close>: "no results" gives no records, otherwise the complete
    records are deduplicated against \<open>seen_titles\<close>. \<open>respects_seen\<close> (fresh,
    distinct identities) and \<open>keeps_complete\<close> (only records with every required key)
    are the contracts the loop relies on, both discharged for
    \<open>fetch_and_process_page\<close>.
  \<^item> \<open>Pagination\<close> (\<^verbatim>\<open>src/api.py\<close> lines 77 to 116): the loop state
    \<open>loop_state\<close> (page number, accumulated records, seen identities, strategy state,
    and the trace of effects \<open>event\<close>: open/close the crawler, fetch a page, sleep);
    one iteration \<open>crawl_iteration\<close> with outcome \<open>Continue\<close>, \<open>Break\<close> or
    \<open>Raise\<close>, guards in the code's order; the loop \<open>crawl_loop\<close>, total by the
    measure \<open>max_pages - page_number\<close>; the reachable states \<open>iter_reach\<close> and the
    invariants proved over them by rule induction (trace shape, page bounds, unique
    identities, complete records; \<open>crawl_loop_Inr_invariant\<close> lifts any property
    preserved by one iteration to the loop's result).
  \<^item> \<open>Api\<close> (\<^verbatim>\<open>src/api.py\<close> lines 18 to 141): \<open>get_api_key\<close>,
    \<open>resolve_config\<close> (the 400 checks), \<open>setup_env\<close> (the reads before the crawler
    opens), \<open>run_session\<close> (the crawler scope around the loop, closing on every exit,
    and the response checked against \<^verbatim>\<open>CrawlerResponse\<close>'s
    \<^verbatim>\<open>List[Dict]\<close> by \<open>validate_response\<close>), \<open>crawl\<close> (the endpoint, exceptions mapped to HTTP statuses)
    and \<open>list_configs\<close>. The backend (LLM strategy, fetcher, usage statistics) is a
    record of functions, so the theorems hold for every backend.
  \<^item> \<open>Http\<close> (\<^verbatim>\<open>src/api.py\<close> lines 30 to 45, 121 to 141): the request
    layer FastAPI puts around the handlers. The application object's route table
    \<open>app_routes\<close> (its generated documentation routes, \<^verbatim>\<open>POST /crawl\<close>,
    \<^verbatim>\<open>GET /configs\<close>) and its router \<open>route_request\<close> (first match, 405,
    trailing-slash redirect, 404), which \<open>handle_request\<close> runs before any endpoint;
    for \<^verbatim>\<open>/crawl\<close> the key dependency first, then pydantic's validation of the JSON
    body into \<^verbatim>\<open>CrawlerRequest\<close> (\<open>parse_request\<close>, 422 on failure), then the
    handler (\<open>crawl_endpoint\<close>); the response bodies \<open>response_json\<close> and
    \<open>configs_json\<close>.
  \<^item> \<open>Startup\<close> (\<^verbatim>\<open>src/api.py\<close> lines 15 to 19, \<^verbatim>\<open>src/test_api.py\<close>
    lines 7 to 11): \<^verbatim>\<open>load_dotenv()\<close> as python-dotenv runs it (the file's bindings
    collected into a dict, each set only if the process environment lacks it), and the
    key each process resolves, \<open>server_API_KEY\<close> and \<open>client_API_KEY\<close>, from its
    own environment and the \<^verbatim>\<open>.env\<close> both scripts find in \<^verbatim>\<open>src/\<close>; the
    entry point \<open>server_main\<close> (lines 143 and 144, the arguments of
    \<^verbatim>\<open>uvicorn.run\<close>) and the connections the bound server accepts (\<open>serves\<close>).
  \<^item> \<open>TestClient\<close> (\<^verbatim>\<open>src/test_api.py\<close>): the client script's three
    requests and its main block \<open>test_main\<close>, with the server's and the client's key as
    parameters and the JSON payloads verbatim, each sent through \<open>handle_request\<close>; the
    URLs it builds from \<open>API_URL\<close> (\<open>split_http_url\<close>); and
    \<open>client_crawl_summary\<close>, the values the script prints from a response body.
  \<^item> This theory: the properties that span the components, and the scenarios of the
    specification (section 8) run on concrete fetchers (\<open>static_site\<close>,
    \<open>failing_raw\<close>) and evaluated by the simplifier.

  \<^emph>\<open>What is proved.\<close> Of a session (\<open>run_session\<close>, for every backend): the trace of
  effects and the crawler's scope (C1, C2, C4), the page caps (C13, C21), that the loop
  runs up to the cap (C5), the records' properties (distinct identities C3, all required
  keys C24, identity-less records always kept C26), the refinement of per-page filtering
  against the shared \<open>seen_titles\<close> into one global deduplication (C7), the reported
  usage (C23), the loop's two early stops, a page of records all seen before (C15) and a
  page signalling no results, counted but its records dropped (C16), empty first pages
  (C27), and the error paths: a failing fetch loses the crawl (C6), a missing
  \<open>BASE_URL\<close> (C14), a string \<open>MAX_PAGES\<close> (C22), a bad delay (C25), a non-dict
  record (C35). Of the endpoint (\<open>crawl\<close>, \<open>list_configs\<close>): authentication and
  request validation (C8 to C11, C20, C28); Python truthiness of \<^verbatim>\<open>MULTI_PAGE\<close>, the
  only way the loop reads it (C29). Of the configuration registry: no registered
  configuration makes the handler raise (C12), and its page caps (C13). Of the client
  script: its requests, addressed to the port the server binds, against the server
  (C30), refused exactly when the two keys differ (C31), and what it reads of a response
  (C33). Of start-up: the key the server falls back to when it is set nowhere (C19), and
  a shell export shadowing \<^verbatim>\<open>.env\<close> for one process only (C18). Of the HTTP layer:
  routing before authentication (C17), invalid bodies give 422 or 403 (C32). A named
  configuration is served exactly as the same dict sent inline (C34).

  \<^emph>\<open>Termination and bounds.\<close> The loop needs no fuel in this model: a continuing
  iteration requires \<open>page_number < max_pages\<close> (a failed comparison raises) and
  increments the page, so \<open>crawl_loop\<close> is a total function. This rests on the values
  of \<open>json\<close> being finite. Python's JSON decoder also accepts \<^verbatim>\<open>NaN\<close> and
  \<^verbatim>\<open>Infinity\<close> in a request's \<^verbatim>\<open>custom_config\<close>, and with such a
  \<^verbatim>\<open>MAX_PAGES\<close> the test \<^verbatim>\<open>page_number >= max_pages\<close> never holds: the real loop
  then has no page cap and runs as long as the site returns new records. Those values
  are outside the model, so no theorem here bounds the pages of such a request.

  \<^emph>\<open>Not modelled.\<close> The module imports, uvicorn's serving loop and auto-reload (only
  the arguments of \<^verbatim>\<open>uvicorn.run\<close> are modelled), name resolution beyond the
  loopback names,
  the text syntax of \<^verbatim>\<open>.env\<close> and its \<open>${...}\<close> interpolation (the file is taken
  as its list of bindings), the content of FastAPI's documentation pages; the browser
  engine, the LLM backend, HTTP transport and the
  text form of JSON (external libraries: bodies are modelled as decoded \<open>json\<close>
  values, so a body that is not JSON text, which the framework rejects before the key
  check, is outside the model); \<open>get_browser_config\<close> and
  \<open>get_llm_strategy\<close> are assumed not to raise; the wall-clock effect of the sleep
  (only its occurrence and argument check are modelled); IEEE rounding of float
  literals (a float is the decimal it is written as), NaN and the infinities (see above); the text
  formatting of what \<^verbatim>\<open>src/test_api.py\<close> prints (the values are modelled).
\<close>

section \<open>Scenario fixtures\<close>

text \<open>A dental-clinic record as the extractor returns it; its identity is its name.\<close>

definition clinic :: "int \<Rightarrow> json" where
  "clinic i = JObj [(''name'', JInt i), (''location'', JStr ''New York, NY''),
                    (''description'', JStr ''General dentistry''), (''rating'', JInt 5)]"

text \<open>A backend whose extraction fails with a navigation timeout on page 2.\<close>

definition failing_raw :: "nat raw_fetcher" where
  "failing_raw p url sel u =
     (if p = 2 then (Inl (FetchFailure ''navigation timeout''), Suc u)
      else (Inr ([clinic 1, clinic 2], False), Suc u))"

definition backend_of :: "nat raw_fetcher \<Rightarrow> nat crawler_backend" where
  "backend_of raw =
     \<lparr>get_llm_strategy = (\<lambda>_. 0), fetch_page = fetch_and_process_page ''name'' raw,
      get_usage_stats = (\<lambda>u. JInt (int u))\<rparr>"

text \<open>Scenario A: two pages of two new clinics each, then a page with no results.\<close>

definition pages_A :: "int \<Rightarrow> json list option" where
  "pages_A p = (if p = 1 then Some [clinic 1, clinic 2] else if p = 2 then Some [clinic 3, clinic 4]
                else None)"

text \<open>Scenario C: page 2 repeats page 1 and adds one clinic.\<close>

definition pages_C :: "int \<Rightarrow> json list option" where
  "pages_C p = (if p = 1 then Some [clinic 1, clinic 2, clinic 3]
                else if p = 2 then Some [clinic 1, clinic 2, clinic 3, clinic 4] else None)"

text \<open>The loop settings \<open>setup_env\<close> reads from \<open>DEFAULT_CONFIG\<close>.\<close>

definition dental_env :: crawl_env where
  "dental_env = \<lparr>cfg = DEFAULT_CONFIG, required_keys = JList DEFAULT_REQUIRED_KEYS,
                  multi_page = JBool True, max_pages = JInt 5, delay = JInt 2\<rparr>"

text \<open>The registered single-page configuration and the settings read from it.\<close>

definition minimal_config :: json where
  "minimal_config = the (map_of (CONFIGS ''/srv/crawler/test_products.html'') ''minimal'')"

definition minimal_env :: crawl_env where
  "minimal_env = \<lparr>cfg = minimal_config, required_keys = JList DEFAULT_REQUIRED_KEYS,
                   multi_page = JBool False, max_pages = JInt 5, delay = JInt 2\<rparr>"

text \<open>A page fetcher that returns one new clinic on every page, and never "no results".\<close>

definition steady_backend :: "nat crawler_backend" where
  "steady_backend =
     \<lparr>get_llm_strategy = (\<lambda>_. 0),
      fetch_page = (\<lambda>p url sel req seen u. (Inr ([clinic p], False), seen, Suc u)),
      get_usage_stats = (\<lambda>u. JInt (int u))\<rparr>"

text \<open>A page fetcher whose extraction yields a bare string instead of a record.\<close>

definition text_backend :: "nat crawler_backend" where
  "text_backend =
     \<lparr>get_llm_strategy = (\<lambda>_. 0),
      fetch_page = (\<lambda>p url sel req seen u. (Inr ([JStr ''Smile Studio''], False), seen, Suc u)),
      get_usage_stats = (\<lambda>u. JInt (int u))\<rparr>"

text \<open>The CSS selector of the dental configuration.\<close>

definition dental_selector :: json where
  \<open>dental_selector = JStr ''div[data-test=\'search-result-card\']''\<close>

text \<open>The registry with the test page under a fixed working directory, and a dental request.\<close>

definition registry :: "(string \<times> json) list" where
  "registry = CONFIGS ''/srv/crawler/test_products.html''"

definition dental_request :: crawler_request where
  "dental_request = \<lparr>config_name = Some ''dental'', custom_config = None\<rparr>"

text \<open>A site whose page 2 repeats page 1 exactly, while page 3 has a new clinic.\<close>

definition pages_dup :: "int \<Rightarrow> json list option" where
  "pages_dup p = (if p = 1 \<or> p = 2 then Some [clinic 1, clinic 2]
                  else if p = 3 then Some [clinic 3] else None)"

text \<open>A site whose only page mixes complete clinics with a record that lacks most fields.\<close>

definition pages_partial :: "int \<Rightarrow> json list option" where
  "pages_partial p = (if p = 1 then Some [clinic 1, JObj [(''name'', JInt 9)], clinic 2] else None)"

text \<open>Inline configurations of a request (\<^verbatim>\<open>custom_config\<close>), with a given crawler section.\<close>

definition custom_crawl_config :: "(string \<times> json) list \<Rightarrow> (string \<times> json) list" where
  "custom_crawl_config crawler_cfg =
     [(''BASE_URL'', JStr ''https://example.com/clinics''), (''CSS_SELECTOR'', JStr ''div.card''),
      (''REQUIRED_KEYS'', JList [JStr ''name'']), (''CRAWLER_CONFIG'', JObj crawler_cfg),
      (''LLM_CONFIG'', JObj [(''INSTRUCTION'', JStr ''Extract the clinics'')])]"

definition custom_request :: "(string \<times> json) list \<Rightarrow> crawler_request" where
  "custom_request d = \<lparr>config_name = None, custom_config = Some d\<rparr>"

text \<open>An inline configuration crawling up to three pages, whose delay is the string \<open>"2"\<close>.\<close>

definition bad_delay_config :: json where
  "bad_delay_config = JObj (custom_crawl_config
     [(''MULTI_PAGE'', JBool True), (''MAX_PAGES'', JInt 3), (''DELAY_BETWEEN_PAGES'', JStr ''2'')])"

text \<open>
  A backend whose records are identified by their \<open>url\<close> field, and a site whose two
  pages both list a clinic without a URL and the same clinic with one.
\<close>

definition url_backend :: "nat raw_fetcher \<Rightarrow> nat crawler_backend" where
  "url_backend raw = (backend_of raw)\<lparr>fetch_page := fetch_and_process_page ''url'' raw\<rparr>"

definition pages_unkeyed :: "int \<Rightarrow> json list option" where
  "pages_unkeyed p =
     (if p = 1 \<or> p = 2
      then Some [JObj [(''name'', JStr ''Walk-in Dental'')],
                 JObj [(''name'', JStr ''Smile Studio''), (''url'', JStr ''/smile-studio'')]]
      else None)"

definition three_page_config :: json where
  "three_page_config = JObj (custom_crawl_config [(''MULTI_PAGE'', JBool True), (''MAX_PAGES'', JInt 3)])"

text \<open>A configuration without \<open>BASE_URL\<close>, and the settings read from it.\<close>

definition no_url_config :: json where
  "no_url_config = JObj [(''CSS_SELECTOR'', JStr ''div.card''), (''REQUIRED_KEYS'', JList [JStr ''title'']),
                         (''CRAWLER_CONFIG'', JObj [(''MULTI_PAGE'', JBool False)]), (''LLM_CONFIG'', JObj [])]"

definition no_url_env :: crawl_env where
  "no_url_env = \<lparr>cfg = no_url_config, required_keys = JList [JStr ''title''], multi_page = JBool False,
                  max_pages = JInt 1, delay = JInt 2\<rparr>"

lemmas eval_rules = crawl_defs crawl_loop.simps clinic_def failing_raw_def
  backend_of_def pages_A_def pages_C_def dental_env_def minimal_config_def minimal_env_def steady_backend_def text_backend_def dental_selector_def registry_def dental_request_def pages_dup_def custom_crawl_config_def
  pages_partial_def bad_delay_config_def url_backend_def pages_unkeyed_def three_page_config_def custom_request_def no_url_config_def no_url_env_def Let_def

section \<open>Properties of a crawl session\<close>

text \<open>
  C1. A successful session opens the crawler, fetches pages \<open>1, 2, ..., n\<close> in order
  with exactly one sleep (of the configured delay) between two consecutive fetches,
  closes the crawler, and reports \<open>pages_crawled = n \<ge> 1\<close> and
  \<open>total_items\<close> equal to the number of records returned.
\<close>

theorem crawl_success_trace:
  assumes "run_session b config = (Inr resp, tr)" and "setup_env config = Inr (env, l)"
  shows "tr = OpenCrawler # pages_trace (delay env) 1 (pages_crawled (stats resp)) @ [CloseCrawler] \<and>
         1 \<le> pages_crawled (stats resp) \<and> total_items (stats resp) = length (items resp)"
proof -
  from assms(1) obtain env' l' st where
    "resp = make_response b st"
    by (rule run_session_Inr)
  with run_session_Inr_shape [OF assms] show ?thesis by simp
qed

theorem crawl_success_trace_witness:
  "run_session (backend_of (static_site pages_A Suc)) DEFAULT_CONFIG =
     (Inr \<lparr>items = [clinic 1, clinic 2, clinic 3, clinic 4],
           stats = \<lparr>total_items = 4, pages_crawled = 3, llm_usage = JInt 3\<rparr>\<rparr>,
      [OpenCrawler, FetchPage 1, Sleep (JInt 2), FetchPage 2, Sleep (JInt 2), FetchPage 3,
       CloseCrawler]) \<and>
   setup_env DEFAULT_CONFIG = Inr (dental_env, JObj DEFAULT_LLM_CONFIG) \<and>
   [OpenCrawler, FetchPage 1, Sleep (JInt 2), FetchPage 2, Sleep (JInt 2), FetchPage 3, CloseCrawler] =
     OpenCrawler # pages_trace (JInt 2) 1 3 @ [CloseCrawler]"
proof -
  have run: "run_session (backend_of (static_site pages_A Suc)) DEFAULT_CONFIG =
     (Inr \<lparr>items = [clinic 1, clinic 2, clinic 3, clinic 4],
           stats = \<lparr>total_items = 4, pages_crawled = 3, llm_usage = JInt 3\<rparr>\<rparr>,
      [OpenCrawler, FetchPage 1, Sleep (JInt 2), FetchPage 2, Sleep (JInt 2), FetchPage 3,
       CloseCrawler])"
    by (simp add: eval_rules)
  have env: "setup_env DEFAULT_CONFIG = Inr (dental_env, JObj DEFAULT_LLM_CONFIG)"
    by (simp add: eval_rules)
  from crawl_success_trace [OF run env] run env show ?thesis
    by (simp add: dental_env_def)
qed

text \<open>
  C2. When the configuration's \<open>MULTI_PAGE\<close> is falsy, a successful session fetches
  page 1 only and reports \<open>pages_crawled = 1\<close>, whatever \<open>MAX_PAGES\<close> says.
\<close>

theorem crawl_single_page:
  assumes "setup_env config = Inr (env, l)" and "\<not> truthy (multi_page env)"
    and "run_session b config = (Inr resp, tr)"
  shows "pages_crawled (stats resp) = 1 \<and> tr = [OpenCrawler, FetchPage 1, CloseCrawler]"
proof -
  note shape = run_session_Inr_shape [OF assms(3,1)]
  with assms(2) have "pages_crawled (stats resp) = 1" by auto
  with shape show ?thesis by (simp add: pages_trace_def fetch_sleep_trace_def)
qed

theorem crawl_single_page_witness:
  "setup_env minimal_config = Inr (minimal_env, JObj DEFAULT_LLM_CONFIG) \<and>
   \<not> truthy (multi_page minimal_env) \<and>
   run_session (backend_of (static_site pages_A Suc)) minimal_config =
     (Inr \<lparr>items = [clinic 1, clinic 2],
           stats = \<lparr>total_items = 2, pages_crawled = 1, llm_usage = JInt 1\<rparr>\<rparr>,
      [OpenCrawler, FetchPage 1, CloseCrawler])"
proof -
  have env: "setup_env minimal_config = Inr (minimal_env, JObj DEFAULT_LLM_CONFIG)"
    by (simp add: eval_rules)
  have mp: "\<not> truthy (multi_page minimal_env)" by (simp add: minimal_env_def)
  have run: "run_session (backend_of (static_site pages_A Suc)) minimal_config =
     (Inr \<lparr>items = [clinic 1, clinic 2],
           stats = \<lparr>total_items = 2, pages_crawled = 1, llm_usage = JInt 1\<rparr>\<rparr>,
      [OpenCrawler, FetchPage 1, CloseCrawler])"
    by (simp add: eval_rules)
  from crawl_single_page [OF env mp run] env mp run show ?thesis by simp
qed

text \<open>
  C3. With the page fetcher \<open>fetch_and_process_page\<close>, the records of a successful
  session carry pairwise distinct identities: a record seen on an earlier page, or
  earlier on the same page, is never returned twice.
\<close>

theorem crawl_unique_identities:
  assumes "fetch_page b = fetch_and_process_page idf raw"
    and "run_session b config = (Inr resp, tr)"
  shows "distinct (keys_of (identity_key idf) (items resp))"
proof -
  from assms(2) obtain env l st where
    loop: "crawl_loop (fetch_page b) env (init_loop_state (get_llm_strategy b l)) = Inr st" and
    resp: "resp = make_response b st"
    by (rule run_session_Inr)
  have "respects_seen (identity_key idf) (fetch_page b)"
    using assms(1) fetch_and_process_page_respects_seen by simp
  from crawl_loop_Inr_unique_items [OF loop this unique_items_init] resp show ?thesis
    by (simp add: unique_items_def)
qed

theorem crawl_unique_identities_witness:
  "fetch_page (backend_of (static_site pages_C Suc)) = fetch_and_process_page ''name'' (static_site pages_C Suc) \<and>
   run_session (backend_of (static_site pages_C Suc)) DEFAULT_CONFIG =
     (Inr \<lparr>items = [clinic 1, clinic 2, clinic 3, clinic 4],
           stats = \<lparr>total_items = 4, pages_crawled = 3, llm_usage = JInt 3\<rparr>\<rparr>,
      [OpenCrawler, FetchPage 1, Sleep (JInt 2), FetchPage 2, Sleep (JInt 2), FetchPage 3,
       CloseCrawler]) \<and>
   distinct (keys_of (identity_key ''name'') [clinic 1, clinic 2, clinic 3, clinic 4])"
proof -
  have f: "fetch_page (backend_of (static_site pages_C Suc)) = fetch_and_process_page ''name'' (static_site pages_C Suc)"
    by (simp add: backend_of_def)
  have run: "run_session (backend_of (static_site pages_C Suc)) DEFAULT_CONFIG =
     (Inr \<lparr>items = [clinic 1, clinic 2, clinic 3, clinic 4],
           stats = \<lparr>total_items = 4, pages_crawled = 3, llm_usage = JInt 3\<rparr>\<rparr>,
      [OpenCrawler, FetchPage 1, Sleep (JInt 2), FetchPage 2, Sleep (JInt 2), FetchPage 3,
       CloseCrawler])"
    by (simp add: eval_rules)
  from crawl_unique_identities [OF f run] f run show ?thesis by simp
qed

text \<open>
  C4. The crawler is scoped: a session either fails before the crawler is opened (a
  configuration read raised, and nothing else happened), or it opens the crawler first,
  closes it last, and opens and closes it exactly once, whether the loop ended normally
  or by an exception.
\<close>

theorem crawl_scoped_crawler:
  assumes "run_session b config = (r, tr)"
  shows "(tr = [] \<and> (\<exists>e. r = Inl e \<and> setup_env config = Inl e)) \<or>
         (\<exists>mid. tr = OpenCrawler # mid @ [CloseCrawler] \<and>
                OpenCrawler \<notin> set mid \<and> CloseCrawler \<notin> set mid)"
proof (cases "setup_env config")
  case (Inl e)
  with assms show ?thesis by (simp add: run_session_def)
next
  case (Inr el)
  obtain env l where "setup_env config = Inr (env, l)" using Inr by (cases el) simp
  from run_session_trace_shape [OF this, of b] obtain p where
    "snd (run_session b config) = OpenCrawler # fetch_sleep_trace (delay env) 1 p @ [CloseCrawler] \<or>
     snd (run_session b config) = OpenCrawler # pages_trace (delay env) 1 p @ [CloseCrawler]"
    by blast
  with assms show ?thesis by auto
qed

theorem crawl_scoped_crawler_witness:
  "run_session (backend_of failing_raw) (JObj [(''BASE_URL'', JStr ''https://example.com'')]) =
     (Inl (KeyError ''CRAWLER_CONFIG''), []) \<and>
   setup_env (JObj [(''BASE_URL'', JStr ''https://example.com'')]) = Inl (KeyError ''CRAWLER_CONFIG'')"
proof -
  have run: "run_session (backend_of failing_raw) (JObj [(''BASE_URL'', JStr ''https://example.com'')]) =
     (Inl (KeyError ''CRAWLER_CONFIG''), [])"
    by (simp add: eval_rules)
  from crawl_scoped_crawler [OF run] run show ?thesis by simp
qed

text \<open>
  C5. The loop runs up to the page cap: if multi-page crawling is on with an integer
  cap \<open>N \<ge> 1\<close>, the delay is a number, the base URL and selector are present, and the
  fetcher returns a non-empty page with results whatever it is asked, the session
  succeeds after fetching exactly pages \<open>1..N\<close> and reports \<open>pages_crawled = N\<close>.
\<close>

theorem crawl_reaches_page_cap:
  assumes "setup_env config = Inr (env, l)" and "max_pages env = JInt N" and "1 \<le> N"
    and "truthy (multi_page env)" and "py_sleep_check (delay env) = None"
    and "py_getitem config ''BASE_URL'' = Inr url" and "py_getitem config ''CSS_SELECTOR'' = Inr sel"
    and "always_fetches (fetch_page b) url sel (required_keys env)" and "returns_dicts (fetch_page b)"
  shows "\<exists>resp. run_session b config =
           (Inr resp, OpenCrawler # pages_trace (delay env) 1 N @ [CloseCrawler]) \<and>
           pages_crawled (stats resp) = N"
proof -
  have c: "cfg env = config" using assms(1) by (rule setup_env_cfg)
  let ?s0 = "init_loop_state (get_llm_strategy b l)"
  from crawl_loop_reaches_cap [of env url sel N "fetch_page b" ?s0] assms(2-8) c
  obtain s' where "crawl_loop (fetch_page b) env ?s0 = Inr s'" "page_number s' = N"
    "trace s' = OpenCrawler # pages_trace (delay env) 1 N"
    by auto
  moreover from crawl_loop_Inr_dicts [OF this(1) assms(9)] have "list_all is_dict (all_items s')"
    by (simp add: init_loop_state_def)
  ultimately show ?thesis using assms(1) by (simp add: run_session_def validate_make_response)
qed

theorem crawl_reaches_page_cap_witness:
  "setup_env DEFAULT_CONFIG = Inr (dental_env, JObj DEFAULT_LLM_CONFIG) \<and>
   max_pages dental_env = JInt 5 \<and> (1::int) \<le> 5 \<and> truthy (multi_page dental_env) \<and>
   py_sleep_check (delay dental_env) = None \<and>
   py_getitem DEFAULT_CONFIG ''BASE_URL'' = Inr (JStr ''https://www.opencare.com/dentists/new-york-ny/'') \<and>
   py_getitem DEFAULT_CONFIG ''CSS_SELECTOR'' = Inr dental_selector \<and>
   always_fetches (fetch_page steady_backend) (JStr ''https://www.opencare.com/dentists/new-york-ny/'')
     dental_selector (required_keys dental_env) \<and> returns_dicts (fetch_page steady_backend) \<and>
   (\<exists>resp. run_session steady_backend DEFAULT_CONFIG =
      (Inr resp, OpenCrawler # pages_trace (JInt 2) 1 5 @ [CloseCrawler]) \<and>
      pages_crawled (stats resp) = 5)"
proof -
  have env: "setup_env DEFAULT_CONFIG = Inr (dental_env, JObj DEFAULT_LLM_CONFIG)"
    by (simp add: eval_rules)
  have mx: "max_pages dental_env = JInt 5" and mp: "truthy (multi_page dental_env)"
    and d: "py_sleep_check (delay dental_env) = None"
    by (simp_all add: dental_env_def)
  have u: "py_getitem DEFAULT_CONFIG ''BASE_URL'' = Inr (JStr ''https://www.opencare.com/dentists/new-york-ny/'')"
    and sl: "py_getitem DEFAULT_CONFIG ''CSS_SELECTOR'' = Inr dental_selector"
    by (simp_all add: eval_rules)
  have f: "always_fetches (fetch_page steady_backend) (JStr ''https://www.opencare.com/dentists/new-york-ny/'')
     dental_selector (required_keys dental_env)"
    by (simp add: always_fetches_def steady_backend_def)
  have dicts: "returns_dicts (fetch_page steady_backend)"
    by (simp add: returns_dicts_def steady_backend_def clinic_def)
  have "(1::int) \<le> 5" by simp
  from crawl_reaches_page_cap [OF env mx this mp d u sl f dicts] env mx mp d u sl f dicts show ?thesis
    by (simp add: dental_env_def)
qed

text \<open>
  C6. A fetch that fails loses the whole crawl, for every backend and every request:
  when the loop reaches a page whose fetch raises, the endpoint answers with that
  exception's status (500 for a navigation failure), no record of the earlier pages
  reaches the client, and the crawler is closed right after the failing fetch.
\<close>

theorem fetch_failure_discards_pages:
  assumes "api_key_header hdr = Some k" and "resolve_config configs req = Inr config"
    and "setup_env config = Inr (env, l)"
    and "iter_reach (fetch_page b) env (init_loop_state (get_llm_strategy b l)) st"
    and "py_getitem config ''BASE_URL'' = Inr url" and "py_getitem config ''CSS_SELECTOR'' = Inr sel"
    and "fetch_page b (page_number st) url sel (required_keys env) (seen_titles st) (usage st) = (Inl e, seen', u')"
  shows "crawl configs b k hdr req = (http_error e, trace st @ [FetchPage (page_number st), CloseCrawler])"
proof -
  have c: "cfg env = config" using assms(3) by (rule setup_env_cfg)
  from assms(5-7) [folded c] have "crawl_iteration (fetch_page b) env st =
      Raise e (st\<lparr>seen_titles := seen', usage := u', trace := trace st @ [FetchPage (page_number st)]\<rparr>)"
    by (rule crawl_iteration_fetch_error)
  from run_session_reach_Raise [OF assms(3,4) this] assms(1,2) show ?thesis
    by (simp add: crawl_authenticated)
qed

theorem fetch_failure_discards_pages_witness:
  "crawl registry (backend_of failing_raw) ''secret'' (Some ''secret'') dental_request =
   (HTTP_Error 500 ''Internal Server Error'',
    [OpenCrawler, FetchPage 1, Sleep (JInt 2), FetchPage 2, CloseCrawler])"
proof -
  let ?b = "backend_of failing_raw"
  let ?s1 = "\<lparr>page_number = 2, all_items = [clinic 1, clinic 2], seen_titles = {JInt 1, JInt 2}, usage = 1::nat,
              trace = [OpenCrawler, FetchPage 1, Sleep (JInt 2)]\<rparr>"
  have h: "api_key_header (Some ''secret'') = Some ''secret''" by (simp add: api_key_header_def)
  have r: "resolve_config registry dental_request = Inr DEFAULT_CONFIG" by (simp add: eval_rules)
  have env: "setup_env DEFAULT_CONFIG = Inr (dental_env, JObj DEFAULT_LLM_CONFIG)" by (simp add: eval_rules)
  have c1: "crawl_iteration (fetch_page ?b) dental_env (init_loop_state (get_llm_strategy ?b (JObj DEFAULT_LLM_CONFIG))) =
      Continue ?s1"
    by (simp add: eval_rules init_loop_state_def insert_commute)
  have reach: "iter_reach (fetch_page ?b) dental_env (init_loop_state (get_llm_strategy ?b (JObj DEFAULT_LLM_CONFIG))) ?s1"
    by (rule iter_reach.step [OF iter_reach.start c1])
  have u: "py_getitem DEFAULT_CONFIG ''BASE_URL'' = Inr (JStr ''https://www.opencare.com/dentists/new-york-ny/'')"
    and sl: "py_getitem DEFAULT_CONFIG ''CSS_SELECTOR'' = Inr dental_selector"
    by (simp_all add: eval_rules)
  have f: "fetch_page ?b 2 (JStr ''https://www.opencare.com/dentists/new-york-ny/'') dental_selector
             (required_keys dental_env) {JInt 1, JInt 2} 1 =
           (Inl (FetchFailure ''navigation timeout''), {JInt 1, JInt 2}, 2)"
    by (simp add: eval_rules)
  from fetch_failure_discards_pages [OF h r env reach u sl] f show ?thesis
    by (simp add: http_error_def)
qed

text \<open>
  C7. Refinement of the aggregation contract: on a site whose pages are fixed, the
  records a successful session returns are exactly the first-wins deduplication, from
  an empty seen set, of the concatenation of the complete records of pages
  \<open>1..pages_crawled\<close>. Filtering page by page against the shared
  \<^verbatim>\<open>seen_titles\<close> implements one global deduplication.
\<close>

theorem crawl_items_global_dedup:
  assumes "fetch_page b = fetch_and_process_page idf (static_site pg tick)"
    and "setup_env config = Inr (env, l)" and "json_strings (required_keys env) = Some ks"
    and "run_session b config = (Inr resp, tr)"
  shows "items resp = fst (dedup_filter (identity_key idf)
           (concat (map (site_page ks pg) [1..pages_crawled (stats resp)])) {})"
proof -
  from assms(4) obtain env' l' st where s: "setup_env config = Inr (env', l')" and
    loop: "crawl_loop (fetch_page b) env' (init_loop_state (get_llm_strategy b l')) = Inr st" and
    resp: "resp = make_response b st"
    by (rule run_session_Inr)
  from s assms(2) have "env' = env" by simp
  with loop assms(1) have "crawl_loop (fetch_and_process_page idf (static_site pg tick)) env
      (init_loop_state (get_llm_strategy b l')) = Inr st"
    by simp
  from crawl_loop_static_site [OF this assms(3)] resp show ?thesis by simp
qed

theorem crawl_items_global_dedup_witness:
  "fetch_page (backend_of (static_site pages_C Suc)) = fetch_and_process_page ''name'' (static_site pages_C Suc) \<and>
   setup_env DEFAULT_CONFIG = Inr (dental_env, JObj DEFAULT_LLM_CONFIG) \<and>
   json_strings (required_keys dental_env) = Some [''name'', ''location'', ''description'', ''rating''] \<and>
   run_session (backend_of (static_site pages_C Suc)) DEFAULT_CONFIG =
     (Inr \<lparr>items = [clinic 1, clinic 2, clinic 3, clinic 4],
           stats = \<lparr>total_items = 4, pages_crawled = 3, llm_usage = JInt 3\<rparr>\<rparr>,
      [OpenCrawler, FetchPage 1, Sleep (JInt 2), FetchPage 2, Sleep (JInt 2), FetchPage 3,
       CloseCrawler]) \<and>
   [clinic 1, clinic 2, clinic 3, clinic 4] =
     fst (dedup_filter (identity_key ''name'')
       (concat (map (site_page [''name'', ''location'', ''description'', ''rating''] pages_C) [1..3])) {})"
proof -
  have f: "fetch_page (backend_of (static_site pages_C Suc)) = fetch_and_process_page ''name'' (static_site pages_C Suc)"
    by (simp add: backend_of_def)
  have env: "setup_env DEFAULT_CONFIG = Inr (dental_env, JObj DEFAULT_LLM_CONFIG)"
    by (simp add: eval_rules)
  have ks: "json_strings (required_keys dental_env) = Some [''name'', ''location'', ''description'', ''rating'']"
    by (simp add: eval_rules)
  have run: "run_session (backend_of (static_site pages_C Suc)) DEFAULT_CONFIG =
     (Inr \<lparr>items = [clinic 1, clinic 2, clinic 3, clinic 4],
           stats = \<lparr>total_items = 4, pages_crawled = 3, llm_usage = JInt 3\<rparr>\<rparr>,
      [OpenCrawler, FetchPage 1, Sleep (JInt 2), FetchPage 2, Sleep (JInt 2), FetchPage 3,
       CloseCrawler])"
    by (simp add: eval_rules)
  from crawl_items_global_dedup [OF f env ks run] f env ks run show ?thesis by simp
qed

section \<open>Properties of the HTTP layer\<close>

text \<open>
  C8. A request whose \<^verbatim>\<open>X-API-Key\<close> header is missing, empty or different from the
  configured key is answered 403 "Invalid API Key", before any configuration is read and
  without starting the crawler.
\<close>

theorem crawl_rejects_bad_key:
  assumes "api_key_header hdr \<noteq> Some k"
  shows "crawl configs b k hdr req = (HTTP_Error 403 ''Invalid API Key'', [])"
  using assms
  by (auto simp: crawl_def get_api_key_def http_error_def split: option.splits)

theorem crawl_rejects_bad_key_witness:
  "api_key_header (Some ''letmein'') \<noteq> Some ''secret'' \<and>
   crawl registry (backend_of failing_raw) ''secret'' (Some ''letmein'') dental_request =
     (HTTP_Error 403 ''Invalid API Key'', [])"
proof -
  have h: "api_key_header (Some ''letmein'') \<noteq> Some ''secret''" by (simp add: api_key_header_def)
  from crawl_rejects_bad_key [OF h, of registry "backend_of failing_raw" dental_request] h
  show ?thesis by simp
qed

text \<open>
  C9. An authenticated request that names no configuration and carries no custom one
  (both absent or empty) is answered 400, without starting the crawler.
\<close>

theorem crawl_requires_config:
  assumes "api_key_header hdr = Some k"
    and "\<not> truthy_opt (config_name req)" and "\<not> truthy_opt (custom_config req)"
  shows "crawl configs b k hdr req =
           (HTTP_Error 400 ''Either config_name or custom_config must be provided'', [])"
  using assms by (simp add: crawl_authenticated resolve_config_def http_error_def)

theorem crawl_requires_config_witness:
  "api_key_header (Some ''secret'') = Some ''secret'' \<and>
   \<not> truthy_opt (config_name \<lparr>config_name = Some [], custom_config = Some []\<rparr>) \<and>
   \<not> truthy_opt (custom_config \<lparr>config_name = Some [], custom_config = Some []\<rparr>) \<and>
   crawl registry (backend_of failing_raw) ''secret'' (Some ''secret'')
     \<lparr>config_name = Some [], custom_config = Some []\<rparr> =
     (HTTP_Error 400 ''Either config_name or custom_config must be provided'', [])"
proof -
  have a: "api_key_header (Some ''secret'') = Some ''secret''" by (simp add: api_key_header_def)
  have n: "\<not> truthy_opt (config_name \<lparr>config_name = Some [], custom_config = Some []\<rparr>)"
    and c: "\<not> truthy_opt (custom_config \<lparr>config_name = Some [], custom_config = Some []\<rparr>)"
    by (simp_all add: truthy_opt_def)
  from crawl_requires_config [OF a n c, of registry "backend_of failing_raw"] a n c show ?thesis
    by simp
qed

text \<open>
  C10. An authenticated request naming a configuration the registry does not hold is
  answered 400 "Unknown configuration: name", without starting the crawler.
\<close>

theorem crawl_unknown_config:
  assumes "api_key_header hdr = Some k" and "config_name req = Some n" and "n \<noteq> []"
    and "map_of configs n = None"
  shows "crawl configs b k hdr req = (HTTP_Error 400 (''Unknown configuration: '' @ n), [])"
  using assms
  by (simp add: crawl_authenticated resolve_config_def truthy_opt_def http_error_def)

theorem crawl_unknown_config_witness:
  "api_key_header (Some ''secret'') = Some ''secret'' \<and>
   config_name \<lparr>config_name = Some ''retail'', custom_config = None\<rparr> = Some ''retail'' \<and>
   ''retail'' \<noteq> [] \<and> map_of registry ''retail'' = None \<and>
   crawl registry (backend_of failing_raw) ''secret'' (Some ''secret'')
     \<lparr>config_name = Some ''retail'', custom_config = None\<rparr> =
     (HTTP_Error 400 ''Unknown configuration: retail'', [])"
proof -
  have a: "api_key_header (Some ''secret'') = Some ''secret''" by (simp add: api_key_header_def)
  have n: "config_name \<lparr>config_name = Some ''retail'', custom_config = None\<rparr> = Some ''retail''"
    by simp
  have ne: "''retail'' \<noteq> []" by simp
  have m: "map_of registry ''retail'' = None" by (simp add: eval_rules)
  from crawl_unknown_config [OF a n ne m, of "backend_of failing_raw"] a n m show ?thesis by simp
qed

text \<open>
  C11. A non-empty \<^verbatim>\<open>config_name\<close> takes precedence: the answer does not depend
  on the request's \<^verbatim>\<open>custom_config\<close>.
\<close>

theorem crawl_config_name_precedence:
  assumes "config_name req = Some n" and "n \<noteq> []"
  shows "crawl configs b k hdr req = crawl configs b k hdr (req\<lparr>custom_config := None\<rparr>)"
proof -
  from assms have r: "resolve_config configs req = resolve_config configs (req\<lparr>custom_config := None\<rparr>)"
    by (simp add: resolve_config_def truthy_opt_def)
  show ?thesis unfolding crawl_def r by (rule refl)
qed

theorem crawl_config_name_precedence_witness:
  "config_name \<lparr>config_name = Some ''minimal'', custom_config = Some [(''BASE_URL'', JStr ''https://example.com'')]\<rparr> =
     Some ''minimal'' \<and> ''minimal'' \<noteq> [] \<and>
   crawl registry (backend_of (static_site pages_A Suc)) ''secret'' (Some ''secret'')
     \<lparr>config_name = Some ''minimal'', custom_config = Some [(''BASE_URL'', JStr ''https://example.com'')]\<rparr> =
   crawl registry (backend_of (static_site pages_A Suc)) ''secret'' (Some ''secret'')
     \<lparr>config_name = Some ''minimal'', custom_config = None\<rparr>"
proof -
  have n: "config_name \<lparr>config_name = Some ''minimal'', custom_config = Some [(''BASE_URL'', JStr ''https://example.com'')]\<rparr> =
     Some ''minimal''" by simp
  have ne: "''minimal'' \<noteq> []" by simp
  from crawl_config_name_precedence [OF n ne, of registry "backend_of (static_site pages_A Suc)" "''secret''" "Some ''secret''"]
  show ?thesis by simp
qed

section \<open>Properties of the registered configurations\<close>

text \<open>Every registered configuration passes the handler's reads, at every page.\<close>

lemma registered_config_reads:
  assumes "map_of (CONFIGS p) n = Some config"
  shows "\<exists>env l url sel. setup_env config = Inr (env, l) \<and>
           py_getitem config ''BASE_URL'' = Inr url \<and> py_getitem config ''CSS_SELECTOR'' = Inr sel \<and>
           py_sleep_check (delay env) = None \<and> (\<forall>pg. \<not> isl (py_ge_int pg (max_pages env)))"
  using assms by (auto simp: eval_rules split: if_splits)

text \<open>
  C12. No registered configuration makes the handler raise: for every name of
  \<open>CONFIGS\<close> (whatever the working directory) and every backend whose fetcher
  neither raises nor returns anything but dicts, the session succeeds. Every error
  answer to a registered request therefore comes from the backend.
\<close>

theorem registered_configs_never_raise:
  assumes "map_of (CONFIGS p) n = Some config"
    and "\<forall>pg url sel req seen u. \<not> isl (fst (fetch_page b pg url sel req seen u))"
    and "returns_dicts (fetch_page b)"
  shows "\<exists>resp. fst (run_session b config) = Inr resp"
proof -
  from registered_config_reads [OF assms(1)] obtain env l url sel where
    env: "setup_env config = Inr (env, l)" and u: "py_getitem config ''BASE_URL'' = Inr url"
    and sl: "py_getitem config ''CSS_SELECTOR'' = Inr sel" and d: "py_sleep_check (delay env) = None"
    and mx: "\<forall>pg. \<not> isl (py_ge_int pg (max_pages env))"
    by blast
  have c: "cfg env = config" using env by (rule setup_env_cfg)
  let ?s0 = "init_loop_state (get_llm_strategy b l)"
  show ?thesis
  proof (cases "crawl_loop (fetch_page b) env ?s0")
    case (Inl r)
    then obtain e st where "crawl_loop (fetch_page b) env ?s0 = Inl (e, st)" by (cases r) auto
    then obtain s where "crawl_iteration (fetch_page b) env s = Raise e st"
      by (rule crawl_loop_Inl_reach)
    from crawl_iteration_Raise_cause [OF this] u sl d mx assms(2) c show ?thesis
      by (metis fst_conv isl_def sum.disc(1) sum.disc(2) option.distinct(1))
  next
    case (Inr st)
    have "list_all is_dict (all_items st)"
      using crawl_loop_Inr_dicts [OF Inr assms(3)] by (simp add: init_loop_state_def)
    with env Inr show ?thesis
      by (simp add: run_session_def validate_make_response)
  qed
qed

theorem registered_configs_never_raise_witness:
  "map_of (CONFIGS ''/srv'') ''dental'' = Some DEFAULT_CONFIG \<and>
   (\<forall>pg url sel req seen u. \<not> isl (fst (fetch_page steady_backend pg url sel req seen u))) \<and>
   returns_dicts (fetch_page steady_backend) \<and>
   (\<exists>resp. fst (run_session steady_backend DEFAULT_CONFIG) = Inr resp)"
proof -
  have m: "map_of (CONFIGS ''/srv'') ''dental'' = Some DEFAULT_CONFIG" by (simp add: CONFIGS_def)
  have f: "\<forall>pg url sel req seen u. \<not> isl (fst (fetch_page steady_backend pg url sel req seen u))"
    by (simp add: steady_backend_def)
  have d: "returns_dicts (fetch_page steady_backend)"
    by (simp add: returns_dicts_def steady_backend_def clinic_def)
  from registered_configs_never_raise [OF m f d] m f d show ?thesis by blast
qed

lemma registered_config_cap:
  assumes "map_of (CONFIGS p) n = Some config"
  shows "\<exists>env l. setup_env config = Inr (env, l) \<and>
           (if truthy (multi_page env) then int_view (max_pages env) else 1) =
           (if n = ''detailed'' then 10 else if n = ''dental'' then 5 else 1)"
  using assms by (auto simp: eval_rules split: if_splits)

text \<open>
  C13. For every backend, a successful crawl of a registered configuration reports
  between 1 and its page cap pages: 5 for "dental", 10 for "detailed", and 1 for
  "minimal" and "test", whose \<open>MULTI_PAGE\<close> is off.
\<close>

theorem registered_config_page_bounds:
  assumes "n \<noteq> []"
    and "crawl (CONFIGS p) b k hdr \<lparr>config_name = Some n, custom_config = c\<rparr> = (HTTP_OK resp, tr)"
  shows "1 \<le> pages_crawled (stats resp) \<and>
         pages_crawled (stats resp) \<le> (if n = ''detailed'' then 10 else if n = ''dental'' then 5 else 1)"
proof -
  from crawl_HTTP_OK [OF assms(2)] obtain config where
    r: "resolve_config (CONFIGS p) \<lparr>config_name = Some n, custom_config = c\<rparr> = Inr config" and
    run: "run_session b config = (Inr resp, tr)"
    by blast
  from r assms(1) have "map_of (CONFIGS p) n = Some config"
    by (auto simp: resolve_config_def truthy_opt_def split: option.splits)
  from registered_config_cap [OF this] obtain env l where env: "setup_env config = Inr (env, l)"
    and cap: "(if truthy (multi_page env) then int_view (max_pages env) else 1) =
              (if n = ''detailed'' then 10 else if n = ''dental'' then 5 else 1)"
    by blast
  from run_session_Inr_shape [OF run env] cap show ?thesis
    by (auto split: if_splits)
qed

theorem registered_config_page_bounds_witness:
  "''dental'' \<noteq> [] \<and>
   crawl registry steady_backend ''secret'' (Some ''secret'') dental_request =
     (HTTP_OK \<lparr>items = [clinic 1, clinic 2, clinic 3, clinic 4, clinic 5],
               stats = \<lparr>total_items = 5, pages_crawled = 5, llm_usage = JInt 5\<rparr>\<rparr>,
      [OpenCrawler, FetchPage 1, Sleep (JInt 2), FetchPage 2, Sleep (JInt 2), FetchPage 3,
       Sleep (JInt 2), FetchPage 4, Sleep (JInt 2), FetchPage 5, CloseCrawler]) \<and>
   (1::int) \<le> 5 \<and> (5::int) \<le> 5"
proof -
  have ne: "''dental'' \<noteq> []" by simp
  have run: "crawl (CONFIGS ''/srv/crawler/test_products.html'') steady_backend ''secret'' (Some ''secret'')
       \<lparr>config_name = Some ''dental'', custom_config = None\<rparr> =
     (HTTP_OK \<lparr>items = [clinic 1, clinic 2, clinic 3, clinic 4, clinic 5],
               stats = \<lparr>total_items = 5, pages_crawled = 5, llm_usage = JInt 5\<rparr>\<rparr>,
      [OpenCrawler, FetchPage 1, Sleep (JInt 2), FetchPage 2, Sleep (JInt 2), FetchPage 3,
       Sleep (JInt 2), FetchPage 4, Sleep (JInt 2), FetchPage 5, CloseCrawler])"
    by (simp add: eval_rules)
  from registered_config_page_bounds [OF ne run] run show ?thesis
    by (simp add: registry_def dental_request_def)
qed

section \<open>Behaviours the specification states otherwise or leaves open\<close>

text \<open>
  C14. A configuration without \<open>BASE_URL\<close> is not rejected before the crawl starts:
  the handler reads the key only when it calls the fetcher, so the crawler is opened, the
  first iteration raises \<open>KeyError\<close>, and the crawler is closed again (the endpoint
  answers 500).
\<close>

theorem crawl_missing_base_url:
  assumes "setup_env config = Inr (env, l)" and "py_getitem config ''BASE_URL'' = Inl e"
  shows "run_session b config = (Inl e, [OpenCrawler, CloseCrawler])"
proof -
  have c: "cfg env = config" using assms(1) by (rule setup_env_cfg)
  let ?s0 = "init_loop_state (get_llm_strategy b l)"
  from c assms(2) have "crawl_iteration (fetch_page b) env ?s0 = Raise e ?s0"
    by (simp add: crawl_iteration_def)
  then have "crawl_loop (fetch_page b) env ?s0 = Inl (e, ?s0)"
    by (simp add: crawl_loop.simps)
  with assms(1) show ?thesis by (simp add: run_session_def)
qed

theorem crawl_missing_base_url_witness:
  "setup_env no_url_config = Inr (no_url_env, JObj []) \<and>
   py_getitem no_url_config ''BASE_URL'' = Inl (KeyError ''BASE_URL'') \<and>
   run_session steady_backend no_url_config = (Inl (KeyError ''BASE_URL''), [OpenCrawler, CloseCrawler])"
proof -
  have env: "setup_env no_url_config = Inr (no_url_env, JObj [])" by (simp add: eval_rules)
  have u: "py_getitem no_url_config ''BASE_URL'' = Inl (KeyError ''BASE_URL'')" by (simp add: eval_rules)
  from crawl_missing_base_url [OF env u, of steady_backend] env u show ?thesis by simp
qed

text \<open>
  C15. A page whose complete records all carry identities seen on earlier pages ends
  the crawl, for every backend built on \<^verbatim>\<open>fetch_and_process_page\<close> and every
  configuration: the fetcher filters against \<^verbatim>\<open>seen_titles\<close> before the loop's
  emptiness test, so the page comes back empty, is counted in \<open>pages_crawled\<close>, and no
  later page is fetched, new records or not.
\<close>

theorem seen_page_stops_pagination:
  assumes "setup_env config = Inr (env, l)" and "fetch_page b = fetch_and_process_page idf raw"
    and "iter_reach (fetch_page b) env (init_loop_state (get_llm_strategy b l)) st"
    and "py_getitem config ''BASE_URL'' = Inr url" and "py_getitem config ''CSS_SELECTOR'' = Inr sel"
    and "raw (page_number st) url sel (usage st) = (Inr (recs, False), u')"
    and "json_strings (required_keys env) = Some ks"
    and "\<forall>r \<in> set (filter (is_complete ks) recs). \<exists>k \<in> seen_titles st. identity_key idf r = Some k"
  shows "run_session b config =
           (validate_response \<lparr>items = all_items st,
                               stats = \<lparr>total_items = length (all_items st), pages_crawled = page_number st,
                                        llm_usage = get_usage_stats b u'\<rparr>\<rparr>,
            trace st @ [FetchPage (page_number st), CloseCrawler])"
proof -
  have c: "cfg env = config" using assms(1) by (rule setup_env_cfg)
  have "fetch_page b (page_number st) url sel (required_keys env) (seen_titles st) (usage st) =
          (Inr ([], False), seen_titles st, u')"
    unfolding assms(2) using assms(6-8) by (rule fetch_and_process_page_seen_page)
  with assms(4,5) [folded c] have "crawl_iteration (fetch_page b) env st =
      Break (st\<lparr>seen_titles := seen_titles st, usage := u', trace := trace st @ [FetchPage (page_number st)]\<rparr>)"
    by (rule crawl_iteration_stops) simp
  from run_session_reach_Break [OF assms(1,3) this] show ?thesis
    by (simp add: make_response_def)
qed

theorem seen_page_stops_pagination_witness:
  "run_session (backend_of (static_site pages_dup Suc)) DEFAULT_CONFIG =
     (Inr \<lparr>items = [clinic 1, clinic 2],
           stats = \<lparr>total_items = 2, pages_crawled = 2, llm_usage = JInt 2\<rparr>\<rparr>,
      [OpenCrawler, FetchPage 1, Sleep (JInt 2), FetchPage 2, CloseCrawler])"
proof -
  let ?b = "backend_of (static_site pages_dup Suc)"
  let ?s1 = "\<lparr>page_number = 2, all_items = [clinic 1, clinic 2], seen_titles = {JInt 1, JInt 2}, usage = 1::nat,
              trace = [OpenCrawler, FetchPage 1, Sleep (JInt 2)]\<rparr>"
  have env: "setup_env DEFAULT_CONFIG = Inr (dental_env, JObj DEFAULT_LLM_CONFIG)"
    by (simp add: eval_rules)
  have fb: "fetch_page ?b = fetch_and_process_page ''name'' (static_site pages_dup Suc)"
    by (simp add: backend_of_def)
  have c1: "crawl_iteration (fetch_page ?b) dental_env (init_loop_state (get_llm_strategy ?b (JObj DEFAULT_LLM_CONFIG))) =
      Continue ?s1"
    by (simp add: eval_rules init_loop_state_def insert_commute)
  have r: "iter_reach (fetch_page ?b) dental_env (init_loop_state (get_llm_strategy ?b (JObj DEFAULT_LLM_CONFIG))) ?s1"
    by (rule iter_reach.step [OF iter_reach.start c1])
  have u: "py_getitem DEFAULT_CONFIG ''BASE_URL'' = Inr (JStr ''https://www.opencare.com/dentists/new-york-ny/'')"
    and sl: "py_getitem DEFAULT_CONFIG ''CSS_SELECTOR'' = Inr dental_selector"
    by (simp_all add: eval_rules)
  have raw: "static_site pages_dup Suc 2 (JStr ''https://www.opencare.com/dentists/new-york-ny/'') dental_selector 1 =
               (Inr ([clinic 1, clinic 2], False), 2)"
    by (simp add: eval_rules)
  have ks: "json_strings (required_keys dental_env) = Some [''name'', ''location'', ''description'', ''rating'']"
    by (simp add: eval_rules)
  have seen: "\<forall>r \<in> set (filter (is_complete [''name'', ''location'', ''description'', ''rating'']) [clinic 1, clinic 2]).
                \<exists>k \<in> {JInt 1, JInt 2}. identity_key ''name'' r = Some k"
    by (simp add: eval_rules)
  from seen_page_stops_pagination [OF env fb r u sl _ ks] raw seen show ?thesis
    by (simp add: eval_rules)
qed

text \<open>
  C16. A page that signals "no results" ends the crawl, for every backend and
  configuration: it is fetched and counted in \<open>pages_crawled\<close>, but whatever records
  the extraction returned with it are dropped, and the statistics report the strategy
  state after that fetch.
\<close>

theorem no_results_page_counted:
  assumes "setup_env config = Inr (env, l)"
    and "iter_reach (fetch_page b) env (init_loop_state (get_llm_strategy b l)) st"
    and "py_getitem config ''BASE_URL'' = Inr url" and "py_getitem config ''CSS_SELECTOR'' = Inr sel"
    and "fetch_page b (page_number st) url sel (required_keys env) (seen_titles st) (usage st) =
           (Inr (recs, True), seen', u')"
  shows "run_session b config =
           (validate_response \<lparr>items = all_items st,
                               stats = \<lparr>total_items = length (all_items st), pages_crawled = page_number st,
                                        llm_usage = get_usage_stats b u'\<rparr>\<rparr>,
            trace st @ [FetchPage (page_number st), CloseCrawler])"
proof -
  have c: "cfg env = config" using assms(1) by (rule setup_env_cfg)
  from assms(3-5) [folded c] have "crawl_iteration (fetch_page b) env st =
      Break (st\<lparr>seen_titles := seen', usage := u', trace := trace st @ [FetchPage (page_number st)]\<rparr>)"
    by (rule crawl_iteration_stops) simp
  from run_session_reach_Break [OF assms(1,2) this] show ?thesis
    by (simp add: make_response_def)
qed

theorem no_results_page_counted_witness:
  "run_session (backend_of (static_site pages_A Suc)) DEFAULT_CONFIG =
     (Inr \<lparr>items = [clinic 1, clinic 2, clinic 3, clinic 4],
           stats = \<lparr>total_items = 4, pages_crawled = 3, llm_usage = JInt 3\<rparr>\<rparr>,
      [OpenCrawler, FetchPage 1, Sleep (JInt 2), FetchPage 2, Sleep (JInt 2), FetchPage 3, CloseCrawler])"
proof -
  let ?b = "backend_of (static_site pages_A Suc)"
  let ?s1 = "\<lparr>page_number = 2, all_items = [clinic 1, clinic 2], seen_titles = {JInt 1, JInt 2}, usage = 1::nat,
              trace = [OpenCrawler, FetchPage 1, Sleep (JInt 2)]\<rparr>"
  let ?s2 = "\<lparr>page_number = 3, all_items = [clinic 1, clinic 2, clinic 3, clinic 4],
              seen_titles = {JInt 1, JInt 2, JInt 3, JInt 4}, usage = 2::nat,
              trace = [OpenCrawler, FetchPage 1, Sleep (JInt 2), FetchPage 2, Sleep (JInt 2)]\<rparr>"
  have env: "setup_env DEFAULT_CONFIG = Inr (dental_env, JObj DEFAULT_LLM_CONFIG)"
    by (simp add: eval_rules)
  have c1: "crawl_iteration (fetch_page ?b) dental_env (init_loop_state (get_llm_strategy ?b (JObj DEFAULT_LLM_CONFIG))) =
      Continue ?s1"
    by (simp add: eval_rules init_loop_state_def insert_commute)
  have c2: "crawl_iteration (fetch_page ?b) dental_env ?s1 = Continue ?s2"
    by (simp add: eval_rules insert_commute)
  have r: "iter_reach (fetch_page ?b) dental_env (init_loop_state (get_llm_strategy ?b (JObj DEFAULT_LLM_CONFIG))) ?s2"
    by (rule iter_reach.step [OF iter_reach.step [OF iter_reach.start c1] c2])
  have u: "py_getitem DEFAULT_CONFIG ''BASE_URL'' = Inr (JStr ''https://www.opencare.com/dentists/new-york-ny/'')"
    and sl: "py_getitem DEFAULT_CONFIG ''CSS_SELECTOR'' = Inr dental_selector"
    by (simp_all add: eval_rules)
  have f: "fetch_page ?b 3 (JStr ''https://www.opencare.com/dentists/new-york-ny/'') dental_selector
             (required_keys dental_env) {JInt 1, JInt 2, JInt 3, JInt 4} 2 =
           (Inr ([], True), {JInt 1, JInt 2, JInt 3, JInt 4}, 3)"
    by (simp add: eval_rules)
  from no_results_page_counted [OF env r u sl] f show ?thesis
    by (simp add: eval_rules)
qed

text \<open>
  Scenario B of the specification: page 1 signals no results. The answer is a valid empty result with
  \<open>total_items = 0\<close> and \<open>pages_crawled = 1\<close>, not an error.
\<close>

theorem scenario_B_no_results:
  "crawl registry (backend_of (static_site (\<lambda>_. None) Suc)) ''secret'' (Some ''secret'') dental_request =
     (HTTP_OK \<lparr>items = [], stats = \<lparr>total_items = 0, pages_crawled = 1, llm_usage = JInt 1\<rparr>\<rparr>,
      [OpenCrawler, FetchPage 1, CloseCrawler])"
  by (simp add: eval_rules)

text \<open>
  Scenario C of the specification, through an inline configuration with a cap of two pages: page 1
  yields three clinics, page 2 the same three and a new one. After two pages the answer
  holds four clinics, each once; the delay defaults to 2.
\<close>

theorem scenario_C_dedup_across_pages:
  "crawl registry (backend_of (static_site pages_C Suc)) ''secret'' (Some ''secret'')
     (custom_request (custom_crawl_config [(''MULTI_PAGE'', JBool True), (''MAX_PAGES'', JInt 2)])) =
     (HTTP_OK \<lparr>items = [clinic 1, clinic 2, clinic 3, clinic 4],
               stats = \<lparr>total_items = 4, pages_crawled = 2, llm_usage = JInt 2\<rparr>\<rparr>,
      [OpenCrawler, FetchPage 1, Sleep (JInt 2), FetchPage 2, CloseCrawler])"
  by (simp add: eval_rules)

text \<open>
  C18. python-dotenv does not override: a key exported in the server's shell wins over
  \<^verbatim>\<open>.env\<close> for the server alone. When the server was started from a shell
  exporting \<^verbatim>\<open>API_KEY=a\<close>, the client from one exporting none, and the shared
  \<^verbatim>\<open>.env\<close> sets \<^verbatim>\<open>API_KEY\<close> to another value, the server keeps \<open>a\<close>, the
  client sends the file's value, and every request of the client script is refused with
  403.
\<close>

theorem shell_key_shadows_dotenv:
  assumes "es ''API_KEY'' = Some a" and "ec ''API_KEY'' = None"
    and "map_of (dotenv_values d) ''API_KEY'' = Some (Some v)" and "a \<noteq> v"
  shows "server_API_KEY es d = a \<and> client_API_KEY ec d = Some v \<and>
         test_main (server_API_KEY es d) (client_API_KEY ec d) abs_path b =
           ((JSONAnswer (HTTP_Error 403 ''Invalid API Key''), []), (JSONAnswer (HTTP_Error 403 ''Invalid API Key''), []),
            (JSONAnswer (HTTP_Error 403 ''Invalid API Key''), []))"
proof -
  have s: "server_API_KEY es d = a" using assms(1) by (simp add: server_API_KEY_def API_KEY_def)
  have c: "client_API_KEY ec d = Some v" using assms(2,3) by (simp add: client_API_KEY_def)
  have "api_key_header (client_api_key (Some v)) \<noteq> Some a"
    using assms(4) by (simp add: client_api_key_def api_key_header_def)
  with s c show ?thesis by (simp add: test_main_rejected)
qed

theorem shell_key_shadows_dotenv_witness:
  "server_API_KEY [''API_KEY'' \<mapsto> ''old''] [(''API_KEY'', Some ''new'')] = ''old'' \<and>
   client_API_KEY Map.empty [(''API_KEY'', Some ''new'')] = Some ''new'' \<and>
   test_main (server_API_KEY [''API_KEY'' \<mapsto> ''old''] [(''API_KEY'', Some ''new'')])
     (client_API_KEY Map.empty [(''API_KEY'', Some ''new'')]) ''/srv/crawler/test_products.html'' steady_backend =
     ((JSONAnswer (HTTP_Error 403 ''Invalid API Key''), []), (JSONAnswer (HTTP_Error 403 ''Invalid API Key''), []),
            (JSONAnswer (HTTP_Error 403 ''Invalid API Key''), []))"
proof -
  have d: "map_of (dotenv_values [(''API_KEY'', Some ''new'')]) ''API_KEY'' = Some (Some ''new'')"
    by (simp add: dotenv_values_def)
  from shell_key_shadows_dotenv [of "[''API_KEY'' \<mapsto> ''old'']" "''old''" Map.empty, OF _ _ d]
  show ?thesis by simp
qed

text \<open>
  C19. When neither the server's environment nor \<^verbatim>\<open>.env\<close> gives \<^verbatim>\<open>API_KEY\<close> a
  value, the server falls back to the key written in the source: it then serves exactly
  the callers presenting \<^verbatim>\<open>default_api_key_change_me\<close>, to whom it lists the whole
  registry, while the client script, started the same way, sends no key and is refused
  with 403 on each request.
\<close>

theorem default_key_when_unset:
  assumes "es ''API_KEY'' = None" and "ec ''API_KEY'' = None"
    and "\<forall>v. map_of (dotenv_values d) ''API_KEY'' \<noteq> Some (Some v)"
  shows "server_API_KEY es d = ''default_api_key_change_me'' \<and>
         (\<forall>h. list_configs configs (server_API_KEY es d) h =
                 HTTP_OK (map (\<lambda>(name, _). (name, config_description name)) configs) \<longleftrightarrow>
               h = Some ''default_api_key_change_me'') \<and>
         test_main (server_API_KEY es d) (client_API_KEY ec d) abs_path b =
           ((JSONAnswer (HTTP_Error 403 ''Invalid API Key''), []), (JSONAnswer (HTTP_Error 403 ''Invalid API Key''), []),
            (JSONAnswer (HTTP_Error 403 ''Invalid API Key''), []))"
proof -
  have u: "load_dotenv d env ''API_KEY'' = None" if "env ''API_KEY'' = None" for env
    using that assms(3) by (simp split: option.split)
  have s: "server_API_KEY es d = ''default_api_key_change_me''"
    using u [of es, OF assms(1)] by (simp add: server_API_KEY_def API_KEY_def)
  have c: "client_API_KEY ec d = None" using u [of ec, OF assms(2)] by (simp add: client_API_KEY_def)
  have l: "list_configs configs ''default_api_key_change_me'' h =
             HTTP_OK (map (\<lambda>(name, _). (name, config_description name)) configs) \<longleftrightarrow>
           h = Some ''default_api_key_change_me''" for h
    by (auto simp: list_configs_def get_api_key_def api_key_header_def http_error_def split: option.splits)
  have "test_main ''default_api_key_change_me'' None abs_path b =
          ((JSONAnswer (HTTP_Error 403 ''Invalid API Key''), []), (JSONAnswer (HTTP_Error 403 ''Invalid API Key''), []),
            (JSONAnswer (HTTP_Error 403 ''Invalid API Key''), []))"
    by (rule test_main_rejected) (simp add: client_api_key_def api_key_header_def)
  with s c l show ?thesis by simp
qed

theorem default_key_when_unset_witness:
  "server_API_KEY Map.empty [(''DEEPSEEK_API_KEY'', Some ''sk-1'')] = ''default_api_key_change_me'' \<and>
   list_configs registry (server_API_KEY Map.empty [(''DEEPSEEK_API_KEY'', Some ''sk-1'')])
       (Some ''default_api_key_change_me'') =
     HTTP_OK [(''dental'', ''For dental scraping''), (''minimal'', ''For minimal scraping''),
              (''detailed'', ''For detailed scraping''), (''test'', ''Custom configuration'')] \<and>
   test_main (server_API_KEY Map.empty [(''DEEPSEEK_API_KEY'', Some ''sk-1'')])
     (client_API_KEY Map.empty [(''DEEPSEEK_API_KEY'', Some ''sk-1'')]) ''/srv/crawler/test_products.html''
     steady_backend =
     ((JSONAnswer (HTTP_Error 403 ''Invalid API Key''), []), (JSONAnswer (HTTP_Error 403 ''Invalid API Key''), []),
            (JSONAnswer (HTTP_Error 403 ''Invalid API Key''), []))"
proof -
  have d: "\<forall>v. map_of (dotenv_values [(''DEEPSEEK_API_KEY'', Some ''sk-1'')]) ''API_KEY'' \<noteq> Some (Some v)"
    by (simp add: dotenv_values_def)
  have reg: "map (\<lambda>(name, _). (name, config_description name)) registry =
     [(''dental'', ''For dental scraping''), (''minimal'', ''For minimal scraping''),
      (''detailed'', ''For detailed scraping''), (''test'', ''Custom configuration'')]"
    by (simp add: registry_def CONFIGS_def config_description_def)
  note w = default_key_when_unset [of Map.empty Map.empty, OF refl refl d, of registry
      "''/srv/crawler/test_products.html''" steady_backend]
  then have "list_configs registry (server_API_KEY Map.empty [(''DEEPSEEK_API_KEY'', Some ''sk-1'')])
       (Some ''default_api_key_change_me'') = HTTP_OK (map (\<lambda>(name, _). (name, config_description name)) registry)"
    by blast
  then have "list_configs registry (server_API_KEY Map.empty [(''DEEPSEEK_API_KEY'', Some ''sk-1'')])
       (Some ''default_api_key_change_me'') =
     HTTP_OK [(''dental'', ''For dental scraping''), (''minimal'', ''For minimal scraping''),
              (''detailed'', ''For detailed scraping''), (''test'', ''Custom configuration'')]"
    by (simp only: reg)
  with w show ?thesis by blast
qed

text \<open>
  C20. When the \<^verbatim>\<open>API_KEY\<close> variable is set to the empty string, no request is
  ever authenticated: FastAPI delivers an empty header as no header.
\<close>

theorem crawl_empty_api_key_rejects_all:
  "crawl configs b (API_KEY (Some [])) hdr req = (HTTP_Error 403 ''Invalid API Key'', [])"
  by (auto simp: crawl_def API_KEY_def api_key_header_def get_api_key_def http_error_def
           split: option.splits)

text \<open>
  C21. A configuration whose crawler section has no \<open>MAX_PAGES\<close> fetches at most one
  page, even with \<open>MULTI_PAGE\<close> on: the default cap is 1.
\<close>

theorem missing_max_pages_single_fetch:
  assumes "map_of kvs ''CRAWLER_CONFIG'' = Some (JObj cc)" and "map_of cc ''MAX_PAGES'' = None"
    and "run_session b (JObj kvs) = (r, tr)"
  shows "fetch_count tr \<le> 1"
proof (cases "setup_env (JObj kvs)")
  case (Inl e)
  with assms(3) show ?thesis by (simp add: run_session_def)
next
  case (Inr el)
  then obtain env l where env: "setup_env (JObj kvs) = Inr (env, l)" by (cases el) auto
  with assms(1,2) have "max_pages env = JInt 1"
    by (auto simp: setup_env_def split: sum.splits)
  with run_session_fetch_count [OF assms(3) env] show ?thesis by simp
qed

theorem missing_max_pages_single_fetch_witness:
  "map_of (custom_crawl_config [(''MULTI_PAGE'', JBool True)]) ''CRAWLER_CONFIG'' =
     Some (JObj [(''MULTI_PAGE'', JBool True)]) \<and>
   map_of [(''MULTI_PAGE'', JBool True)] ''MAX_PAGES'' = None \<and>
   run_session steady_backend (JObj (custom_crawl_config [(''MULTI_PAGE'', JBool True)])) =
     (Inr \<lparr>items = [clinic 1], stats = \<lparr>total_items = 1, pages_crawled = 1, llm_usage = JInt 1\<rparr>\<rparr>,
      [OpenCrawler, FetchPage 1, CloseCrawler]) \<and>
   fetch_count [OpenCrawler, FetchPage 1, CloseCrawler] \<le> 1"
proof -
  have c: "map_of (custom_crawl_config [(''MULTI_PAGE'', JBool True)]) ''CRAWLER_CONFIG'' =
     Some (JObj [(''MULTI_PAGE'', JBool True)])" by (simp add: eval_rules)
  have m: "map_of [(''MULTI_PAGE'', JBool True)] ''MAX_PAGES'' = None" by simp
  have run: "run_session steady_backend (JObj (custom_crawl_config [(''MULTI_PAGE'', JBool True)])) =
     (Inr \<lparr>items = [clinic 1], stats = \<lparr>total_items = 1, pages_crawled = 1, llm_usage = JInt 1\<rparr>\<rparr>,
      [OpenCrawler, FetchPage 1, CloseCrawler])" by (simp add: eval_rules)
  from missing_max_pages_single_fetch [OF c m run] c m run show ?thesis by simp
qed

text \<open>
  C22. A \<open>MAX_PAGES\<close> that is a string fails only when it is compared, for every
  backend and configuration: after a first page with records, a truthy
  \<open>MULTI_PAGE\<close> makes the comparison raise \<open>TypeError\<close> (the page's records are
  lost and the crawler is closed), while a falsy one short-circuits the \<open>or\<close> and the
  session answers with that page.
\<close>

theorem string_max_pages_fails_after_first_page:
  assumes "setup_env config = Inr (env, l)" and "max_pages env = JStr s"
    and "py_getitem config ''BASE_URL'' = Inr url" and "py_getitem config ''CSS_SELECTOR'' = Inr sel"
    and "fetch_page b 1 url sel (required_keys env) {} (get_llm_strategy b l) = (Inr (recs, False), seen', u')"
    and "recs \<noteq> []"
  shows "run_session b config =
           (if truthy (multi_page env) then (Inl TypeError, [OpenCrawler, FetchPage 1, CloseCrawler])
            else (validate_response \<lparr>items = recs, stats = \<lparr>total_items = length recs, pages_crawled = 1,
                                                       llm_usage = get_usage_stats b u'\<rparr>\<rparr>,
                  [OpenCrawler, FetchPage 1, CloseCrawler]))"
proof -
  have c: "cfg env = config" using assms(1) by (rule setup_env_cfg)
  let ?s0 = "init_loop_state (get_llm_strategy b l)"
  let ?s2 = "?s0\<lparr>seen_titles := seen', usage := u', trace := [OpenCrawler, FetchPage 1], all_items := recs\<rparr>"
  have "crawl_iteration (fetch_page b) env ?s0 =
          (if truthy (multi_page env) then Raise TypeError ?s2 else Break ?s2)"
    using assms(2-6) c by (simp add: crawl_iteration_def init_loop_state_def Let_def)
  then have "crawl_loop (fetch_page b) env ?s0 =
          (if truthy (multi_page env) then Inl (TypeError, ?s2) else Inr ?s2)"
    by (simp add: crawl_loop.simps [of "fetch_page b" env ?s0])
  with assms(1) show ?thesis
    by (simp add: run_session_def make_response_def init_loop_state_def)
qed

theorem string_max_pages_fails_after_first_page_witness:
  "run_session steady_backend
     (JObj (custom_crawl_config [(''MULTI_PAGE'', JBool True), (''MAX_PAGES'', JStr ''5'')])) =
     (Inl TypeError, [OpenCrawler, FetchPage 1, CloseCrawler])"
proof -
  let ?c = "JObj (custom_crawl_config [(''MULTI_PAGE'', JBool True), (''MAX_PAGES'', JStr ''5'')])"
  let ?env = "\<lparr>cfg = ?c, required_keys = JList [JStr ''name''], multi_page = JBool True,
               max_pages = JStr ''5'', delay = JInt 2\<rparr>"
  have env: "setup_env ?c = Inr (?env, JObj [(''INSTRUCTION'', JStr ''Extract the clinics'')])"
    by (simp add: eval_rules)
  have u: "py_getitem ?c ''BASE_URL'' = Inr (JStr ''https://example.com/clinics'')"
    and sl: "py_getitem ?c ''CSS_SELECTOR'' = Inr (JStr ''div.card'')"
    by (simp_all add: eval_rules)
  have f: "fetch_page steady_backend 1 (JStr ''https://example.com/clinics'') (JStr ''div.card'')
             (required_keys ?env) {} (get_llm_strategy steady_backend (JObj [(''INSTRUCTION'', JStr ''Extract the clinics'')])) =
           (Inr ([clinic 1], False), {}, 1)"
    by (simp add: steady_backend_def)
  from string_max_pages_fails_after_first_page [OF env _ u sl f] show ?thesis by simp
qed

section \<open>Usage statistics\<close>

text \<open>
  C23. On a site with fixed pages, the reported LLM usage is the strategy's fresh state
  advanced once per fetched page: \<open>pages_crawled\<close> extraction calls, the page that
  ended the crawl included.
\<close>

theorem crawl_usage_one_call_per_page:
  assumes "fetch_page b = fetch_and_process_page idf (static_site pg tick)"
    and "setup_env config = Inr (env, l)" and "run_session b config = (Inr resp, tr)"
  shows "llm_usage (stats resp) =
           get_usage_stats b ((tick ^^ nat (pages_crawled (stats resp))) (get_llm_strategy b l))"
proof -
  from assms(3) obtain env' l' st where s: "setup_env config = Inr (env', l')" and
    loop: "crawl_loop (fetch_page b) env' (init_loop_state (get_llm_strategy b l')) = Inr st" and
    resp: "resp = make_response b st"
    by (rule run_session_Inr)
  from s assms(2) have "env' = env" "l' = l" by simp_all
  with loop assms(1) have "crawl_loop (fetch_and_process_page idf (static_site pg tick)) env
      (init_loop_state (get_llm_strategy b l)) = Inr st"
    by simp
  from crawl_loop_static_usage [OF this] resp show ?thesis
    by (simp add: init_loop_state_def)
qed

theorem crawl_usage_one_call_per_page_witness:
  "fetch_page (backend_of (static_site pages_A Suc)) = fetch_and_process_page ''name'' (static_site pages_A Suc) \<and>
   setup_env DEFAULT_CONFIG = Inr (dental_env, JObj DEFAULT_LLM_CONFIG) \<and>
   run_session (backend_of (static_site pages_A Suc)) DEFAULT_CONFIG =
     (Inr \<lparr>items = [clinic 1, clinic 2, clinic 3, clinic 4],
           stats = \<lparr>total_items = 4, pages_crawled = 3, llm_usage = JInt 3\<rparr>\<rparr>,
      [OpenCrawler, FetchPage 1, Sleep (JInt 2), FetchPage 2, Sleep (JInt 2), FetchPage 3,
       CloseCrawler]) \<and>
   JInt 3 = get_usage_stats (backend_of (static_site pages_A Suc)) ((Suc ^^ 3) 0)"
proof -
  have f: "fetch_page (backend_of (static_site pages_A Suc)) = fetch_and_process_page ''name'' (static_site pages_A Suc)"
    by (simp add: backend_of_def)
  have env: "setup_env DEFAULT_CONFIG = Inr (dental_env, JObj DEFAULT_LLM_CONFIG)"
    by (simp add: eval_rules)
  have run: "run_session (backend_of (static_site pages_A Suc)) DEFAULT_CONFIG =
     (Inr \<lparr>items = [clinic 1, clinic 2, clinic 3, clinic 4],
           stats = \<lparr>total_items = 4, pages_crawled = 3, llm_usage = JInt 3\<rparr>\<rparr>,
      [OpenCrawler, FetchPage 1, Sleep (JInt 2), FetchPage 2, Sleep (JInt 2), FetchPage 3,
       CloseCrawler])"
    by (simp add: eval_rules)
  from crawl_usage_one_call_per_page [OF f env run] f env run show ?thesis
    by (simp add: backend_of_def)
qed

text \<open>
  C24. With the page fetcher \<open>fetch_and_process_page\<close>, every record of a successful
  session carries every key of the configuration's \<open>REQUIRED_KEYS\<close>: incomplete
  records are dropped on every page and never reach the response.
\<close>

theorem crawl_items_complete:
  assumes "fetch_page b = fetch_and_process_page idf raw"
    and "run_session b config = (Inr resp, tr)"
    and "py_getitem config ''REQUIRED_KEYS'' = Inr req" and "json_strings req = Some ks"
  shows "list_all (is_complete ks) (items resp)"
proof -
  from assms(2) obtain env l st where s: "setup_env config = Inr (env, l)"
    and loop: "crawl_loop (fetch_page b) env (init_loop_state (get_llm_strategy b l)) = Inr st"
    and resp: "resp = make_response b st"
    by (rule run_session_Inr)
  from s assms(3) have "required_keys env = req"
    by (simp add: setup_env_required_keys)
  with assms(1,4) have "keeps_complete (required_keys env) ks (fetch_page b)"
    by (simp add: fetch_and_process_page_keeps_complete)
  from crawl_loop_Inr_keeps_complete [OF loop this] resp show ?thesis
    by simp
qed

theorem crawl_items_complete_witness:
  "run_session (backend_of (static_site pages_partial Suc)) DEFAULT_CONFIG =
     (Inr \<lparr>items = [clinic 1, clinic 2],
           stats = \<lparr>total_items = 2, pages_crawled = 2, llm_usage = JInt 2\<rparr>\<rparr>,
      [OpenCrawler, FetchPage 1, Sleep (JInt 2), FetchPage 2, CloseCrawler]) \<and>
   list_all (is_complete [''name'', ''location'', ''description'', ''rating''])
     [clinic 1, clinic 2]"
proof -
  have f: "fetch_page (backend_of (static_site pages_partial Suc)) =
             fetch_and_process_page ''name'' (static_site pages_partial Suc)"
    by (simp add: backend_of_def)
  have run: "run_session (backend_of (static_site pages_partial Suc)) DEFAULT_CONFIG =
     (Inr \<lparr>items = [clinic 1, clinic 2],
           stats = \<lparr>total_items = 2, pages_crawled = 2, llm_usage = JInt 2\<rparr>\<rparr>,
      [OpenCrawler, FetchPage 1, Sleep (JInt 2), FetchPage 2, CloseCrawler])"
    by (simp add: eval_rules)
  have rk: "py_getitem DEFAULT_CONFIG ''REQUIRED_KEYS'' = Inr (JList DEFAULT_REQUIRED_KEYS)"
    by (simp add: eval_rules)
  have ks: "json_strings (JList DEFAULT_REQUIRED_KEYS) = Some [''name'', ''location'', ''description'', ''rating'']"
    by (simp add: eval_rules)
  from crawl_items_complete [OF f run rk ks] run show ?thesis
    by simp
qed

text \<open>
  C25. A delay that \<open>asyncio.sleep\<close> rejects (not a number) is not checked before the
  crawl: every session of such a configuration fetches at most one page, and when the
  first page has records and multi-page crawling with a cap of at least 2 is on, the
  session fails with the sleep's exception after that fetch, its records discarded, and
  the crawler closed.
\<close>

theorem bad_delay_fails_at_first_sleep:
  assumes "setup_env config = Inr (env, l)" and "py_sleep_check (delay env) = Some e"
  shows "fetch_count (snd (run_session b config)) \<le> 1 \<and>
         (truthy (multi_page env) \<and> max_pages env = JInt N \<and> 2 \<le> N \<and>
          py_getitem config ''BASE_URL'' = Inr url \<and> py_getitem config ''CSS_SELECTOR'' = Inr sel \<and>
          always_fetches (fetch_page b) url sel (required_keys env) \<longrightarrow>
            run_session b config = (Inl e, [OpenCrawler, FetchPage 1, CloseCrawler]))"
proof -
  let ?s0 = "init_loop_state (get_llm_strategy b l)"
  have c: "cfg env = config" using assms(1) by (rule setup_env_cfg)
  have run: "run_session b config =
               (case crawl_loop (fetch_page b) env ?s0 of
                  Inl (e, st) \<Rightarrow> (Inl e, trace st @ [CloseCrawler])
                | Inr st \<Rightarrow> (validate_response (make_response b st), trace st @ [CloseCrawler]))"
    using assms(1) by (simp add: run_session_def)
  have one: "fetch_count (snd (run_session b config)) \<le> 1"
    using crawl_loop_bad_delay [OF assms(2), of "fetch_page b" ?s0]
  proof (elim disjE exE conjE)
    fix s' assume "crawl_loop (fetch_page b) env ?s0 = Inr s'" "crawl_iteration (fetch_page b) env ?s0 = Break s'"
    with run show ?thesis by (auto dest: crawl_iteration_Break)
  next
    fix e' s' assume "crawl_loop (fetch_page b) env ?s0 = Inl (e', s')"
      "crawl_iteration (fetch_page b) env ?s0 = Raise e' s'"
    with run show ?thesis by (auto dest: crawl_iteration_Raise)
  qed
  have "run_session b config = (Inl e, [OpenCrawler, FetchPage 1, CloseCrawler])"
    if "truthy (multi_page env)" "max_pages env = JInt N" "2 \<le> N"
      "py_getitem config ''BASE_URL'' = Inr url" "py_getitem config ''CSS_SELECTOR'' = Inr sel"
      "always_fetches (fetch_page b) url sel (required_keys env)"
  proof -
    from that c assms(2) obtain s' where "crawl_iteration (fetch_page b) env ?s0 = Raise e s'"
      "trace s' = [OpenCrawler, FetchPage 1]"
      using crawl_iteration_fails_at_sleep [of env url sel N ?s0 e "fetch_page b"] by auto
    with run show ?thesis by (simp add: crawl_loop.simps [of "fetch_page b" env ?s0])
  qed
  with one show ?thesis by blast
qed

theorem bad_delay_fails_at_first_sleep_witness:
  "run_session steady_backend bad_delay_config = (Inl TypeError, [OpenCrawler, FetchPage 1, CloseCrawler]) \<and>
   fetch_count [OpenCrawler, FetchPage 1, CloseCrawler] \<le> 1"
proof -
  let ?env = "\<lparr>cfg = bad_delay_config, required_keys = JList [JStr ''name''], multi_page = JBool True,
               max_pages = JInt 3, delay = JStr ''2''\<rparr>"
  have env: "setup_env bad_delay_config = Inr (?env, JObj [(''INSTRUCTION'', JStr ''Extract the clinics'')])"
    by (simp add: eval_rules)
  have d: "py_sleep_check (delay ?env) = Some TypeError" by simp
  have u: "py_getitem bad_delay_config ''BASE_URL'' = Inr (JStr ''https://example.com/clinics'')"
    and sl: "py_getitem bad_delay_config ''CSS_SELECTOR'' = Inr (JStr ''div.card'')"
    by (simp_all add: eval_rules)
  have f: "always_fetches (fetch_page steady_backend) (JStr ''https://example.com/clinics'')
             (JStr ''div.card'') (required_keys ?env)"
    by (simp add: always_fetches_def steady_backend_def)
  from bad_delay_fails_at_first_sleep [OF env d, of steady_backend 3] u sl f show ?thesis
    by simp
qed

text \<open>
  C26. Records without an identity are always novel (specification section 4.2): on a
  site with fixed pages, the records of a successful session that lack the identity
  field are exactly the complete records without it of every fetched page, in order,
  repetitions included; deduplication never drops them.
\<close>

theorem crawl_keeps_unkeyed_records:
  assumes "fetch_page b = fetch_and_process_page idf (static_site pg tick)"
    and "setup_env config = Inr (env, l)" and "json_strings (required_keys env) = Some ks"
    and "run_session b config = (Inr resp, tr)"
  shows "filter (\<lambda>r. identity_key idf r = None) (items resp) =
         filter (\<lambda>r. identity_key idf r = None)
           (concat (map (site_page ks pg) [1..pages_crawled (stats resp)]))"
proof -
  from assms(4) obtain env' l' st where s: "setup_env config = Inr (env', l')" and
    loop: "crawl_loop (fetch_page b) env' (init_loop_state (get_llm_strategy b l')) = Inr st" and
    resp: "resp = make_response b st"
    by (rule run_session_Inr)
  from s assms(2) have "env' = env" by simp
  with loop assms(1) have "crawl_loop (fetch_and_process_page idf (static_site pg tick)) env
      (init_loop_state (get_llm_strategy b l')) = Inr st"
    by simp
  from crawl_loop_static_site [OF this assms(3)] resp show ?thesis
    by (simp add: dedup_filter_unkeyed)
qed

theorem crawl_keeps_unkeyed_records_witness:
  "run_session (url_backend (static_site pages_unkeyed Suc)) three_page_config =
     (Inr \<lparr>items = [JObj [(''name'', JStr ''Walk-in Dental'')],
                     JObj [(''name'', JStr ''Smile Studio''), (''url'', JStr ''/smile-studio'')],
                     JObj [(''name'', JStr ''Walk-in Dental'')]],
           stats = \<lparr>total_items = 3, pages_crawled = 3, llm_usage = JInt 3\<rparr>\<rparr>,
      [OpenCrawler, FetchPage 1, Sleep (JInt 2), FetchPage 2, Sleep (JInt 2), FetchPage 3,
       CloseCrawler]) \<and>
   filter (\<lambda>r. identity_key ''url'' r = None)
     (concat (map (site_page [''name''] pages_unkeyed) [1..3])) =
     [JObj [(''name'', JStr ''Walk-in Dental'')], JObj [(''name'', JStr ''Walk-in Dental'')]]"
proof -
  let ?env = "\<lparr>cfg = three_page_config, required_keys = JList [JStr ''name''], multi_page = JBool True,
               max_pages = JInt 3, delay = JInt 2\<rparr>"
  have f: "fetch_page (url_backend (static_site pages_unkeyed Suc)) =
             fetch_and_process_page ''url'' (static_site pages_unkeyed Suc)"
    by (simp add: url_backend_def)
  have env: "setup_env three_page_config = Inr (?env, JObj [(''INSTRUCTION'', JStr ''Extract the clinics'')])"
    by (simp add: eval_rules)
  have ks: "json_strings (required_keys ?env) = Some [''name'']" by simp
  have run: "run_session (url_backend (static_site pages_unkeyed Suc)) three_page_config =
     (Inr \<lparr>items = [JObj [(''name'', JStr ''Walk-in Dental'')],
                     JObj [(''name'', JStr ''Smile Studio''), (''url'', JStr ''/smile-studio'')],
                     JObj [(''name'', JStr ''Walk-in Dental'')]],
           stats = \<lparr>total_items = 3, pages_crawled = 3, llm_usage = JInt 3\<rparr>\<rparr>,
      [OpenCrawler, FetchPage 1, Sleep (JInt 2), FetchPage 2, Sleep (JInt 2), FetchPage 3,
       CloseCrawler])"
    by (simp add: eval_rules)
  from crawl_keeps_unkeyed_records [OF f env ks run] run show ?thesis
    by (simp add: eval_rules)
qed

text \<open>
  C27. No data is not an error (specification section 7): whatever the backend, when
  the first fetch returns no records, with or without the "no results" signal, the
  session succeeds with no records, \<open>total_items = 0\<close> and \<open>pages_crawled = 1\<close>, after
  exactly one fetch, and reports the usage after that fetch.
\<close>

theorem first_page_empty_gives_empty_result:
  assumes "setup_env config = Inr (env, l)"
    and "py_getitem config ''BASE_URL'' = Inr url" and "py_getitem config ''CSS_SELECTOR'' = Inr sel"
    and "fetch_page b 1 url sel (required_keys env) {} (get_llm_strategy b l) = (Inr ([], nr), seen', u')"
  shows "run_session b config =
           (Inr \<lparr>items = [], stats = \<lparr>total_items = 0, pages_crawled = 1,
                                      llm_usage = get_usage_stats b u'\<rparr>\<rparr>,
            [OpenCrawler, FetchPage 1, CloseCrawler])"
proof -
  have c: "cfg env = config" using assms(1) by (rule setup_env_cfg)
  let ?s0 = "init_loop_state (get_llm_strategy b l)"
  have "crawl_iteration (fetch_page b) env ?s0 =
          Break (?s0\<lparr>seen_titles := seen', usage := u', trace := [OpenCrawler, FetchPage 1]\<rparr>)"
    using assms(2-4) c by (cases nr) (simp_all add: crawl_iteration_def init_loop_state_def Let_def)
  then have "crawl_loop (fetch_page b) env ?s0 =
          Inr (?s0\<lparr>seen_titles := seen', usage := u', trace := [OpenCrawler, FetchPage 1]\<rparr>)"
    by (simp add: crawl_loop.simps [of "fetch_page b" env ?s0])
  with assms(1) show ?thesis
    by (simp add: run_session_def make_response_def validate_response_def init_loop_state_def)
qed

theorem first_page_empty_gives_empty_result_witness:
  "run_session (backend_of (static_site (\<lambda>p. None) Suc)) DEFAULT_CONFIG =
     (Inr \<lparr>items = [], stats = \<lparr>total_items = 0, pages_crawled = 1, llm_usage = JInt 1\<rparr>\<rparr>,
      [OpenCrawler, FetchPage 1, CloseCrawler])"
proof -
  have env: "setup_env DEFAULT_CONFIG = Inr (dental_env, JObj DEFAULT_LLM_CONFIG)"
    by (simp add: eval_rules)
  have u: "py_getitem DEFAULT_CONFIG ''BASE_URL'' = Inr (JStr ''https://www.opencare.com/dentists/new-york-ny/'')"
    and sl: "py_getitem DEFAULT_CONFIG ''CSS_SELECTOR'' = Inr dental_selector"
    by (simp_all add: eval_rules)
  have f: "fetch_page (backend_of (static_site (\<lambda>p. None) Suc)) 1
             (JStr ''https://www.opencare.com/dentists/new-york-ny/'') dental_selector
             (required_keys dental_env) {} (get_llm_strategy (backend_of (static_site (\<lambda>p. None) Suc))
               (JObj DEFAULT_LLM_CONFIG)) = (Inr ([], True), {}, 1)"
    by (simp add: eval_rules)
  from first_page_empty_gives_empty_result [OF env u sl f] show ?thesis
    by (simp add: backend_of_def)
qed

text \<open>
  C28. An empty \<^verbatim>\<open>config_name\<close> is falsy in Python: a request naming the
  configuration \<open>""\<close> is answered exactly as one naming none, i.e. from its
  \<^verbatim>\<open>custom_config\<close>, or with 400 when that is missing or empty.
\<close>

theorem crawl_empty_config_name_is_absent:
  "crawl configs b k hdr (req\<lparr>config_name := Some []\<rparr>) = crawl configs b k hdr (req\<lparr>config_name := None\<rparr>)"
proof -
  have r: "resolve_config configs (req\<lparr>config_name := Some []\<rparr>) =
           resolve_config configs (req\<lparr>config_name := None\<rparr>)"
    by (simp add: resolve_config_def truthy_opt_def)
  show ?thesis unfolding crawl_def r by (rule refl)
qed

text \<open>
  C29. The loop reads \<^verbatim>\<open>MULTI_PAGE\<close> only through Python truthiness: for every
  fetcher, configuration and loop state, two values with the same truthiness give the
  same run, so the string \<^verbatim>\<open>"false"\<close> crawls exactly as \<open>True\<close> does.
\<close>

theorem multi_page_truthiness_only:
  "truthy m = truthy (multi_page env) \<Longrightarrow>
   crawl_loop f (env\<lparr>multi_page := m\<rparr>) st = crawl_loop f env st"
proof (induction f env st rule: crawl_loop.induct)
  case (1 f env st)
  show ?case
    using "1.IH" [OF _ "1.prems"] crawl_iteration_multi_page [OF "1.prems", of f st]
    by (simp add: crawl_loop.simps [of f _ st] split: step.split)
qed

theorem multi_page_truthiness_only_witness:
  "truthy (JStr ''false'') = truthy (multi_page dental_env) \<and>
   crawl_loop (fetch_page steady_backend) (dental_env\<lparr>multi_page := JStr ''false''\<rparr>) (init_loop_state 0) =
   crawl_loop (fetch_page steady_backend) dental_env (init_loop_state 0)"
proof -
  have t: "truthy (JStr ''false'') = truthy (multi_page dental_env)" by (simp add: dental_env_def)
  from multi_page_truthiness_only [OF t, of "fetch_page steady_backend" "init_loop_state 0"] t
  show ?thesis by simp
qed

text \<open>
  C34. Naming a registered configuration is the same as sending it inline: when the
  registry maps a non-empty name to a non-empty dict, a request naming it (whatever its
  \<^verbatim>\<open>custom_config\<close>) is answered exactly as a request carrying that dict as its
  \<^verbatim>\<open>custom_config\<close>, with the same effects.
\<close>

theorem crawl_named_equals_inline:
  assumes "map_of configs n = Some (JObj kvs)" and "n \<noteq> []" and "kvs \<noteq> []"
  shows "crawl configs b k hdr \<lparr>config_name = Some n, custom_config = c\<rparr> =
         crawl configs b k hdr \<lparr>config_name = None, custom_config = Some kvs\<rparr>"
proof -
  from assms have r: "resolve_config configs \<lparr>config_name = Some n, custom_config = c\<rparr> =
      resolve_config configs \<lparr>config_name = None, custom_config = Some kvs\<rparr>"
    by (simp add: resolve_config_def truthy_opt_def)
  show ?thesis unfolding crawl_def r by (rule refl)
qed

theorem crawl_named_equals_inline_witness:
  "map_of registry ''dental'' = Some (JObj DEFAULT_CONFIG_ITEMS) \<and> ''dental'' \<noteq> [] \<and>
   DEFAULT_CONFIG_ITEMS \<noteq> [] \<and>
   crawl registry (backend_of (static_site pages_A Suc)) ''secret'' (Some ''secret'')
     \<lparr>config_name = None, custom_config = Some DEFAULT_CONFIG_ITEMS\<rparr> =
     (HTTP_OK \<lparr>items = [clinic 1, clinic 2, clinic 3, clinic 4],
              stats = \<lparr>total_items = 4, pages_crawled = 3, llm_usage = JInt 3\<rparr>\<rparr>,
      [OpenCrawler, FetchPage 1, Sleep (JInt 2), FetchPage 2, Sleep (JInt 2), FetchPage 3,
       CloseCrawler])"
proof -
  have m: "map_of registry ''dental'' = Some (JObj DEFAULT_CONFIG_ITEMS)"
    by (simp add: registry_def CONFIGS_def DEFAULT_CONFIG_def)
  have ne: "''dental'' \<noteq> []" and ne2: "DEFAULT_CONFIG_ITEMS \<noteq> []"
    by (simp_all add: DEFAULT_CONFIG_ITEMS_def)
  have run: "crawl registry (backend_of (static_site pages_A Suc)) ''secret'' (Some ''secret'')
      \<lparr>config_name = Some ''dental'', custom_config = None\<rparr> =
     (HTTP_OK \<lparr>items = [clinic 1, clinic 2, clinic 3, clinic 4],
              stats = \<lparr>total_items = 4, pages_crawled = 3, llm_usage = JInt 3\<rparr>\<rparr>,
      [OpenCrawler, FetchPage 1, Sleep (JInt 2), FetchPage 2, Sleep (JInt 2), FetchPage 3,
       CloseCrawler])"
    by (simp add: eval_rules)
  from crawl_named_equals_inline [OF m ne ne2, of "backend_of (static_site pages_A Suc)" "''secret''"
      "Some ''secret''" None] run m ne ne2
  show ?thesis by simp
qed

text \<open>
  C35. An authenticated request whose pagination loop finishes is answered, with the
  crawler closed, by the response when every accumulated record is a dict, and otherwise
  by 500: \<^verbatim>\<open>CrawlerResponse\<close> rejects the records after the whole crawl has run
  and no record reaches the client.
\<close>

theorem crawl_finished_loop_answer:
  assumes "api_key_header hdr = Some k" and "resolve_config configs req = Inr config"
    and "setup_env config = Inr (env, l)"
    and "crawl_loop (fetch_page b) env (init_loop_state (get_llm_strategy b l)) = Inr st"
  shows "crawl configs b k hdr req =
           (if list_all is_dict (all_items st) then HTTP_OK (make_response b st)
            else HTTP_Error 500 ''Internal Server Error'', trace st @ [CloseCrawler])"
proof -
  have "run_session b config = (validate_response (make_response b st), trace st @ [CloseCrawler])"
    using assms(3,4) by (simp add: run_session_def)
  with assms(1,2) show ?thesis
    by (simp add: crawl_authenticated validate_response_def make_response_def http_error_def)
qed

theorem crawl_finished_loop_answer_witness:
  "crawl registry text_backend ''k'' (Some ''k'') \<lparr>config_name = Some ''minimal'', custom_config = None\<rparr> =
     (HTTP_Error 500 ''Internal Server Error'', [OpenCrawler, FetchPage 1, CloseCrawler])"
proof -
  have h: "api_key_header (Some ''k'') = Some ''k''" by (simp add: api_key_header_def)
  have r: "resolve_config registry \<lparr>config_name = Some ''minimal'', custom_config = None\<rparr> = Inr minimal_config"
    by (simp add: eval_rules)
  have env: "setup_env minimal_config = Inr (minimal_env, JObj DEFAULT_LLM_CONFIG)"
    by (simp add: eval_rules)
  have loop: "crawl_loop (fetch_page text_backend) minimal_env (init_loop_state (get_llm_strategy text_backend (JObj DEFAULT_LLM_CONFIG))) =
      Inr \<lparr>page_number = 1, all_items = [JStr ''Smile Studio''], seen_titles = {}, usage = 1,
           trace = [OpenCrawler, FetchPage 1]\<rparr>"
    by (simp add: eval_rules)
  from crawl_finished_loop_answer [OF h r env loop] show ?thesis by simp
qed

end
